theory Spec2Isabelle
  imports Complex_Main "HOL-Library.Word" "HOL-Library.Signed_Division"
begin

section \<open>CastleApp: frame-resource ring, dirty propagation and the water feed\<close>

text \<open>
  A shallow embedding of \<^verbatim>\<open>CastleApp.cpp\<close>: the members of \<^verbatim>\<open>CastleApp\<close> that
  \<^verbatim>\<open>Update\<close> and \<^verbatim>\<open>Draw\<close> read and write become a record, every member function
  becomes a function from the record to an outcome. Direct3D command recording has no
  effect on these members and is left out; what the graphics device reports back (the
  completed fence value, an \<^verbatim>\<open>HRESULT\<close>) is an argument of the function that asks for it.
\<close>

subsection \<open>Outcomes\<close>

text \<open>
  \<^verbatim>\<open>ThrowIfFailed\<close> throws on a failed \<^verbatim>\<open>HRESULT\<close>. A null pointer that is
  dereferenced and an index past the end of a buffer are undefined behaviour in C++; the
  model stops there with an error instead of inventing a result. A host that waits on an
  event that is never signalled does not return: that is \<open>Hangs\<close>.
\<close>

datatype error = HResultFailed | NullPointer | OutOfBounds

datatype 'a outcome = Returns 'a | Throws error | Hangs

fun obind :: "'a outcome \<Rightarrow> ('a \<Rightarrow> 'b outcome) \<Rightarrow> 'b outcome" where
  "obind (Returns x) f = f x"
| "obind (Throws e) f = Throws e"
| "obind Hangs f = Hangs"

subsection \<open>Numbers\<close>

text \<open>
  \<^verbatim>\<open>UINT64\<close> and \<^verbatim>\<open>UINT\<close> are words: \<^verbatim>\<open>++mCurrentFence\<close> wraps at \<open>2^64\<close>.
  \<^verbatim>\<open>int\<close> members are integers; the only arithmetic on them is the cursor step
  (with C's truncating remainder) and the decrement of a positive dirty count.

  \<^verbatim>\<open>float\<close> is a type parameter \<open>'f\<close>. The arithmetic the code performs on it is
  a record of operations, so that nothing proved for every such record depends on how
  single precision rounds. \<open>flit\<close> is the value of a decimal literal with the suffix
  \<^verbatim>\<open>f\<close>, \<open>fint\<close> the conversion of an \<^verbatim>\<open>int\<close>.
\<close>

type_synonym UINT64 = "64 word"
type_synonym UINT = "32 word"

definition gNumFrameResources :: int where
  "gNumFrameResources = 3"

record 'f float_ops =
  fadd :: "'f \<Rightarrow> 'f \<Rightarrow> 'f"
  fsub :: "'f \<Rightarrow> 'f \<Rightarrow> 'f"
  fmul :: "'f \<Rightarrow> 'f \<Rightarrow> 'f"
  fdiv :: "'f \<Rightarrow> 'f \<Rightarrow> 'f"
  fge :: "'f \<Rightarrow> 'f \<Rightarrow> bool"
  flit :: "real \<Rightarrow> 'f"
  fint :: "int \<Rightarrow> 'f"

datatype 'f XMFLOAT2 = XMFLOAT2 (x2: 'f) (y2: 'f)
datatype 'f XMFLOAT3 = XMFLOAT3 (x3: 'f) (y3: 'f) (z3: 'f)
datatype 'f XMFLOAT4 = XMFLOAT4 (x4: 'f) (y4: 'f) (z4: 'f) (w4: 'f)

text \<open>A 4x4 matrix is its four rows; \<^verbatim>\<open>m(r, c)\<close> is column \<open>c\<close> of row \<open>r\<close>.\<close>

datatype 'f XMFLOAT4X4 =
  XMFLOAT4X4 (row0: "'f XMFLOAT4") (row1: "'f XMFLOAT4") (row2: "'f XMFLOAT4") (row3: "'f XMFLOAT4")

fun XMMatrixTranspose :: "'f XMFLOAT4X4 \<Rightarrow> 'f XMFLOAT4X4" where
  "XMMatrixTranspose (XMFLOAT4X4 (XMFLOAT4 a0 a1 a2 a3) (XMFLOAT4 b0 b1 b2 b3)
                                 (XMFLOAT4 c0 c1 c2 c3) (XMFLOAT4 d0 d1 d2 d3)) =
     XMFLOAT4X4 (XMFLOAT4 a0 b0 c0 d0) (XMFLOAT4 a1 b1 c1 d1)
                (XMFLOAT4 a2 b2 c2 d2) (XMFLOAT4 a3 b3 c3 d3)"

text \<open>The two elements \<^verbatim>\<open>UpdateWater\<close> reads and writes by reference.\<close>

definition m30 :: "'f XMFLOAT4X4 \<Rightarrow> 'f" where
  "m30 M = x4 (row3 M)"

definition m31 :: "'f XMFLOAT4X4 \<Rightarrow> 'f" where
  "m31 M = y4 (row3 M)"

fun set_m30_m31 :: "'f \<Rightarrow> 'f \<Rightarrow> 'f XMFLOAT4X4 \<Rightarrow> 'f XMFLOAT4X4" where
  "set_m30_m31 u v (XMFLOAT4X4 r0 r1 r2 (XMFLOAT4 a b c d)) =
     XMFLOAT4X4 r0 r1 r2 (XMFLOAT4 u v c d)"

text \<open>
  The DirectXMath and C library functions the code calls on \<^verbatim>\<open>float\<close> data. They are
  not part of the repository; the model takes them as they are given.
\<close>

record 'f dxmath =
  sinf :: "'f \<Rightarrow> 'f"
  cosf :: "'f \<Rightarrow> 'f"
  XMMatrixMultiply :: "'f XMFLOAT4X4 \<Rightarrow> 'f XMFLOAT4X4 \<Rightarrow> 'f XMFLOAT4X4"
  XMMatrixInverse :: "'f XMFLOAT4X4 \<Rightarrow> 'f XMFLOAT4X4"
  XMMatrixLookAtLH :: "'f XMFLOAT4 \<Rightarrow> 'f XMFLOAT4 \<Rightarrow> 'f XMFLOAT4 \<Rightarrow> 'f XMFLOAT4X4"

record 'f GameTimer =
  DeltaTime :: 'f
  TotalTime :: 'f

subsection \<open>Single precision\<close>

text \<open>
  Where a property depends on how \<^verbatim>\<open>float\<close> rounds, the operations are those of IEEE 754
  single precision on finite values: the exact result, rounded. The finite values are the reals
  \<open>m \<sqdot> 2\<^bsup>k - 149\<^esup>\<close> with \<open>\<bar>m\<bar> < 2\<^sup>2\<^sup>4\<close> and \<open>k \<le> 253\<close>, subnormal numbers included; the
  largest is \<^verbatim>\<open>FLT_MAX\<close>. A rounding is any monotone function that leaves the values of the
  format alone and sends every real within the range into the format: to nearest, towards zero
  and the two directed modes are roundings. Infinities and NaN have no counterpart; what a
  rounding does beyond the range is left open.
\<close>

definition binary32 :: "real set" where
  "binary32 = (\<lambda>(m, k). of_int m * 2 ^ k / 2 ^ 149) ` ({- (2 ^ 24) <..< 2 ^ 24} \<times> {.. 253})"

definition FLT_MAX :: real where
  "FLT_MAX = (2 ^ 24 - 1) * 2 ^ 104"

definition is_rounding :: "(real \<Rightarrow> real) \<Rightarrow> bool" where
  "is_rounding rnd \<longleftrightarrow>
     mono rnd \<and> (\<forall>x \<in> binary32. rnd x = x) \<and> (\<forall>x. \<bar>x\<bar> \<le> FLT_MAX \<longrightarrow> rnd x \<in> binary32)"

definition rounded_ops :: "(real \<Rightarrow> real) \<Rightarrow> real float_ops" where
  "rounded_ops rnd =
     \<lparr>fadd = (\<lambda>x y. rnd (x + y)), fsub = (\<lambda>x y. rnd (x - y)), fmul = (\<lambda>x y. rnd (x * y)),
      fdiv = (\<lambda>x y. rnd (x / y)), fge = (\<ge>), flit = rnd, fint = (\<lambda>i. rnd (of_int i))\<rparr>"

text \<open>Rounding towards minus infinity, as one rounding that exists.\<close>

definition round_down :: "real \<Rightarrow> real" where
  "round_down x = (if x < - FLT_MAX then x else Max {f \<in> binary32. f \<le> x})"

subsection \<open>Scene data\<close>

text \<open>
  \<^verbatim>\<open>Material\<close>, \<^verbatim>\<open>MeshGeometry\<close> and \<^verbatim>\<open>Light\<close> are declared in a header outside
  the file; the records hold the members \<^verbatim>\<open>CastleApp.cpp\<close> reads or writes. A pointer
  to a material or a geometry is the key of its entry in \<^verbatim>\<open>mMaterials\<close> or
  \<^verbatim>\<open>mGeometries\<close>, \<open>None\<close> for \<^verbatim>\<open>nullptr\<close>. The dirty count of a material is
  \<open>MatNumFramesDirty\<close>, since a field name belongs to one record.
\<close>

record 'f Material =
  MatCBIndex :: int
  MatNumFramesDirty :: int
  DiffuseAlbedo :: "'f XMFLOAT4"
  FresnelR0 :: "'f XMFLOAT3"
  Roughness :: 'f
  MatTransform :: "'f XMFLOAT4X4"

record MeshGeometry =
  VertexBufferGPU :: "nat option"

record 'f RenderItem =
  World :: "'f XMFLOAT4X4"
  TexTransform :: "'f XMFLOAT4X4"
  NumFramesDirty :: int
  ObjCBIndex :: UINT
  Mat :: "string option"
  Geo :: "string option"

record 'f Light =
  Strength :: "'f XMFLOAT3"
  FalloffStart :: 'f
  Direction :: "'f XMFLOAT3"
  FalloffEnd :: 'f
  Position :: "'f XMFLOAT3"

subsection \<open>Frame resources\<close>

text \<open>
  Modelled from the spec: \<^verbatim>\<open>FrameResource.h\<close> and \<^verbatim>\<open>UploadBuffer.h\<close> are not
  among the sources. A frame slot holds a parameter buffer for objects, one for
  materials, one for the per-pass block, a dynamic vertex buffer and a 64-bit completion
  marker. The constant structures have the fields the code assigns (here with the prefix
  \<open>cb\<close>); the object parameters are the world and the texture transform of the spec's
  data model. An upload buffer is the array of its elements and the graphics resource
  behind it; \<open>copied\<close> is a history of the element indices \<^verbatim>\<open>CopyData\<close> was
  called with, kept to count copies.
\<close>

record 'f ObjectConstants =
  cbWorld :: "'f XMFLOAT4X4"
  cbTexTransform :: "'f XMFLOAT4X4"

record 'f MaterialConstants =
  cbDiffuseAlbedo :: "'f XMFLOAT4"
  cbFresnelR0 :: "'f XMFLOAT3"
  cbRoughness :: 'f
  cbMatTransform :: "'f XMFLOAT4X4"

record 'f PassConstants =
  cbView :: "'f XMFLOAT4X4"
  cbInvView :: "'f XMFLOAT4X4"
  cbProj :: "'f XMFLOAT4X4"
  cbInvProj :: "'f XMFLOAT4X4"
  cbViewProj :: "'f XMFLOAT4X4"
  cbInvViewProj :: "'f XMFLOAT4X4"
  cbEyePosW :: "'f XMFLOAT3"
  cbRenderTargetSize :: "'f XMFLOAT2"
  cbInvRenderTargetSize :: "'f XMFLOAT2"
  cbNearZ :: 'f
  cbFarZ :: 'f
  cbTotalTime :: 'f
  cbDeltaTime :: 'f
  cbAmbientLight :: "'f XMFLOAT4"
  cbLights :: "'f Light list"

record 'f Vertex =
  Pos :: "'f XMFLOAT3"
  Normal :: "'f XMFLOAT3"
  TexC :: "'f XMFLOAT2"

record 'a UploadBuffer =
  Resource :: nat
  mMappedData :: "'a list"
  copied :: "nat list"

text \<open>
  \<^verbatim>\<open>CopyData(elementIndex, data)\<close> copies \<open>data\<close> over element \<open>elementIndex\<close> of
  the mapped memory. An index outside the buffer writes outside the mapping.
\<close>

definition CopyData :: "int \<Rightarrow> 'a \<Rightarrow> 'a UploadBuffer \<Rightarrow> 'a UploadBuffer outcome" where
  "CopyData elementIndex d b =
     (if 0 \<le> elementIndex \<and> elementIndex < int (length (mMappedData b))
      then Returns (b\<lparr>mMappedData := (mMappedData b)[nat elementIndex := d],
                      copied := copied b @ [nat elementIndex]\<rparr>)
      else Throws OutOfBounds)"

record 'f FrameResource =
  PassCB :: "'f PassConstants UploadBuffer"
  MaterialCB :: "'f MaterialConstants UploadBuffer"
  ObjectCB :: "'f ObjectConstants UploadBuffer"
  WavesVB :: "'f Vertex UploadBuffer"
  Fence :: UINT64

subsection \<open>The wave field as the application sees it\<close>

text \<open>
  Modelled from the spec: the class \<^verbatim>\<open>Waves\<close> is not among the sources. Its output
  surface is \<^verbatim>\<open>Position(i)\<close>, \<^verbatim>\<open>Normal(i)\<close>, \<^verbatim>\<open>VertexCount()\<close>, \<^verbatim>\<open>Width()\<close> and
  \<^verbatim>\<open>Depth()\<close>; \<^verbatim>\<open>Waves::Update\<close> is an argument of the functions that call it.
\<close>

record 'f Waves =
  Waves_VertexCount :: int
  Waves_Position :: "int \<Rightarrow> 'f XMFLOAT3"
  Waves_Normal :: "int \<Rightarrow> 'f XMFLOAT3"
  Waves_Width :: 'f
  Waves_Depth :: 'f

subsection \<open>The application\<close>

text \<open>
  \<^verbatim>\<open>mCurrFrameResource\<close> points into \<^verbatim>\<open>mFrameResources\<close>: it is the position of the
  element it points to. \<^verbatim>\<open>mWavesRitem\<close> points into \<^verbatim>\<open>mAllRitems\<close> in the same way.
  The unordered maps are association lists; the order of \<^verbatim>\<open>mMaterials\<close> is the order
  in which the range-based loop visits it, which C++ leaves open.
  \<^verbatim>\<open>mCurrentFence\<close>, \<^verbatim>\<open>mClientWidth\<close> and \<^verbatim>\<open>mClientHeight\<close> are members of the base
  class \<^verbatim>\<open>D3DApp\<close>.
\<close>

record 'f CastleApp =
  mFrameResources :: "'f FrameResource list"
  mCurrFrameResource :: "nat option"
  mCurrFrameResourceIndex :: int
  mGeometries :: "(string \<times> MeshGeometry) list"
  mMaterials :: "(string \<times> 'f Material) list"
  mAllRitems :: "'f RenderItem list"
  mWaves :: "'f Waves"
  mWavesRitem :: "nat option"
  mMainPassCB :: "'f PassConstants"
  mIsWireframe :: bool
  mEyePos :: "'f XMFLOAT3"
  mView :: "'f XMFLOAT4X4"
  mProj :: "'f XMFLOAT4X4"
  mTheta :: 'f
  mPhi :: 'f
  mRadius :: 'f
  mClientWidth :: int
  mClientHeight :: int
  mCurrentFence :: UINT64

subsection \<open>Pointers and map entries\<close>

text \<open>
  Dereferencing \<^verbatim>\<open>mCurrFrameResource\<close>: null before the first \<^verbatim>\<open>Update\<close>.
\<close>

definition curr_frame_resource :: "'f CastleApp \<Rightarrow> (nat \<times> 'f FrameResource) outcome" where
  "curr_frame_resource s =
     (case mCurrFrameResource s of
        None \<Rightarrow> Throws NullPointer
      | Some k \<Rightarrow>
          if k < length (mFrameResources s) then Returns (k, mFrameResources s ! k)
          else Throws OutOfBounds)"

text \<open>Assigning through a pointer to the entry with key \<open>k\<close> (the first, as lookup finds it).\<close>

primrec assign :: "'k \<Rightarrow> 'v \<Rightarrow> ('k \<times> 'v) list \<Rightarrow> ('k \<times> 'v) list" where
  "assign k v [] = []"
| "assign k v (p # ps) = (if fst p = k then (k, v) # ps else p # assign k v ps)"

subsection \<open>Input and camera\<close>

text \<open>\<open>key1\<close> is \<^verbatim>\<open>GetAsyncKeyState('1') & 0x8000\<close> read as a truth value.\<close>

definition OnKeyboardInput :: "bool \<Rightarrow> 'f CastleApp \<Rightarrow> 'f CastleApp" where
  "OnKeyboardInput key1 s =
     (if key1 then s\<lparr>mIsWireframe := True\<rparr> else s\<lparr>mIsWireframe := False\<rparr>)"

definition UpdateCamera ::
  "'f float_ops \<Rightarrow> 'f dxmath \<Rightarrow> 'f CastleApp \<Rightarrow> 'f CastleApp" where
  "UpdateCamera F X s =
     (let ex = fmul F (fmul F (mRadius s) (sinf X (mPhi s))) (cosf X (mTheta s));
          ez = fmul F (fmul F (mRadius s) (sinf X (mPhi s))) (sinf X (mTheta s));
          ey = fmul F (mRadius s) (cosf X (mPhi s));
          pos = XMFLOAT4 ex ey ez (flit F 1);
          target = XMFLOAT4 (flit F 0) (flit F 0) (flit F 0) (flit F 0);
          up = XMFLOAT4 (flit F 0) (flit F 1) (flit F 0) (flit F 0)
      in s\<lparr>mEyePos := XMFLOAT3 ex ey ez, mView := XMMatrixLookAtLH X pos target up\<rparr>)"

subsection \<open>The frame ring\<close>

text \<open>
  Lines 264-265 of \<^verbatim>\<open>Update\<close>: the cursor step and the new current frame resource.
  \<^verbatim>\<open>%\<close> truncates towards zero (\<open>smod\<close>).
\<close>

definition cycle_frame_resource :: "'f CastleApp \<Rightarrow> 'f CastleApp outcome" where
  "cycle_frame_resource s =
     (let i = (mCurrFrameResourceIndex s + 1) smod gNumFrameResources
      in if 0 \<le> i \<and> i < int (length (mFrameResources s))
         then Returns (s\<lparr>mCurrFrameResourceIndex := i, mCurrFrameResource := Some (nat i)\<rparr>)
         else Throws OutOfBounds)"

text \<open>
  What the fence object \<^verbatim>\<open>mFence\<close> shows the host during one \<^verbatim>\<open>Update\<close>:
  \<open>GetCompletedValue\<close> is the value the call at line 269 returns; \<open>later\<close> are the
  values the fence takes from the call of \<^verbatim>\<open>SetEventOnCompletion\<close> on, in order, ending
  where the graphics device stops making progress; \<open>SetEventOnCompletion_ok\<close> says
  whether that call succeeds.
\<close>

record fence_view =
  GetCompletedValue :: UINT64
  later :: "UINT64 list"
  SetEventOnCompletion_ok :: bool

text \<open>
  The event is signalled once the fence has reached the value: the wait returns at the
  first such moment, with the value the fence shows then.
\<close>

primrec WaitForSingleObject :: "UINT64 \<Rightarrow> UINT64 list \<Rightarrow> UINT64 outcome" where
  "WaitForSingleObject v [] = Hangs"
| "WaitForSingleObject v (c # cs) = (if v \<le> c then Returns c else WaitForSingleObject v cs)"

text \<open>
  Lines 269-275. The result is \<open>None\<close> when the branch is skipped and \<open>Some c\<close> when
  the host entered it and resumed with the fence at \<open>c\<close>.
\<close>

definition wait_for_frame_resource ::
  "fence_view \<Rightarrow> 'f CastleApp \<Rightarrow> UINT64 option outcome" where
  "wait_for_frame_resource g s =
     obind (curr_frame_resource s) (\<lambda>(k, fr).
       if Fence fr \<noteq> 0 \<and> GetCompletedValue g < Fence fr
       then if SetEventOnCompletion_ok g
            then obind (WaitForSingleObject (Fence fr) (later g)) (\<lambda>c. Returns (Some c))
            else Throws HResultFailed
       else Returns None)"

text \<open>
  Lines 263-275 together: the advance of the frame ring. It returns the application with
  the new current frame resource, and what the wait reported.
\<close>

definition advance ::
  "fence_view \<Rightarrow> 'f CastleApp \<Rightarrow> ('f CastleApp \<times> UINT64 option) outcome" where
  "advance g s =
     obind (cycle_frame_resource s) (\<lambda>s1.
       obind (wait_for_frame_resource g s1) (\<lambda>w. Returns (s1, w)))"

subsection \<open>Water\<close>

text \<open>
  Lines 518-534: the texture scroll of the water material. \<open>tu\<close> and \<open>tv\<close> are
  references to \<^verbatim>\<open>MatTransform(3, 0)\<close> and \<^verbatim>\<open>MatTransform(3, 1)\<close>.
\<close>

definition scroll_water :: "('f, 'z) float_ops_scheme \<Rightarrow> 'f \<Rightarrow> 'f Material \<Rightarrow> 'f Material" where
  "scroll_water F dt waterMat =
     (let tu = m30 (MatTransform waterMat);
          tv = m31 (MatTransform waterMat);
          tu = fadd F tu (fmul F (flit F 0.1) dt);
          tv = fadd F tv (fmul F (flit F 0.02) dt);
          tu = (if fge F tu (flit F 1) then fsub F tu (flit F 1) else tu);
          tv = (if fge F tv (flit F 1) then fsub F tv (flit F 1) else tv)
      in waterMat\<lparr>MatTransform := set_m30_m31 tu tv (MatTransform waterMat),
                    MatNumFramesDirty := gNumFrameResources\<rparr>)"

text \<open>Lines 557-565: the vertex built for index \<open>i\<close>.\<close>

definition wave_vertex :: "('f, 'z) float_ops_scheme \<Rightarrow> 'f Waves \<Rightarrow> int \<Rightarrow> 'f Vertex" where
  "wave_vertex F w i =
     (let pos = Waves_Position w i
      in \<lparr>Pos = pos, Normal = Waves_Normal w i,
          TexC = XMFLOAT2 (fadd F (flit F 0.5) (fdiv F (x3 pos) (Waves_Width w)))
                          (fsub F (flit F 0.5) (fdiv F (z3 pos) (Waves_Depth w)))\<rparr>)"

text \<open>Lines 555-568: the loop over the vertex indices, in order.\<close>

primrec copy_wave_vertices ::
  "('f, 'z) float_ops_scheme \<Rightarrow> 'f Waves \<Rightarrow> int list \<Rightarrow> 'f Vertex UploadBuffer
     \<Rightarrow> 'f Vertex UploadBuffer outcome" where
  "copy_wave_vertices F w [] b = Returns b"
| "copy_wave_vertices F w (i # js) b =
     obind (CopyData i (wave_vertex F w i) b) (copy_wave_vertices F w js)"

text \<open>
  Lines 570-571: \<^verbatim>\<open>mWavesRitem->Geo->VertexBufferGPU = currWavesVB->Resource()\<close>.
\<close>

definition set_waves_vertex_buffer :: "nat \<Rightarrow> 'f CastleApp \<Rightarrow> 'f CastleApp outcome" where
  "set_waves_vertex_buffer r s =
     (case mWavesRitem s of
        None \<Rightarrow> Throws NullPointer
      | Some p \<Rightarrow>
          if length (mAllRitems s) \<le> p then Throws OutOfBounds
          else (case Geo (mAllRitems s ! p) of
                  None \<Rightarrow> Throws NullPointer
                | Some g \<Rightarrow>
                    (case map_of (mGeometries s) g of
                       None \<Rightarrow> Throws NullPointer
                     | Some geo \<Rightarrow>
                         Returns (s\<lparr>mGeometries :=
                           assign g (geo\<lparr>VertexBufferGPU := Some r\<rparr>) (mGeometries s)\<rparr>))))"

text \<open>
  \<^verbatim>\<open>mMaterials["water"]\<close> on a map without the key yields a null pointer, which the
  next line dereferences. \<open>wupd\<close> is \<^verbatim>\<open>Waves::Update\<close>.
\<close>

definition UpdateWater ::
  "('f, 'z) float_ops_scheme \<Rightarrow> ('f \<Rightarrow> 'f Waves \<Rightarrow> 'f Waves) \<Rightarrow> 'f GameTimer
     \<Rightarrow> 'f CastleApp \<Rightarrow> 'f CastleApp outcome" where
  "UpdateWater F wupd gt s =
     (case map_of (mMaterials s) ''water'' of
        None \<Rightarrow> Throws NullPointer
      | Some waterMat \<Rightarrow>
          (let s1 = s\<lparr>mMaterials :=
                      assign ''water'' (scroll_water F (DeltaTime gt) waterMat) (mMaterials s)\<rparr>;
               s2 = s1\<lparr>mWaves := wupd (DeltaTime gt) (mWaves s1)\<rparr>
           in obind (curr_frame_resource s2) (\<lambda>(k, fr).
                obind (copy_wave_vertices F (mWaves s2)
                         [0 .. Waves_VertexCount (mWaves s2) - 1] (WavesVB fr)) (\<lambda>vb.
                  set_waves_vertex_buffer (Resource vb)
                    (s2\<lparr>mFrameResources := (mFrameResources s2)[k := fr\<lparr>WavesVB := vb\<rparr>]\<rparr>)))))"

subsection \<open>Dirty propagation\<close>

text \<open>
  Lines 424-440. \<open>oc0\<close> is the value of the default-initialised local
  \<^verbatim>\<open>ObjectConstants objConstants\<close>; the loop stores the transposed world matrix into it
  and copies it. \<^verbatim>\<open>ObjCBIndex\<close> is a \<^verbatim>\<open>UINT\<close> passed for an \<^verbatim>\<open>int\<close> parameter.
\<close>

primrec ObjectCBs_loop ::
  "'f ObjectConstants \<Rightarrow> 'f RenderItem list \<Rightarrow> 'f ObjectConstants UploadBuffer
     \<Rightarrow> ('f RenderItem list \<times> 'f ObjectConstants UploadBuffer) outcome" where
  "ObjectCBs_loop oc0 [] b = Returns ([], b)"
| "ObjectCBs_loop oc0 (e # es) b =
     (if NumFramesDirty e > 0
      then obind (CopyData (sint (ObjCBIndex e))
                    (oc0\<lparr>cbWorld := XMMatrixTranspose (World e)\<rparr>) b) (\<lambda>b1.
             obind (ObjectCBs_loop oc0 es b1) (\<lambda>(es1, b2).
               Returns (e\<lparr>NumFramesDirty := NumFramesDirty e - 1\<rparr> # es1, b2)))
      else obind (ObjectCBs_loop oc0 es b) (\<lambda>(es1, b2). Returns (e # es1, b2)))"

definition UpdateObjectCBs :: "'f ObjectConstants \<Rightarrow> 'f CastleApp \<Rightarrow> 'f CastleApp outcome" where
  "UpdateObjectCBs oc0 s =
     obind (curr_frame_resource s) (\<lambda>(k, fr).
       obind (ObjectCBs_loop oc0 (mAllRitems s) (ObjectCB fr)) (\<lambda>(es, b).
         Returns (s\<lparr>mAllRitems := es,
                     mFrameResources := (mFrameResources s)[k := fr\<lparr>ObjectCB := b\<rparr>]\<rparr>)))"

text \<open>Lines 490-510, the same for the materials.\<close>

definition material_constants :: "'f Material \<Rightarrow> 'f MaterialConstants" where
  "material_constants mat =
     \<lparr>cbDiffuseAlbedo = DiffuseAlbedo mat, cbFresnelR0 = FresnelR0 mat,
      cbRoughness = Roughness mat, cbMatTransform = XMMatrixTranspose (MatTransform mat)\<rparr>"

primrec MaterialCBs_loop ::
  "(string \<times> 'f Material) list \<Rightarrow> 'f MaterialConstants UploadBuffer
     \<Rightarrow> ((string \<times> 'f Material) list \<times> 'f MaterialConstants UploadBuffer) outcome" where
  "MaterialCBs_loop [] b = Returns ([], b)"
| "MaterialCBs_loop (e # es) b =
     (let mat = snd e
      in if MatNumFramesDirty mat > 0
         then obind (CopyData (MatCBIndex mat) (material_constants mat) b) (\<lambda>b1.
                obind (MaterialCBs_loop es b1) (\<lambda>(es1, b2).
                  Returns ((fst e, mat\<lparr>MatNumFramesDirty := MatNumFramesDirty mat - 1\<rparr>) # es1, b2)))
         else obind (MaterialCBs_loop es b) (\<lambda>(es1, b2). Returns (e # es1, b2)))"

definition UpdateMaterialCBs :: "'f CastleApp \<Rightarrow> 'f CastleApp outcome" where
  "UpdateMaterialCBs s =
     obind (curr_frame_resource s) (\<lambda>(k, fr).
       obind (MaterialCBs_loop (mMaterials s) (MaterialCB fr)) (\<lambda>(es, b).
         Returns (s\<lparr>mMaterials := es,
                     mFrameResources := (mFrameResources s)[k := fr\<lparr>MaterialCB := b\<rparr>]\<rparr>)))"

subsection \<open>Per-pass constants\<close>

text \<open>
  Lines 467-481: the three directional lights and the four point lights at the corners
  (\<open>k = 3, ..., 6\<close>). Members of a light that the code does not assign keep their values.
  \<^verbatim>\<open>Lights\<close> is an array member; fewer than seven elements would be an overrun.
\<close>

definition directional_light :: "'f XMFLOAT3 \<Rightarrow> 'f XMFLOAT3 \<Rightarrow> 'f Light \<Rightarrow> 'f Light" where
  "directional_light d c l = l\<lparr>Direction := d, Strength := c\<rparr>"

definition corner_light :: "('f, 'z) float_ops_scheme \<Rightarrow> real \<Rightarrow> real \<Rightarrow> 'f Light \<Rightarrow> 'f Light" where
  "corner_light F dx dz l =
     l\<lparr>Position := XMFLOAT3 (flit F dx) (flit F 5.5) (flit F dz),
       Strength := XMFLOAT3 (flit F 0.1) (flit F 0.1) (flit F 3.8),
       FalloffStart := flit F 1, FalloffEnd := flit F 5\<rparr>"

definition set_lights :: "('f, 'z) float_ops_scheme \<Rightarrow> 'f Light list \<Rightarrow> 'f Light list" where
  "set_lights F ls =
     (let ls = ls[0 := directional_light
                   (XMFLOAT3 (flit F 0.57735) (flit F (- 0.57735)) (flit F 0.57735))
                   (XMFLOAT3 (flit F 0.5) (flit F 0.5) (flit F 0.5)) (ls ! 0)];
          ls = ls[1 := directional_light
                   (XMFLOAT3 (flit F (- 0.57735)) (flit F (- 0.57735)) (flit F 0.57735))
                   (XMFLOAT3 (flit F 0.3) (flit F 0.3) (flit F 0.3)) (ls ! 1)];
          ls = ls[2 := directional_light
                   (XMFLOAT3 (flit F 0) (flit F (- 0.707)) (flit F (- 0.707)))
                   (XMFLOAT3 (flit F 0.15) (flit F 0.15) (flit F 0.15)) (ls ! 2)];
          ls = ls[3 := corner_light F 7 7 (ls ! 3)];
          ls = ls[4 := corner_light F 7 (- 7) (ls ! 4)];
          ls = ls[5 := corner_light F (- 7) 7 (ls ! 5)];
          ls = ls[6 := corner_light F (- 7) (- 7) (ls ! 6)]
      in ls)"

text \<open>Lines 445-481: the block as \<^verbatim>\<open>mMainPassCB\<close> holds it before the copy.\<close>

definition main_pass_constants ::
  "'f float_ops \<Rightarrow> 'f dxmath \<Rightarrow> 'f GameTimer \<Rightarrow> 'f CastleApp \<Rightarrow> 'f PassConstants" where
  "main_pass_constants F X gt s =
     (let view = mView s;
          proj = mProj s;
          viewProj = XMMatrixMultiply X view proj;
          invView = XMMatrixInverse X view;
          invProj = XMMatrixInverse X proj;
          invViewProj = XMMatrixInverse X viewProj
      in (mMainPassCB s)
           \<lparr>cbView := XMMatrixTranspose view,
            cbInvView := XMMatrixTranspose invView,
            cbProj := XMMatrixTranspose proj,
            cbInvProj := XMMatrixTranspose invProj,
            cbViewProj := XMMatrixTranspose viewProj,
            cbInvViewProj := XMMatrixTranspose invViewProj,
            cbEyePosW := mEyePos s,
            cbRenderTargetSize := XMFLOAT2 (fint F (mClientWidth s)) (fint F (mClientHeight s)),
            cbInvRenderTargetSize :=
              XMFLOAT2 (fdiv F (flit F 1) (fint F (mClientWidth s)))
                       (fdiv F (flit F 1) (fint F (mClientHeight s))),
            cbNearZ := flit F 1,
            cbFarZ := flit F 1000,
            cbTotalTime := TotalTime gt,
            cbDeltaTime := DeltaTime gt,
            cbAmbientLight := XMFLOAT4 (flit F 0.25) (flit F 0.25) (flit F 0.35) (flit F 1),
            cbLights := set_lights F (cbLights (mMainPassCB s))\<rparr>)"

definition UpdateMainPassCB ::
  "'f float_ops \<Rightarrow> 'f dxmath \<Rightarrow> 'f GameTimer \<Rightarrow> 'f CastleApp \<Rightarrow> 'f CastleApp outcome" where
  "UpdateMainPassCB F X gt s =
     (if length (cbLights (mMainPassCB s)) < 7 then Throws OutOfBounds
      else (let s1 = s\<lparr>mMainPassCB := main_pass_constants F X gt s\<rparr>
            in obind (curr_frame_resource s1) (\<lambda>(k, fr).
                 obind (CopyData 0 (mMainPassCB s1) (PassCB fr)) (\<lambda>b.
                   Returns (s1\<lparr>mFrameResources :=
                     (mFrameResources s1)[k := fr\<lparr>PassCB := b\<rparr>]\<rparr>)))))"

subsection \<open>Update and Draw\<close>

text \<open>
  Declarations of the repository that are not among the sources and that \<^verbatim>\<open>Update\<close>
  depends on: the default-initialised \<^verbatim>\<open>ObjectConstants\<close> and \<^verbatim>\<open>Waves::Update\<close>.
\<close>

record 'f headers =
  ObjectConstants0 :: "'f ObjectConstants"
  Waves_Update :: "'f \<Rightarrow> 'f Waves \<Rightarrow> 'f Waves"

text \<open>
  \<^verbatim>\<open>CastleApp::Update\<close>, lines 258-281. The second component of the result tells
  whether the host waited for the graphics device (see \<open>advance\<close>).
\<close>

definition Update ::
  "'f float_ops \<Rightarrow> 'f dxmath \<Rightarrow> 'f headers \<Rightarrow> bool \<Rightarrow> fence_view \<Rightarrow> 'f GameTimer
     \<Rightarrow> 'f CastleApp \<Rightarrow> ('f CastleApp \<times> UINT64 option) outcome" where
  "Update F X H key1 g gt s =
     obind (advance g (UpdateCamera F X (OnKeyboardInput key1 s))) (\<lambda>(s1, w).
     obind (UpdateWater F (Waves_Update H) gt s1) (\<lambda>s2.
     obind (UpdateObjectCBs (ObjectConstants0 H) s2) (\<lambda>s3.
     obind (UpdateMaterialCBs s3) (\<lambda>s4.
     obind (UpdateMainPassCB F X gt s4) (\<lambda>s5.
     Returns (s5, w))))))"

text \<open>
  \<^verbatim>\<open>CastleApp::Draw\<close>, lines 283-350, as far as it changes the members above: after the
  commands are recorded and submitted (\<open>hr_ok\<close>: every \<^verbatim>\<open>ThrowIfFailed\<close> on the way
  passes), line 344 retires the current frame resource with the incremented fence value,
  and line 349 asks the queue to signal that value.
\<close>

definition Draw :: "bool \<Rightarrow> 'f CastleApp \<Rightarrow> 'f CastleApp outcome" where
  "Draw hr_ok s =
     obind (curr_frame_resource s) (\<lambda>(k, fr).
       if \<not> hr_ok then Throws HResultFailed
       else (let s1 = s\<lparr>mCurrentFence := mCurrentFence s + 1\<rparr>
             in Returns (s1\<lparr>mFrameResources :=
                  (mFrameResources s1)[k := fr\<lparr>Fence := mCurrentFence s1\<rparr>]\<rparr>)))"

subsection \<open>Ticks\<close>

text \<open>
  Modelled from the spec: the message loop (\<^verbatim>\<open>D3DApp::Run\<close>) is not among the sources.
  A tick is \<^verbatim>\<open>Update\<close> followed by \<^verbatim>\<open>Draw\<close>: simulate, propagate, submit, retire.
  \<open>run\<close> performs one tick per input and returns the state after each tick, together
  with what \<^verbatim>\<open>Update\<close> reported about waiting.
\<close>

record 'f tick_input =
  tk_key1 :: bool
  tk_fence :: fence_view
  tk_timer :: "'f GameTimer"
  tk_hr_ok :: bool

definition tick ::
  "'f float_ops \<Rightarrow> 'f dxmath \<Rightarrow> 'f headers \<Rightarrow> 'f tick_input \<Rightarrow> 'f CastleApp
     \<Rightarrow> ('f CastleApp \<times> UINT64 option) outcome" where
  "tick F X H i s =
     obind (Update F X H (tk_key1 i) (tk_fence i) (tk_timer i) s) (\<lambda>(s1, w).
       obind (Draw (tk_hr_ok i) s1) (\<lambda>s2. Returns (s2, w)))"

primrec run ::
  "'f float_ops \<Rightarrow> 'f dxmath \<Rightarrow> 'f headers \<Rightarrow> 'f tick_input list \<Rightarrow> 'f CastleApp
     \<Rightarrow> ('f CastleApp \<times> UINT64 option) list outcome" where
  "run F X H [] s = Returns []"
| "run F X H (i # js) s =
     obind (tick F X H i s) (\<lambda>(s1, w).
       obind (run F X H js s1) (\<lambda>tr. Returns ((s1, w) # tr)))"

subsection \<open>Observations\<close>

text \<open>
  \<open>blocks_until g f r\<close>: the outcome \<open>r\<close> is that of a host that entered the wait for
  the fence value \<open>f\<close> under the view \<open>g\<close>. It stays blocked while the fence shows
  values below \<open>f\<close>, forever if no value reaches \<open>f\<close>, and resumes at the first value
  that has reached \<open>f\<close>, which it reports. If the event cannot be registered,
  \<^verbatim>\<open>ThrowIfFailed\<close> throws.
\<close>

definition blocks_until :: "fence_view \<Rightarrow> UINT64 \<Rightarrow> ('a \<times> UINT64 option) outcome \<Rightarrow> bool" where
  "blocks_until g f r \<longleftrightarrow>
     (if SetEventOnCompletion_ok g
      then (case dropWhile (\<lambda>c. c < f) (later g) of
              [] \<Rightarrow> (case r of Hangs \<Rightarrow> True | _ \<Rightarrow> False)
            | c # _ \<Rightarrow> (case r of Returns (s', w) \<Rightarrow> w = Some c | _ \<Rightarrow> False))
      else (case r of Throws e \<Rightarrow> e = HResultFailed | _ \<Rightarrow> False))"

text \<open>The completion marker of the frame resource that is current.\<close>

definition current_marker :: "'f CastleApp \<Rightarrow> UINT64" where
  "current_marker s =
     (case mCurrFrameResource s of None \<Rightarrow> 0 | Some k \<Rightarrow> Fence (mFrameResources s ! k))"

text \<open>How often \<^verbatim>\<open>CopyData\<close> was called on a buffer with the element index \<open>i\<close>.\<close>

definition copies_of :: "nat \<Rightarrow> 'a UploadBuffer \<Rightarrow> nat" where
  "copies_of i b = count_list (copied b) i"

subsection \<open>Well-formed applications\<close>

text \<open>
  What \<^verbatim>\<open>Initialize\<close> establishes and every tick keeps. \<^verbatim>\<open>BuildFrameResources\<close>
  creates \<^verbatim>\<open>gNumFrameResources\<close> frame resources, each with one pass block, a slot
  per render item and per material, and a vertex per wave vertex;
  \<^verbatim>\<open>BuildRenderItems\<close> numbers the items and sets \<^verbatim>\<open>mWavesRitem\<close>;
  \<^verbatim>\<open>BuildMaterials\<close> creates the material \<^verbatim>\<open>water\<close>.
\<close>

definition ring_ok :: "'f CastleApp \<Rightarrow> bool" where
  "ring_ok s \<longleftrightarrow>
     int (length (mFrameResources s)) = gNumFrameResources \<and>
     0 \<le> mCurrFrameResourceIndex s \<and> mCurrFrameResourceIndex s < gNumFrameResources"

definition slot_ok :: "'f CastleApp \<Rightarrow> 'f FrameResource \<Rightarrow> bool" where
  "slot_ok s fr \<longleftrightarrow>
     0 < length (mMappedData (PassCB fr)) \<and>
     Waves_VertexCount (mWaves s) \<le> int (length (mMappedData (WavesVB fr))) \<and>
     list_all (\<lambda>e. 0 \<le> sint (ObjCBIndex e) \<and>
                    sint (ObjCBIndex e) < int (length (mMappedData (ObjectCB fr)))) (mAllRitems s) \<and>
     list_all (\<lambda>e. 0 \<le> MatCBIndex (snd e) \<and>
                    MatCBIndex (snd e) < int (length (mMappedData (MaterialCB fr)))) (mMaterials s)"

definition scene_ok :: "'f CastleApp \<Rightarrow> bool" where
  "scene_ok s \<longleftrightarrow>
     map_of (mMaterials s) ''water'' \<noteq> None \<and>
     (case mWavesRitem s of
        None \<Rightarrow> False
      | Some p \<Rightarrow> p < length (mAllRitems s) \<and>
          (case Geo (mAllRitems s ! p) of
             None \<Rightarrow> False
           | Some g \<Rightarrow> map_of (mGeometries s) g \<noteq> None)) \<and>
     7 \<le> length (cbLights (mMainPassCB s)) \<and>
     list_all (slot_ok s) (mFrameResources s)"

text \<open>\<^verbatim>\<open>Waves::Update\<close> moves the vertices; their number is fixed at construction.\<close>

definition waves_ok :: "'f headers \<Rightarrow> bool" where
  "waves_ok H \<longleftrightarrow> (\<forall>dt w. Waves_VertexCount (Waves_Update H dt w) = Waves_VertexCount w)"

text \<open>
  The comment at lines 562-563 says what \<^verbatim>\<open>UpdateWater\<close> expects of the positions the wave
  field reports: \<open>x\<close> lies in \<open>[-w/2, w/2]\<close> for the width \<open>w\<close> of the field, and \<open>z\<close> likewise for
  its depth. The class \<^verbatim>\<open>Waves\<close> is not among the sources, so this is a condition on what it
  supplies.
\<close>

definition waves_in_field :: "real Waves \<Rightarrow> bool" where
  "waves_in_field w \<longleftrightarrow>
     0 < Waves_Width w \<and> 0 < Waves_Depth w \<and>
     (\<forall>i. 0 \<le> i \<and> i < Waves_VertexCount w \<longrightarrow>
        \<bar>x3 (Waves_Position w i)\<bar> \<le> Waves_Width w / 2 \<and>
        \<bar>z3 (Waves_Position w i)\<bar> \<le> Waves_Depth w / 2)"

subsection \<open>A small application\<close>

text \<open>
  A concrete application on which the theorems below are instantiated: three frame
  resources, two materials (one of them the water), two render items (a wall with a
  scaled texture transform and the water), a wave field of two vertices that
  \<^verbatim>\<open>Waves::Update\<close> leaves alone. Its \<^verbatim>\<open>float\<close> is \<open>real\<close> with exact arithmetic;
  the library functions are placeholders, since no theorem depends on what they compute.
  \<open>demo_input c\<close> is a tick during which the fence shows the completed value \<open>c\<close>.
\<close>

definition exact_ops :: "real float_ops" where
  "exact_ops = \<lparr>fadd = (+), fsub = (-), fmul = (*), fdiv = (/), fge = (\<ge>),
                 flit = (\<lambda>r. r), fint = of_int\<rparr>"

definition Identity4x4 :: "real XMFLOAT4X4" where
  "Identity4x4 = XMFLOAT4X4 (XMFLOAT4 1 0 0 0) (XMFLOAT4 0 1 0 0) (XMFLOAT4 0 0 1 0) (XMFLOAT4 0 0 0 1)"

definition demo_math :: "real dxmath" where
  "demo_math = \<lparr>sinf = (\<lambda>x. x), cosf = (\<lambda>x. 1), XMMatrixMultiply = (\<lambda>a b. b),
                 XMMatrixInverse = (\<lambda>a. a),
                 XMMatrixLookAtLH = (\<lambda>p t u. XMFLOAT4X4 u u u p)\<rparr>"

definition demo_headers :: "real headers" where
  "demo_headers = \<lparr>ObjectConstants0 = \<lparr>cbWorld = Identity4x4, cbTexTransform = Identity4x4\<rparr>,
                    Waves_Update = (\<lambda>dt w. w)\<rparr>"

definition demo_material :: "int \<Rightarrow> real Material" where
  "demo_material i = \<lparr>MatCBIndex = i, MatNumFramesDirty = 3,
      DiffuseAlbedo = XMFLOAT4 1 1 1 1, FresnelR0 = XMFLOAT3 0 0 0, Roughness = 0,
      MatTransform = Identity4x4\<rparr>"

definition demo_light :: "real Light" where
  "demo_light = \<lparr>Strength = XMFLOAT3 0 0 0, FalloffStart = 0, Direction = XMFLOAT3 0 0 0,
      FalloffEnd = 0, Position = XMFLOAT3 0 0 0\<rparr>"

definition demo_pass :: "real PassConstants" where
  "demo_pass = \<lparr>cbView = Identity4x4, cbInvView = Identity4x4, cbProj = Identity4x4,
      cbInvProj = Identity4x4, cbViewProj = Identity4x4, cbInvViewProj = Identity4x4,
      cbEyePosW = XMFLOAT3 0 0 0, cbRenderTargetSize = XMFLOAT2 0 0,
      cbInvRenderTargetSize = XMFLOAT2 0 0, cbNearZ = 0, cbFarZ = 0, cbTotalTime = 0,
      cbDeltaTime = 0, cbAmbientLight = XMFLOAT4 0 0 0 0, cbLights = replicate 7 demo_light\<rparr>"

definition demo_vertex :: "real Vertex" where
  "demo_vertex = \<lparr>Pos = XMFLOAT3 0 0 0, Normal = XMFLOAT3 0 0 0, TexC = XMFLOAT2 0 0\<rparr>"

definition demo_frame_resource :: "nat \<Rightarrow> real FrameResource" where
  "demo_frame_resource r =
     \<lparr>PassCB = \<lparr>Resource = 4 * r, mMappedData = [demo_pass], copied = []\<rparr>,
      MaterialCB = \<lparr>Resource = 4 * r + 1,
                    mMappedData = [material_constants (demo_material 0), material_constants (demo_material 0)],
                    copied = []\<rparr>,
      ObjectCB = \<lparr>Resource = 4 * r + 2,
                  mMappedData = [ObjectConstants0 demo_headers, ObjectConstants0 demo_headers],
                  copied = []\<rparr>,
      WavesVB = \<lparr>Resource = 4 * r + 3, mMappedData = [demo_vertex, demo_vertex], copied = []\<rparr>,
      Fence = 0\<rparr>"

definition demo_app :: "real CastleApp" where
  "demo_app =
     \<lparr>mFrameResources = [demo_frame_resource 0, demo_frame_resource 1, demo_frame_resource 2],
      mCurrFrameResource = None,
      mCurrFrameResourceIndex = 0,
      mGeometries = [(''waterGeo'', \<lparr>VertexBufferGPU = None\<rparr>)],
      mMaterials = [(''brick'', demo_material 0), (''water'', demo_material 1)],
      mAllRitems =
        [\<lparr>World = Identity4x4,
          TexTransform = XMFLOAT4X4 (XMFLOAT4 (5/2) 0 0 0) (XMFLOAT4 0 (1/2) 0 0) (XMFLOAT4 0 0 1 0) (XMFLOAT4 0 0 0 1),
          NumFramesDirty = 3, ObjCBIndex = 0, Mat = Some ''brick'', Geo = None\<rparr>,
         \<lparr>World = Identity4x4, TexTransform = Identity4x4,
          NumFramesDirty = 3, ObjCBIndex = 1, Mat = Some ''water'', Geo = Some ''waterGeo''\<rparr>],
      mWaves = \<lparr>Waves_VertexCount = 2,
                Waves_Position = (\<lambda>i. XMFLOAT3 (of_int i - 1/2) 0 (1/2)),
                Waves_Normal = (\<lambda>i. XMFLOAT3 0 1 0),
                Waves_Width = 2, Waves_Depth = 2\<rparr>,
      mWavesRitem = Some 1,
      mMainPassCB = demo_pass,
      mIsWireframe = False,
      mEyePos = XMFLOAT3 0 0 0,
      mView = Identity4x4,
      mProj = Identity4x4,
      mTheta = 0, mPhi = 0, mRadius = 30,
      mClientWidth = 800, mClientHeight = 600,
      mCurrentFence = 0\<rparr>"

definition demo_input :: "UINT64 \<Rightarrow> real tick_input" where
  "demo_input c = \<lparr>tk_key1 = False,
      tk_fence = \<lparr>GetCompletedValue = c, later = [c], SetEventOnCompletion_ok = True\<rparr>,
      tk_timer = \<lparr>DeltaTime = 1 / 64, TotalTime = 1\<rparr>, tk_hr_ok = True\<rparr>"

text \<open>
  The same application late in its life: the submission counter stands two below the largest
  64-bit value, slot 0 is current and was retired last, and the other two slots carry the two
  markers before it.
\<close>

definition demo_app_late :: "real CastleApp" where
  "demo_app_late =
     demo_app\<lparr>mFrameResources :=
                 [(demo_frame_resource 0)\<lparr>Fence := 0xFFFFFFFFFFFFFFFE\<rparr>,
                  (demo_frame_resource 1)\<lparr>Fence := 0xFFFFFFFFFFFFFFFC\<rparr>,
                  (demo_frame_resource 2)\<lparr>Fence := 0xFFFFFFFFFFFFFFFD\<rparr>],
               mCurrFrameResource := Some 0,
               mCurrentFence := 0xFFFFFFFFFFFFFFFE\<rparr>"

text \<open>
  And one submission later: the counter stands at the largest 64-bit value, which is also the
  marker of slot 0, retired last.
\<close>

definition demo_app_last :: "real CastleApp" where
  "demo_app_last =
     demo_app\<lparr>mFrameResources :=
                 [(demo_frame_resource 0)\<lparr>Fence := 0xFFFFFFFFFFFFFFFF\<rparr>,
                  (demo_frame_resource 1)\<lparr>Fence := 0xFFFFFFFFFFFFFFFD\<rparr>,
                  (demo_frame_resource 2)\<lparr>Fence := 0xFFFFFFFFFFFFFFFE\<rparr>],
               mCurrFrameResource := Some 0,
               mCurrentFence := 0xFFFFFFFFFFFFFFFF\<rparr>"

section \<open>Lemmas about the operations\<close>

subsection \<open>Outcomes, buffers and loops\<close>

lemma obind_Returns_iff:
  "obind m f = Returns y \<longleftrightarrow> (\<exists>x. m = Returns x \<and> f x = Returns y)"
  by (cases m) auto

lemma curr_frame_resource_Returns_iff:
  "curr_frame_resource s = Returns (k, fr) \<longleftrightarrow>
     mCurrFrameResource s = Some k \<and> k < length (mFrameResources s) \<and> fr = mFrameResources s ! k"
  by (auto simp: curr_frame_resource_def split: option.splits)

lemma CopyData_Returns_iff:
  "CopyData i d b = Returns b' \<longleftrightarrow>
     0 \<le> i \<and> i < int (length (mMappedData b)) \<and>
     b' = b\<lparr>mMappedData := (mMappedData b)[nat i := d], copied := copied b @ [nat i]\<rparr>"
  by (auto simp: CopyData_def)

lemma smod_gNumFrameResources:
  "0 \<le> i \<Longrightarrow> (i + 1) smod gNumFrameResources = (i + 1) mod 3"
  by (simp add: gNumFrameResources_def smod_int_alt_def sgn_if)

lemma copy_wave_vertices_Returns:
  "copy_wave_vertices F w js b = Returns b' \<Longrightarrow>
     (\<forall>i\<in>set js. 0 \<le> i \<and> i < int (length (mMappedData b))) \<and>
     length (mMappedData b') = length (mMappedData b) \<and>
     Resource b' = Resource b \<and>
     copied b' = copied b @ map nat js \<and>
     (\<forall>j < length (mMappedData b). mMappedData b' ! j =
        (if int j \<in> set js then wave_vertex F w (int j) else mMappedData b ! j))"
proof (induction js arbitrary: b)
  case Nil
  then show ?case by simp
next
  case (Cons i js)
  from Cons.prems obtain b1 where b1: "CopyData i (wave_vertex F w i) b = Returns b1"
    and rest: "copy_wave_vertices F w js b1 = Returns b'"
    by (auto simp: obind_Returns_iff)
  from b1 have i: "0 \<le> i" "i < int (length (mMappedData b))"
    and b1_eq: "b1 = b\<lparr>mMappedData := (mMappedData b)[nat i := wave_vertex F w i], copied := copied b @ [nat i]\<rparr>"
    by (simp_all add: CopyData_Returns_iff)
  note IH = Cons.IH [OF rest]
  show ?case using IH i by (auto simp: b1_eq nth_list_update)
qed

lemma copy_wave_vertices_ok:
  "\<forall>i\<in>set js. 0 \<le> i \<and> i < int (length (mMappedData b)) \<Longrightarrow>
     \<exists>b'. copy_wave_vertices F w js b = Returns b'"
proof (induction js arbitrary: b)
  case Nil
  then show ?case by simp
next
  case (Cons i js)
  then show ?case by (simp add: CopyData_def)
qed

lemma ObjectCBs_loop_Returns:
  "ObjectCBs_loop oc0 es b = Returns (es', b') \<Longrightarrow>
     es' = map (\<lambda>e. if 0 < NumFramesDirty e then e\<lparr>NumFramesDirty := NumFramesDirty e - 1\<rparr> else e) es \<and>
     length (mMappedData b') = length (mMappedData b) \<and>
     Resource b' = Resource b \<and>
     copied b' = copied b @ map (\<lambda>e. nat (sint (ObjCBIndex e))) (filter (\<lambda>e. 0 < NumFramesDirty e) es) \<and>
     (\<forall>e\<in>set es. 0 < NumFramesDirty e \<longrightarrow>
        0 \<le> sint (ObjCBIndex e) \<and> sint (ObjCBIndex e) < int (length (mMappedData b)))"
proof (induction es arbitrary: b es' b')
  case Nil
  then show ?case by simp
next
  case (Cons e es)
  show ?case
  proof (cases "0 < NumFramesDirty e")
    case True
    with Cons.prems obtain b1 es1 where
      b1: "CopyData (sint (ObjCBIndex e)) (oc0\<lparr>cbWorld := XMMatrixTranspose (World e)\<rparr>) b = Returns b1"
      and rest: "ObjectCBs_loop oc0 es b1 = Returns (es1, b')"
      and es': "es' = e\<lparr>NumFramesDirty := NumFramesDirty e - 1\<rparr> # es1"
      by (auto simp: obind_Returns_iff)
    from Cons.IH [OF rest] b1 True es' show ?thesis
      by (auto simp: CopyData_Returns_iff)
  next
    case False
    with Cons.prems obtain es1 where
      rest: "ObjectCBs_loop oc0 es b = Returns (es1, b')" and es': "es' = e # es1"
      by (auto simp: obind_Returns_iff)
    from Cons.IH [OF rest] False es' show ?thesis by auto
  qed
qed

lemma ObjectCBs_loop_untouched:
  "ObjectCBs_loop oc0 es b = Returns (es', b') \<Longrightarrow>
     \<forall>e\<in>set es. 0 < NumFramesDirty e \<longrightarrow> nat (sint (ObjCBIndex e)) \<noteq> j \<Longrightarrow>
     mMappedData b' ! j = mMappedData b ! j"
proof (induction es arbitrary: b es' b')
  case Nil
  then show ?case by simp
next
  case (Cons e es)
  show ?case
  proof (cases "0 < NumFramesDirty e")
    case True
    with Cons.prems(1) obtain b1 es1 where
      b1: "CopyData (sint (ObjCBIndex e)) (oc0\<lparr>cbWorld := XMMatrixTranspose (World e)\<rparr>) b = Returns b1"
      and rest: "ObjectCBs_loop oc0 es b1 = Returns (es1, b')"
      by (auto simp: obind_Returns_iff)
    from Cons.prems(2) have "mMappedData b' ! j = mMappedData b1 ! j"
      by (intro Cons.IH [OF rest]) simp
    with b1 Cons.prems(2) True show ?thesis
      by (auto simp: CopyData_Returns_iff)
  next
    case False
    with Cons.prems(1) obtain es1 where
      rest: "ObjectCBs_loop oc0 es b = Returns (es1, b')"
      by (auto simp: obind_Returns_iff)
    from Cons.prems(2) show ?thesis
      by (intro Cons.IH [OF rest]) simp
  qed
qed

lemma ObjectCBs_loop_written:
  "ObjectCBs_loop oc0 es b = Returns (es', b') \<Longrightarrow>
     distinct (map ObjCBIndex es) \<Longrightarrow> e \<in> set es \<Longrightarrow> 0 < NumFramesDirty e \<Longrightarrow>
     mMappedData b' ! nat (sint (ObjCBIndex e)) = oc0\<lparr>cbWorld := XMMatrixTranspose (World e)\<rparr>"
proof (induction es arbitrary: b es' b')
  case Nil
  then show ?case by simp
next
  case (Cons a es)
  show ?case
  proof (cases "e = a")
    case True
    with Cons.prems obtain b1 es1 where
      b1: "CopyData (sint (ObjCBIndex e)) (oc0\<lparr>cbWorld := XMMatrixTranspose (World e)\<rparr>) b = Returns b1"
      and rest: "ObjectCBs_loop oc0 es b1 = Returns (es1, b')"
      by (auto simp: obind_Returns_iff)
    have rng: "\<forall>x\<in>set es. 0 < NumFramesDirty x \<longrightarrow>
        0 \<le> sint (ObjCBIndex x) \<and> sint (ObjCBIndex x) < int (length (mMappedData b1))"
      using ObjectCBs_loop_Returns [OF rest] by simp
    have "\<forall>x\<in>set es. 0 < NumFramesDirty x \<longrightarrow> nat (sint (ObjCBIndex x)) \<noteq> nat (sint (ObjCBIndex e))"
    proof (intro ballI impI)
      fix x assume x: "x \<in> set es" "0 < NumFramesDirty x"
      from x(1) have "ObjCBIndex x \<in> ObjCBIndex ` set es" by (rule imageI)
      moreover from Cons.prems(2) True have "ObjCBIndex e \<notin> ObjCBIndex ` set es" by simp
      ultimately have "ObjCBIndex x \<noteq> ObjCBIndex e" by metis
      then have "sint (ObjCBIndex x) \<noteq> sint (ObjCBIndex e)"
        by (auto dest: signed_word_eqI)
      moreover from rng x have "0 \<le> sint (ObjCBIndex x)" by simp
      moreover from b1 have "0 \<le> sint (ObjCBIndex e)" by (simp add: CopyData_Returns_iff)
      ultimately show "nat (sint (ObjCBIndex x)) \<noteq> nat (sint (ObjCBIndex e))" by simp
    qed
    from ObjectCBs_loop_untouched [OF rest this] b1 show ?thesis
      by (auto simp: CopyData_Returns_iff)
  next
    case False
    with Cons.prems have e: "e \<in> set es" and d: "distinct (map ObjCBIndex es)" by auto
    show ?thesis
    proof (cases "0 < NumFramesDirty a")
      case True
      with Cons.prems(1) obtain b1 es1 where
        rest: "ObjectCBs_loop oc0 es b1 = Returns (es1, b')"
        by (auto simp: obind_Returns_iff)
      from Cons.IH [OF rest d e Cons.prems(4)] show ?thesis .
    next
      case F: False
      with Cons.prems(1) obtain es1 where
        rest: "ObjectCBs_loop oc0 es b = Returns (es1, b')"
        by (auto simp: obind_Returns_iff)
      from Cons.IH [OF rest d e Cons.prems(4)] show ?thesis .
    qed
  qed
qed

lemma ObjectCBs_loop_ok:
  "\<forall>e\<in>set es. 0 < NumFramesDirty e \<longrightarrow>
        0 \<le> sint (ObjCBIndex e) \<and> sint (ObjCBIndex e) < int (length (mMappedData b)) \<Longrightarrow>
     \<exists>r. ObjectCBs_loop oc0 es b = Returns r"
proof (induction es arbitrary: b)
  case Nil
  then show ?case by simp
next
  case (Cons e es)
  show ?case
  proof (cases "0 < NumFramesDirty e")
    case True
    let ?b1 = "b\<lparr>mMappedData := (mMappedData b)[nat (sint (ObjCBIndex e)) := oc0\<lparr>cbWorld := XMMatrixTranspose (World e)\<rparr>],
                 copied := copied b @ [nat (sint (ObjCBIndex e))]\<rparr>"
    from Cons.prems have "\<exists>r. ObjectCBs_loop oc0 es ?b1 = Returns r"
      by (intro Cons.IH) simp
    then obtain es1 b2 where "ObjectCBs_loop oc0 es ?b1 = Returns (es1, b2)" by force
    with True Cons.prems show ?thesis by (simp add: CopyData_def)
  next
    case False
    from Cons.prems have "\<exists>r. ObjectCBs_loop oc0 es b = Returns r"
      by (intro Cons.IH) simp
    then obtain es1 b2 where "ObjectCBs_loop oc0 es b = Returns (es1, b2)" by force
    with False show ?thesis by simp
  qed
qed

lemma MaterialCBs_loop_Returns:
  "MaterialCBs_loop es b = Returns (es', b') \<Longrightarrow>
     es' = map (\<lambda>e. if 0 < MatNumFramesDirty (snd e)
                      then (fst e, (snd e)\<lparr>MatNumFramesDirty := MatNumFramesDirty (snd e) - 1\<rparr>) else e) es \<and>
     length (mMappedData b') = length (mMappedData b) \<and>
     Resource b' = Resource b \<and>
     copied b' = copied b @ map (\<lambda>e. nat (MatCBIndex (snd e))) (filter (\<lambda>e. 0 < MatNumFramesDirty (snd e)) es) \<and>
     (\<forall>e\<in>set es. 0 < MatNumFramesDirty (snd e) \<longrightarrow>
        0 \<le> MatCBIndex (snd e) \<and> MatCBIndex (snd e) < int (length (mMappedData b)))"
proof (induction es arbitrary: b es' b')
  case Nil
  then show ?case by simp
next
  case (Cons e es)
  show ?case
  proof (cases "0 < MatNumFramesDirty (snd e)")
    case True
    with Cons.prems obtain b1 es1 where
      b1: "CopyData (MatCBIndex (snd e)) (material_constants (snd e)) b = Returns b1"
      and rest: "MaterialCBs_loop es b1 = Returns (es1, b')"
      and es': "es' = (fst e, (snd e)\<lparr>MatNumFramesDirty := MatNumFramesDirty (snd e) - 1\<rparr>) # es1"
      by (auto simp: obind_Returns_iff Let_def)
    from Cons.IH [OF rest] b1 True es' show ?thesis
      by (auto simp: CopyData_Returns_iff)
  next
    case False
    with Cons.prems obtain es1 where
      rest: "MaterialCBs_loop es b = Returns (es1, b')" and es': "es' = e # es1"
      by (auto simp: obind_Returns_iff Let_def)
    from Cons.IH [OF rest] False es' show ?thesis by auto
  qed
qed

lemma MaterialCBs_loop_untouched:
  "MaterialCBs_loop es b = Returns (es', b') \<Longrightarrow>
     \<forall>e\<in>set es. 0 < MatNumFramesDirty (snd e) \<longrightarrow> nat (MatCBIndex (snd e)) \<noteq> j \<Longrightarrow>
     mMappedData b' ! j = mMappedData b ! j"
proof (induction es arbitrary: b es' b')
  case Nil
  then show ?case by simp
next
  case (Cons e es)
  show ?case
  proof (cases "0 < MatNumFramesDirty (snd e)")
    case True
    with Cons.prems(1) obtain b1 es1 where
      b1: "CopyData (MatCBIndex (snd e)) (material_constants (snd e)) b = Returns b1"
      and rest: "MaterialCBs_loop es b1 = Returns (es1, b')"
      by (auto simp: obind_Returns_iff Let_def)
    from Cons.prems(2) have "mMappedData b' ! j = mMappedData b1 ! j"
      by (intro Cons.IH [OF rest]) simp
    with b1 Cons.prems(2) True show ?thesis
      by (auto simp: CopyData_Returns_iff)
  next
    case False
    with Cons.prems(1) obtain es1 where
      rest: "MaterialCBs_loop es b = Returns (es1, b')"
      by (auto simp: obind_Returns_iff Let_def)
    from Cons.prems(2) show ?thesis
      by (intro Cons.IH [OF rest]) simp
  qed
qed

lemma MaterialCBs_loop_written:
  "MaterialCBs_loop es b = Returns (es', b') \<Longrightarrow>
     distinct (map (\<lambda>e. MatCBIndex (snd e)) es) \<Longrightarrow> e \<in> set es \<Longrightarrow> 0 < MatNumFramesDirty (snd e) \<Longrightarrow>
     mMappedData b' ! nat (MatCBIndex (snd e)) = material_constants (snd e)"
proof (induction es arbitrary: b es' b')
  case Nil
  then show ?case by simp
next
  case (Cons a es)
  show ?case
  proof (cases "e = a")
    case True
    with Cons.prems obtain b1 es1 where
      b1: "CopyData (MatCBIndex (snd e)) (material_constants (snd e)) b = Returns b1"
      and rest: "MaterialCBs_loop es b1 = Returns (es1, b')"
      by (auto simp: obind_Returns_iff Let_def)
    have rng: "\<forall>x\<in>set es. 0 < MatNumFramesDirty (snd x) \<longrightarrow>
        0 \<le> MatCBIndex (snd x) \<and> MatCBIndex (snd x) < int (length (mMappedData b1))"
      using MaterialCBs_loop_Returns [OF rest] by simp
    have "\<forall>x\<in>set es. 0 < MatNumFramesDirty (snd x) \<longrightarrow> nat (MatCBIndex (snd x)) \<noteq> nat (MatCBIndex (snd e))"
    proof (intro ballI impI)
      fix x assume x: "x \<in> set es" "0 < MatNumFramesDirty (snd x)"
      from x(1) have "MatCBIndex (snd x) \<in> (\<lambda>e. MatCBIndex (snd e)) ` set es" by (rule imageI)
      moreover from Cons.prems(2) True have "MatCBIndex (snd e) \<notin> (\<lambda>e. MatCBIndex (snd e)) ` set es" by simp
      ultimately have "MatCBIndex (snd x) \<noteq> MatCBIndex (snd e)" by metis
      moreover from rng x have "0 \<le> MatCBIndex (snd x)" by simp
      moreover from b1 have "0 \<le> MatCBIndex (snd e)" by (simp add: CopyData_Returns_iff)
      ultimately show "nat (MatCBIndex (snd x)) \<noteq> nat (MatCBIndex (snd e))" by simp
    qed
    from MaterialCBs_loop_untouched [OF rest this] b1 show ?thesis
      by (auto simp: CopyData_Returns_iff)
  next
    case False
    with Cons.prems have e: "e \<in> set es" and d: "distinct (map (\<lambda>e. MatCBIndex (snd e)) es)" by auto
    show ?thesis
    proof (cases "0 < MatNumFramesDirty (snd a)")
      case True
      with Cons.prems(1) obtain b1 es1 where
        rest: "MaterialCBs_loop es b1 = Returns (es1, b')"
        by (auto simp: obind_Returns_iff Let_def)
      from Cons.IH [OF rest d e Cons.prems(4)] show ?thesis .
    next
      case F: False
      with Cons.prems(1) obtain es1 where
        rest: "MaterialCBs_loop es b = Returns (es1, b')"
        by (auto simp: obind_Returns_iff Let_def)
      from Cons.IH [OF rest d e Cons.prems(4)] show ?thesis .
    qed
  qed
qed

lemma MaterialCBs_loop_ok:
  "\<forall>e\<in>set es. 0 < MatNumFramesDirty (snd e) \<longrightarrow>
        0 \<le> MatCBIndex (snd e) \<and> MatCBIndex (snd e) < int (length (mMappedData b)) \<Longrightarrow>
     \<exists>r. MaterialCBs_loop es b = Returns r"
proof (induction es arbitrary: b)
  case Nil
  then show ?case by simp
next
  case (Cons e es)
  show ?case
  proof (cases "0 < MatNumFramesDirty (snd e)")
    case True
    let ?b1 = "b\<lparr>mMappedData := (mMappedData b)[nat (MatCBIndex (snd e)) := material_constants (snd e)],
                 copied := copied b @ [nat (MatCBIndex (snd e))]\<rparr>"
    from Cons.prems have "\<exists>r. MaterialCBs_loop es ?b1 = Returns r"
      by (intro Cons.IH) simp
    then obtain es1 b2 where "MaterialCBs_loop es ?b1 = Returns (es1, b2)" by force
    with True Cons.prems show ?thesis by (simp add: CopyData_def Let_def)
  next
    case False
    from Cons.prems have "\<exists>r. MaterialCBs_loop es b = Returns r"
      by (intro Cons.IH) simp
    then obtain es1 b2 where "MaterialCBs_loop es b = Returns (es1, b2)" by force
    with False show ?thesis by (simp add: Let_def)
  qed
qed

subsection \<open>What each operation returns\<close>

lemma UpdateObjectCBs_Returns_iff:
  "UpdateObjectCBs oc0 s = Returns s' \<longleftrightarrow>
     (\<exists>k es b. mCurrFrameResource s = Some k \<and> k < length (mFrameResources s) \<and>
        ObjectCBs_loop oc0 (mAllRitems s) (ObjectCB (mFrameResources s ! k)) = Returns (es, b) \<and>
        s' = s\<lparr>mAllRitems := es,
               mFrameResources := (mFrameResources s)[k := (mFrameResources s ! k)\<lparr>ObjectCB := b\<rparr>]\<rparr>)"
  by (auto simp: UpdateObjectCBs_def obind_Returns_iff curr_frame_resource_Returns_iff)

lemma UpdateMaterialCBs_Returns_iff:
  "UpdateMaterialCBs s = Returns s' \<longleftrightarrow>
     (\<exists>k es b. mCurrFrameResource s = Some k \<and> k < length (mFrameResources s) \<and>
        MaterialCBs_loop (mMaterials s) (MaterialCB (mFrameResources s ! k)) = Returns (es, b) \<and>
        s' = s\<lparr>mMaterials := es,
               mFrameResources := (mFrameResources s)[k := (mFrameResources s ! k)\<lparr>MaterialCB := b\<rparr>]\<rparr>)"
  by (auto simp: UpdateMaterialCBs_def obind_Returns_iff curr_frame_resource_Returns_iff)

lemma UpdateMainPassCB_Returns_iff:
  "UpdateMainPassCB F X gt s = Returns s' \<longleftrightarrow>
     (\<exists>k. mCurrFrameResource s = Some k \<and> k < length (mFrameResources s) \<and>
        7 \<le> length (cbLights (mMainPassCB s)) \<and>
        0 < length (mMappedData (PassCB (mFrameResources s ! k))) \<and>
        s' = s\<lparr>mMainPassCB := main_pass_constants F X gt s,
               mFrameResources := (mFrameResources s)[k := (mFrameResources s ! k)
                 \<lparr>PassCB := (PassCB (mFrameResources s ! k))
                    \<lparr>mMappedData := (mMappedData (PassCB (mFrameResources s ! k)))[0 := main_pass_constants F X gt s],
                     copied := copied (PassCB (mFrameResources s ! k)) @ [0]\<rparr>\<rparr>]\<rparr>)"
  by (auto simp: UpdateMainPassCB_def obind_Returns_iff curr_frame_resource_Returns_iff
        CopyData_Returns_iff Let_def)

lemma set_waves_vertex_buffer_Returns_iff:
  "set_waves_vertex_buffer r s = Returns s' \<longleftrightarrow>
     (\<exists>p g geo. mWavesRitem s = Some p \<and> p < length (mAllRitems s) \<and>
        Geo (mAllRitems s ! p) = Some g \<and> map_of (mGeometries s) g = Some geo \<and>
        s' = s\<lparr>mGeometries := assign g (geo\<lparr>VertexBufferGPU := Some r\<rparr>) (mGeometries s)\<rparr>)"
  by (auto simp: set_waves_vertex_buffer_def split: option.splits)

lemma UpdateWater_Returns_iff:
  "UpdateWater F wupd gt s = Returns s' \<longleftrightarrow>
     (\<exists>waterMat k vb p g geo.
        map_of (mMaterials s) ''water'' = Some waterMat \<and>
        mCurrFrameResource s = Some k \<and> k < length (mFrameResources s) \<and>
        copy_wave_vertices F (wupd (DeltaTime gt) (mWaves s))
          [0 .. Waves_VertexCount (wupd (DeltaTime gt) (mWaves s)) - 1]
          (WavesVB (mFrameResources s ! k)) = Returns vb \<and>
        mWavesRitem s = Some p \<and> p < length (mAllRitems s) \<and>
        Geo (mAllRitems s ! p) = Some g \<and> map_of (mGeometries s) g = Some geo \<and>
        s' = s\<lparr>mMaterials := assign ''water'' (scroll_water F (DeltaTime gt) waterMat) (mMaterials s),
               mWaves := wupd (DeltaTime gt) (mWaves s),
               mFrameResources := (mFrameResources s)[k := (mFrameResources s ! k)\<lparr>WavesVB := vb\<rparr>],
               mGeometries := assign g (geo\<lparr>VertexBufferGPU := Some (Resource vb)\<rparr>) (mGeometries s)\<rparr>)"
  by (auto simp: UpdateWater_def obind_Returns_iff curr_frame_resource_Returns_iff
        set_waves_vertex_buffer_Returns_iff Let_def split: option.splits)

lemma cycle_frame_resource_Returns_iff:
  "cycle_frame_resource s = Returns s' \<longleftrightarrow>
     (let i = (mCurrFrameResourceIndex s + 1) smod gNumFrameResources
      in 0 \<le> i \<and> i < int (length (mFrameResources s)) \<and>
         s' = s\<lparr>mCurrFrameResourceIndex := i, mCurrFrameResource := Some (nat i)\<rparr>)"
  by (auto simp: cycle_frame_resource_def Let_def)

lemma Draw_Returns_iff:
  "Draw hr_ok s = Returns s' \<longleftrightarrow>
     (\<exists>k. mCurrFrameResource s = Some k \<and> k < length (mFrameResources s) \<and> hr_ok \<and>
        s' = s\<lparr>mCurrentFence := mCurrentFence s + 1,
               mFrameResources := (mFrameResources s)[k := (mFrameResources s ! k)\<lparr>Fence := mCurrentFence s + 1\<rparr>]\<rparr>)"
  by (auto simp: Draw_def obind_Returns_iff curr_frame_resource_Returns_iff Let_def)

lemma OnKeyboardInput_eq: "OnKeyboardInput key1 s = s\<lparr>mIsWireframe := key1\<rparr>"
  by (simp add: OnKeyboardInput_def)

lemma camera_frame:
  "mFrameResources (UpdateCamera F X s) = mFrameResources s"
  "mCurrFrameResource (UpdateCamera F X s) = mCurrFrameResource s"
  "mCurrFrameResourceIndex (UpdateCamera F X s) = mCurrFrameResourceIndex s"
  "mGeometries (UpdateCamera F X s) = mGeometries s"
  "mMaterials (UpdateCamera F X s) = mMaterials s"
  "mAllRitems (UpdateCamera F X s) = mAllRitems s"
  "mWaves (UpdateCamera F X s) = mWaves s"
  "mWavesRitem (UpdateCamera F X s) = mWavesRitem s"
  "mMainPassCB (UpdateCamera F X s) = mMainPassCB s"
  "mProj (UpdateCamera F X s) = mProj s"
  "mClientWidth (UpdateCamera F X s) = mClientWidth s"
  "mClientHeight (UpdateCamera F X s) = mClientHeight s"
  "mCurrentFence (UpdateCamera F X s) = mCurrentFence s"
  by (simp_all add: UpdateCamera_def Let_def)

lemma keyboard_frame:
  "mFrameResources (OnKeyboardInput key1 s) = mFrameResources s"
  "mCurrFrameResource (OnKeyboardInput key1 s) = mCurrFrameResource s"
  "mCurrFrameResourceIndex (OnKeyboardInput key1 s) = mCurrFrameResourceIndex s"
  "mGeometries (OnKeyboardInput key1 s) = mGeometries s"
  "mMaterials (OnKeyboardInput key1 s) = mMaterials s"
  "mAllRitems (OnKeyboardInput key1 s) = mAllRitems s"
  "mWaves (OnKeyboardInput key1 s) = mWaves s"
  "mWavesRitem (OnKeyboardInput key1 s) = mWavesRitem s"
  "mMainPassCB (OnKeyboardInput key1 s) = mMainPassCB s"
  "mProj (OnKeyboardInput key1 s) = mProj s"
  "mClientWidth (OnKeyboardInput key1 s) = mClientWidth s"
  "mClientHeight (OnKeyboardInput key1 s) = mClientHeight s"
  "mCurrentFence (OnKeyboardInput key1 s) = mCurrentFence s"
  "mView (UpdateCamera F X (OnKeyboardInput key1 s)) = mView (UpdateCamera F X s)"
  "mEyePos (UpdateCamera F X (OnKeyboardInput key1 s)) = mEyePos (UpdateCamera F X s)"
  by (simp_all add: OnKeyboardInput_eq UpdateCamera_def Let_def)

lemma advance_Returns_iff:
  "advance g s = Returns (s1, w) \<longleftrightarrow>
     (let i = (mCurrFrameResourceIndex s + 1) smod gNumFrameResources
      in 0 \<le> i \<and> i < int (length (mFrameResources s)) \<and>
         s1 = s\<lparr>mCurrFrameResourceIndex := i, mCurrFrameResource := Some (nat i)\<rparr> \<and>
         wait_for_frame_resource g s1 = Returns w)"
  by (auto simp: advance_def obind_Returns_iff cycle_frame_resource_Returns_iff Let_def)

lemma Update_Returns:
  assumes "Update F X H key1 g gt s = Returns (s', w)"
  shows "\<exists>k waterMat vb p gn geo es ob ms mb.
     int k = (mCurrFrameResourceIndex s + 1) smod gNumFrameResources \<and>
     k < length (mFrameResources s) \<and>
     advance g (UpdateCamera F X (OnKeyboardInput key1 s)) =
       Returns ((UpdateCamera F X (OnKeyboardInput key1 s))
          \<lparr>mCurrFrameResourceIndex := int k, mCurrFrameResource := Some k\<rparr>, w) \<and>
     map_of (mMaterials s) ''water'' = Some waterMat \<and>
     copy_wave_vertices F (Waves_Update H (DeltaTime gt) (mWaves s))
          [0 .. Waves_VertexCount (Waves_Update H (DeltaTime gt) (mWaves s)) - 1]
          (WavesVB (mFrameResources s ! k)) = Returns vb \<and>
     mWavesRitem s = Some p \<and> p < length (mAllRitems s) \<and>
     Geo (mAllRitems s ! p) = Some gn \<and> map_of (mGeometries s) gn = Some geo \<and>
     ObjectCBs_loop (ObjectConstants0 H) (mAllRitems s) (ObjectCB (mFrameResources s ! k)) = Returns (es, ob) \<and>
     MaterialCBs_loop (assign ''water'' (scroll_water F (DeltaTime gt) waterMat) (mMaterials s))
        (MaterialCB (mFrameResources s ! k)) = Returns (ms, mb) \<and>
     7 \<le> length (cbLights (mMainPassCB s)) \<and>
     0 < length (mMappedData (PassCB (mFrameResources s ! k))) \<and>
     mCurrFrameResourceIndex s' = int k \<and>
     mCurrFrameResource s' = Some k \<and>
     mCurrentFence s' = mCurrentFence s \<and>
     mAllRitems s' = es \<and>
     mMaterials s' = ms \<and>
     mWaves s' = Waves_Update H (DeltaTime gt) (mWaves s) \<and>
     mWavesRitem s' = mWavesRitem s \<and>
     mGeometries s' = assign gn (geo\<lparr>VertexBufferGPU := Some (Resource vb)\<rparr>) (mGeometries s) \<and>
     mMainPassCB s' = main_pass_constants F X gt (UpdateCamera F X s) \<and>
     mFrameResources s' = (mFrameResources s)[k := (mFrameResources s ! k)
        \<lparr>WavesVB := vb, ObjectCB := ob, MaterialCB := mb,
         PassCB := (PassCB (mFrameResources s ! k))
            \<lparr>mMappedData := (mMappedData (PassCB (mFrameResources s ! k)))[0 := main_pass_constants F X gt (UpdateCamera F X s)],
             copied := copied (PassCB (mFrameResources s ! k)) @ [0]\<rparr>\<rparr>]"
proof -
  from assms obtain s1 s2 s3 s4 where
    adv: "advance g (UpdateCamera F X (OnKeyboardInput key1 s)) = Returns (s1, w)"
    and s2: "UpdateWater F (Waves_Update H) gt s1 = Returns s2"
    and s3: "UpdateObjectCBs (ObjectConstants0 H) s2 = Returns s3"
    and s4: "UpdateMaterialCBs s3 = Returns s4"
    and s5: "UpdateMainPassCB F X gt s4 = Returns s'"
    by (auto simp: Update_def obind_Returns_iff)
  define i where "i = (mCurrFrameResourceIndex s + 1) smod gNumFrameResources"
  define k where "k = nat i"
  from adv have i: "0 \<le> i" "i < int (length (mFrameResources s))"
    and s1_eq: "s1 = (UpdateCamera F X (OnKeyboardInput key1 s))\<lparr>mCurrFrameResourceIndex := i, mCurrFrameResource := Some k\<rparr>"
    by (simp_all add: advance_Returns_iff Let_def i_def k_def camera_frame keyboard_frame)
  have ik: "int k = i" "k < length (mFrameResources s)" using i by (simp_all add: k_def)
  have pre: "mFrameResources s1 = mFrameResources s" "mMaterials s1 = mMaterials s"
    "mAllRitems s1 = mAllRitems s" "mGeometries s1 = mGeometries s" "mWaves s1 = mWaves s"
    "mWavesRitem s1 = mWavesRitem s" "mMainPassCB s1 = mMainPassCB s" "mCurrentFence s1 = mCurrentFence s"
    "mCurrFrameResource s1 = Some k" "mCurrFrameResourceIndex s1 = i"
    by (simp_all add: s1_eq camera_frame keyboard_frame)
  from s2 pre ik obtain waterMat vb p gn geo where
    wm: "map_of (mMaterials s) ''water'' = Some waterMat"
    and vb: "copy_wave_vertices F (Waves_Update H (DeltaTime gt) (mWaves s))
          [0 .. Waves_VertexCount (Waves_Update H (DeltaTime gt) (mWaves s)) - 1]
          (WavesVB (mFrameResources s ! k)) = Returns vb"
    and p: "mWavesRitem s = Some p" "p < length (mAllRitems s)"
        "Geo (mAllRitems s ! p) = Some gn" "map_of (mGeometries s) gn = Some geo"
    and s2_eq: "s2 = s1\<lparr>mMaterials := assign ''water'' (scroll_water F (DeltaTime gt) waterMat) (mMaterials s),
               mWaves := Waves_Update H (DeltaTime gt) (mWaves s),
               mFrameResources := (mFrameResources s)[k := (mFrameResources s ! k)\<lparr>WavesVB := vb\<rparr>],
               mGeometries := assign gn (geo\<lparr>VertexBufferGPU := Some (Resource vb)\<rparr>) (mGeometries s)\<rparr>"
    by (auto simp: UpdateWater_Returns_iff)
  from s3 pre ik obtain es ob where
    ob: "ObjectCBs_loop (ObjectConstants0 H) (mAllRitems s) (ObjectCB (mFrameResources s ! k)) = Returns (es, ob)"
    and s3_eq: "s3 = s2\<lparr>mAllRitems := es,
        mFrameResources := (mFrameResources s)[k := (mFrameResources s ! k)\<lparr>WavesVB := vb, ObjectCB := ob\<rparr>]\<rparr>"
    by (auto simp: UpdateObjectCBs_Returns_iff s2_eq)
  from s4 pre ik obtain ms mb where
    mb: "MaterialCBs_loop (assign ''water'' (scroll_water F (DeltaTime gt) waterMat) (mMaterials s))
        (MaterialCB (mFrameResources s ! k)) = Returns (ms, mb)"
    and s4_eq: "s4 = s3\<lparr>mMaterials := ms,
        mFrameResources := (mFrameResources s)[k := (mFrameResources s ! k)\<lparr>WavesVB := vb, ObjectCB := ob, MaterialCB := mb\<rparr>]\<rparr>"
    by (auto simp: UpdateMaterialCBs_Returns_iff s3_eq s2_eq)
  have mpc: "main_pass_constants F X gt s4 = main_pass_constants F X gt (UpdateCamera F X s)"
    by (simp add: main_pass_constants_def s4_eq s3_eq s2_eq s1_eq camera_frame keyboard_frame Let_def)
  from s5 pre ik have L: "7 \<le> length (cbLights (mMainPassCB s))"
    "0 < length (mMappedData (PassCB (mFrameResources s ! k)))"
    and s'_eq: "s' = s4\<lparr>mMainPassCB := main_pass_constants F X gt s4,
               mFrameResources := (mFrameResources s)[k := (mFrameResources s ! k)
                 \<lparr>WavesVB := vb, ObjectCB := ob, MaterialCB := mb,
                  PassCB := (PassCB (mFrameResources s ! k))
                    \<lparr>mMappedData := (mMappedData (PassCB (mFrameResources s ! k)))[0 := main_pass_constants F X gt s4],
                     copied := copied (PassCB (mFrameResources s ! k)) @ [0]\<rparr>\<rparr>]\<rparr>"
    by (auto simp: UpdateMainPassCB_Returns_iff s4_eq s3_eq s2_eq)
  note s'_eq2 = s'_eq [unfolded mpc]
  from adv have w': "advance g (UpdateCamera F X (OnKeyboardInput key1 s)) =
       Returns ((UpdateCamera F X (OnKeyboardInput key1 s))
          \<lparr>mCurrFrameResourceIndex := int k, mCurrFrameResource := Some k\<rparr>, w)"
    by (simp add: s1_eq ik)
  show ?thesis
    apply (rule exI [of _ k], rule exI [of _ waterMat], rule exI [of _ vb], rule exI [of _ p],
        rule exI [of _ gn], rule exI [of _ geo], rule exI [of _ es], rule exI [of _ ob],
        rule exI [of _ ms], rule exI [of _ mb])
    using ik wm vb p ob mb L w' pre
    by (simp add: i_def s'_eq2 s4_eq s3_eq s2_eq)
qed

subsection \<open>Update and Draw keep an application well-formed\<close>

lemma map_of_assign:
  "map_of (assign k v ps) k' =
     (if k' = k then (case map_of ps k of None \<Rightarrow> None | Some u \<Rightarrow> Some v) else map_of ps k')"
  by (induction ps) (auto split: option.splits)

lemma list_all_assign:
  "list_all P ps \<Longrightarrow> P (k, v) \<Longrightarrow> list_all P (assign k v ps)"
  by (induction ps) auto

lemma map_of_Some_in_set: "map_of ps k = Some v \<Longrightarrow> (k, v) \<in> set ps"
  by (rule map_of_SomeD)

lemma MatCBIndex_scroll_water [simp]:
  "MatCBIndex (scroll_water F dt m) = MatCBIndex m"
  by (simp add: scroll_water_def Let_def)

lemma slot_ok_cong:
  "mWaves s' = mWaves s \<Longrightarrow> mAllRitems s' = mAllRitems s \<Longrightarrow> mMaterials s' = mMaterials s \<Longrightarrow>
     slot_ok s' fr = slot_ok s fr"
  by (simp add: slot_ok_def)

lemma list_all_update:
  "list_all P xs \<Longrightarrow> P y \<Longrightarrow> list_all P (xs[k := y])"
  by (auto simp: list_all_iff dest!: set_update_subset_insert [THEN subsetD])

lemma Update_total:
  assumes ring: "ring_ok s" and scene: "scene_ok s" and waves: "waves_ok H"
    and adv: "advance g (UpdateCamera F X (OnKeyboardInput key1 s)) = Returns (s1, w)"
  shows "\<exists>s'. Update F X H key1 g gt s = Returns (s', w)"
proof -
  define i where "i = (mCurrFrameResourceIndex s + 1) mod 3"
  define k where "k = nat i"
  from ring have len: "length (mFrameResources s) = 3" and idx: "0 \<le> mCurrFrameResourceIndex s"
    by (simp_all add: ring_ok_def gNumFrameResources_def)
  have smod: "(mCurrFrameResourceIndex s + 1) smod gNumFrameResources = i"
    using idx by (simp add: smod_gNumFrameResources i_def)
  have i: "0 \<le> i" "i < 3" by (simp_all add: i_def)
  then have k: "k < length (mFrameResources s)" "int k = i" by (simp_all add: k_def len)
  have s1_def: "s1 = (UpdateCamera F X (OnKeyboardInput key1 s))\<lparr>mCurrFrameResourceIndex := i, mCurrFrameResource := Some k\<rparr>"
    using adv by (simp add: advance_Returns_iff Let_def camera_frame keyboard_frame smod k_def)
  have pre: "mFrameResources s1 = mFrameResources s" "mMaterials s1 = mMaterials s"
    "mAllRitems s1 = mAllRitems s" "mGeometries s1 = mGeometries s" "mWaves s1 = mWaves s"
    "mWavesRitem s1 = mWavesRitem s" "mMainPassCB s1 = mMainPassCB s" "mCurrentFence s1 = mCurrentFence s"
    "mCurrFrameResource s1 = Some k" "mCurrFrameResourceIndex s1 = i"
    by (simp_all add: s1_def camera_frame keyboard_frame)
  define fr where "fr = mFrameResources s ! k"
  from scene k have slot: "slot_ok s fr"
    by (simp add: scene_ok_def list_all_length fr_def)
  from scene obtain waterMat where wm: "map_of (mMaterials s) ''water'' = Some waterMat"
    by (auto simp: scene_ok_def)
  from scene obtain p gn geo where p: "mWavesRitem s = Some p" "p < length (mAllRitems s)"
    "Geo (mAllRitems s ! p) = Some gn" "map_of (mGeometries s) gn = Some geo"
    by (auto simp: scene_ok_def split: option.splits)
  define w' where "w' = Waves_Update H (DeltaTime gt) (mWaves s)"
  have vc: "Waves_VertexCount w' = Waves_VertexCount (mWaves s)"
    using waves by (simp add: waves_ok_def w'_def)
  have "\<exists>vb. copy_wave_vertices F w' [0 .. Waves_VertexCount w' - 1] (WavesVB fr) = Returns vb"
    using slot by (intro copy_wave_vertices_ok) (auto simp: slot_ok_def vc)
  then obtain vb where vb: "copy_wave_vertices F w' [0 .. Waves_VertexCount w' - 1] (WavesVB fr) = Returns vb" ..
  define s2 where "s2 = s1\<lparr>mMaterials := assign ''water'' (scroll_water F (DeltaTime gt) waterMat) (mMaterials s),
               mWaves := w',
               mFrameResources := (mFrameResources s)[k := fr\<lparr>WavesVB := vb\<rparr>],
               mGeometries := assign gn (geo\<lparr>VertexBufferGPU := Some (Resource vb)\<rparr>) (mGeometries s)\<rparr>"
  have u2: "UpdateWater F (Waves_Update H) gt s1 = Returns s2"
    unfolding UpdateWater_Returns_iff
    using wm k vb p by (auto simp: pre s2_def w'_def fr_def)
  have "\<exists>r. ObjectCBs_loop (ObjectConstants0 H) (mAllRitems s) (ObjectCB fr) = Returns r"
    using slot by (intro ObjectCBs_loop_ok) (auto simp: slot_ok_def list_all_iff)
  then obtain es ob where ob: "ObjectCBs_loop (ObjectConstants0 H) (mAllRitems s) (ObjectCB fr) = Returns (es, ob)"
    by force
  define s3 where "s3 = s2\<lparr>mAllRitems := es,
        mFrameResources := (mFrameResources s)[k := fr\<lparr>WavesVB := vb, ObjectCB := ob\<rparr>]\<rparr>"
  have u3: "UpdateObjectCBs (ObjectConstants0 H) s2 = Returns s3"
    unfolding UpdateObjectCBs_Returns_iff
    using k ob by (auto simp: s2_def pre s3_def)
  have wmset: "(''water'', waterMat) \<in> set (mMaterials s)"
    using wm by (rule map_of_SomeD)
  have "list_all (\<lambda>e. 0 \<le> MatCBIndex (snd e) \<and>
                    MatCBIndex (snd e) < int (length (mMappedData (MaterialCB fr))))
          (assign ''water'' (scroll_water F (DeltaTime gt) waterMat) (mMaterials s))"
    using slot wmset by (intro list_all_assign) (auto simp: slot_ok_def list_all_iff)
  then have "\<exists>r. MaterialCBs_loop (assign ''water'' (scroll_water F (DeltaTime gt) waterMat) (mMaterials s))
        (MaterialCB fr) = Returns r"
    by (intro MaterialCBs_loop_ok) (auto simp: list_all_iff)
  then obtain ms mb where mb: "MaterialCBs_loop (assign ''water'' (scroll_water F (DeltaTime gt) waterMat) (mMaterials s))
        (MaterialCB fr) = Returns (ms, mb)"
    by force
  define s4 where "s4 = s3\<lparr>mMaterials := ms,
        mFrameResources := (mFrameResources s)[k := fr\<lparr>WavesVB := vb, ObjectCB := ob, MaterialCB := mb\<rparr>]\<rparr>"
  have u4: "UpdateMaterialCBs s3 = Returns s4"
    unfolding UpdateMaterialCBs_Returns_iff
    using k mb by (auto simp: s3_def s2_def pre s4_def)
  have "\<exists>s5. UpdateMainPassCB F X gt s4 = Returns s5"
    unfolding UpdateMainPassCB_Returns_iff
    using k scene slot by (auto simp: s4_def s3_def s2_def pre scene_ok_def slot_ok_def)
  then obtain s5 where u5: "UpdateMainPassCB F X gt s4 = Returns s5" ..
  show ?thesis
    using adv u2 u3 u4 u5 by (simp add: Update_def)
qed

lemma map_fst_assign [simp]: "map fst (assign k v ps) = map fst ps"
  by (induction ps) auto

lemma map_MatCBIndex_assign:
  "map_of ps k = Some u \<Longrightarrow> MatCBIndex v = MatCBIndex u \<Longrightarrow>
     map (\<lambda>e. MatCBIndex (snd e)) (assign k v ps) = map (\<lambda>e. MatCBIndex (snd e)) ps"
  by (induction ps) (auto split: if_splits)

lemma map_of_neq_None_iff: "map_of ps k \<noteq> None \<longleftrightarrow> k \<in> set (map fst ps)"
  by (simp add: map_of_eq_None_iff)

lemma slot_ok_transfer:
  assumes "slot_ok s fr"
    and "Waves_VertexCount (mWaves s') = Waves_VertexCount (mWaves s)"
    and "map ObjCBIndex (mAllRitems s') = map ObjCBIndex (mAllRitems s)"
    and "map (\<lambda>e. MatCBIndex (snd e)) (mMaterials s') = map (\<lambda>e. MatCBIndex (snd e)) (mMaterials s)"
    and "length (mMappedData (PassCB fr')) = length (mMappedData (PassCB fr))"
    and "length (mMappedData (WavesVB fr')) = length (mMappedData (WavesVB fr))"
    and "length (mMappedData (ObjectCB fr')) = length (mMappedData (ObjectCB fr))"
    and "length (mMappedData (MaterialCB fr')) = length (mMappedData (MaterialCB fr))"
  shows "slot_ok s' fr'"
proof -
  have o: "list_all (\<lambda>e. P (ObjCBIndex e)) (mAllRitems s') = list_all (\<lambda>e. P (ObjCBIndex e)) (mAllRitems s)" for P
    using arg_cong [OF assms(3), of "list_all P"] by (simp add: list.pred_map comp_def)
  have m: "list_all (\<lambda>e. P (MatCBIndex (snd e))) (mMaterials s') = list_all (\<lambda>e. P (MatCBIndex (snd e))) (mMaterials s)" for P
    using arg_cong [OF assms(4), of "list_all P"] by (simp add: list.pred_map comp_def)
  from assms(1,2,5-8) show ?thesis
    unfolding slot_ok_def
    using o [of "\<lambda>i. 0 \<le> sint i \<and> sint i < int (length (mMappedData (ObjectCB fr)))"]
      m [of "\<lambda>i. 0 \<le> i \<and> i < int (length (mMappedData (MaterialCB fr)))"]
    by simp
qed

lemma length_set_lights [simp]: "length (set_lights F ls) = length ls"
  by (simp add: set_lights_def Let_def)

lemma Update_preserves:
  assumes upd: "Update F X H key1 g gt s = Returns (s', w)"
    and ring: "ring_ok s" and scene: "scene_ok s" and waves: "waves_ok H"
  shows "ring_ok s' \<and> scene_ok s'"
proof -
  from Update_Returns [OF upd] obtain k waterMat vb p gn geo es ob ms mb where
    k: "int k = (mCurrFrameResourceIndex s + 1) smod gNumFrameResources" "k < length (mFrameResources s)"
    and wm: "map_of (mMaterials s) ''water'' = Some waterMat"
    and vb: "copy_wave_vertices F (Waves_Update H (DeltaTime gt) (mWaves s))
          [0 .. Waves_VertexCount (Waves_Update H (DeltaTime gt) (mWaves s)) - 1]
          (WavesVB (mFrameResources s ! k)) = Returns vb"
    and p: "mWavesRitem s = Some p" "p < length (mAllRitems s)"
      "Geo (mAllRitems s ! p) = Some gn" "map_of (mGeometries s) gn = Some geo"
    and ob: "ObjectCBs_loop (ObjectConstants0 H) (mAllRitems s) (ObjectCB (mFrameResources s ! k)) = Returns (es, ob)"
    and mb: "MaterialCBs_loop (assign ''water'' (scroll_water F (DeltaTime gt) waterMat) (mMaterials s))
        (MaterialCB (mFrameResources s ! k)) = Returns (ms, mb)"
    and L: "7 \<le> length (cbLights (mMainPassCB s))" "0 < length (mMappedData (PassCB (mFrameResources s ! k)))"
    and s': "mCurrFrameResourceIndex s' = int k" "mCurrFrameResource s' = Some k"
      "mCurrentFence s' = mCurrentFence s" "mAllRitems s' = es" "mMaterials s' = ms"
      "mWaves s' = Waves_Update H (DeltaTime gt) (mWaves s)" "mWavesRitem s' = mWavesRitem s"
      "mGeometries s' = assign gn (geo\<lparr>VertexBufferGPU := Some (Resource vb)\<rparr>) (mGeometries s)"
      "mMainPassCB s' = main_pass_constants F X gt (UpdateCamera F X s)"
    and frs': "mFrameResources s' = (mFrameResources s)[k := (mFrameResources s ! k)
        \<lparr>WavesVB := vb, ObjectCB := ob, MaterialCB := mb,
         PassCB := (PassCB (mFrameResources s ! k))
            \<lparr>mMappedData := (mMappedData (PassCB (mFrameResources s ! k)))[0 := main_pass_constants F X gt (UpdateCamera F X s)],
             copied := copied (PassCB (mFrameResources s ! k)) @ [0]\<rparr>\<rparr>]"
    by blast
  from ring have idx: "0 \<le> mCurrFrameResourceIndex s" by (simp add: ring_ok_def)
  have ring': "ring_ok s'"
    using ring k by (simp add: ring_ok_def s' frs' smod_gNumFrameResources [OF idx] gNumFrameResources_def)
  note obR = ObjectCBs_loop_Returns [OF ob]
  note mbR = MaterialCBs_loop_Returns [OF mb]
  note vbR = copy_wave_vertices_Returns [OF vb]
  have es_idx: "map ObjCBIndex es = map ObjCBIndex (mAllRitems s)"
    and es_geo: "map Geo es = map Geo (mAllRitems s)"
    using obR by (simp_all add: comp_def)
  have ms_fst: "map fst ms = map fst (mMaterials s)"
    using mbR by (simp add: comp_def if_distrib [of fst] cong: if_cong)
  have ms_idx: "map (\<lambda>e. MatCBIndex (snd e)) ms = map (\<lambda>e. MatCBIndex (snd e)) (mMaterials s)"
  proof -
    have "map (\<lambda>e. MatCBIndex (snd e)) ms =
        map (\<lambda>e. MatCBIndex (snd e)) (assign ''water'' (scroll_water F (DeltaTime gt) waterMat) (mMaterials s))"
      using mbR by (simp add: comp_def if_distrib [of snd] if_distrib [of MatCBIndex] cong: if_cong)
    also have "\<dots> = map (\<lambda>e. MatCBIndex (snd e)) (mMaterials s)"
      using wm by (rule map_MatCBIndex_assign) simp
    finally show ?thesis .
  qed
  have water': "map_of (mMaterials s') ''water'' \<noteq> None"
  proof -
    have "''water'' \<in> set (map fst (mMaterials s))"
      using wm by (metis map_of_neq_None_iff option.distinct(1))
    then show ?thesis by (simp only: map_of_neq_None_iff s' ms_fst)
  qed
  have len_es: "length es = length (mAllRitems s)" using obR by simp
  have "Geo (es ! p) = Geo (mAllRitems s ! p)"
    using es_geo p(2) len_es by (metis nth_map)
  with p have ritem': "case mWavesRitem s' of None \<Rightarrow> False
      | Some p \<Rightarrow> p < length (mAllRitems s') \<and>
          (case Geo (mAllRitems s' ! p) of None \<Rightarrow> False
           | Some g \<Rightarrow> map_of (mGeometries s') g \<noteq> None)"
    by (simp add: s' len_es map_of_assign)
  have lights': "7 \<le> length (cbLights (mMainPassCB s'))"
    using L by (simp add: s' main_pass_constants_def Let_def camera_frame)
  have vc: "Waves_VertexCount (mWaves s') = Waves_VertexCount (mWaves s)"
    using waves by (simp add: s' waves_ok_def)
  have vc2: "Waves_VertexCount (Waves_Update H (DeltaTime gt) (mWaves s)) = Waves_VertexCount (mWaves s)"
    using waves by (simp add: waves_ok_def)
  have lens: "length (mMappedData ob) = length (mMappedData (ObjectCB (mFrameResources s ! k)))"
    "length (mMappedData mb) = length (mMappedData (MaterialCB (mFrameResources s ! k)))"
    "length (mMappedData vb) = length (mMappedData (WavesVB (mFrameResources s ! k)))"
    using obR mbR vbR by simp_all
  have slots: "list_all (slot_ok s) (mFrameResources s)" using scene by (simp add: scene_ok_def)
  have keep: "slot_ok s fr \<Longrightarrow> slot_ok s' fr" for fr
    by (rule slot_ok_transfer [where s = s and fr = fr]) (simp_all add: vc2 s' es_idx ms_idx)
  have "slot_ok s (mFrameResources s ! k)"
    using slots k by (simp add: list_all_length)
  then have new: "slot_ok s' ((mFrameResources s ! k)
        \<lparr>WavesVB := vb, ObjectCB := ob, MaterialCB := mb,
         PassCB := (PassCB (mFrameResources s ! k))
            \<lparr>mMappedData := (mMappedData (PassCB (mFrameResources s ! k)))[0 := main_pass_constants F X gt (UpdateCamera F X s)],
             copied := copied (PassCB (mFrameResources s ! k)) @ [0]\<rparr>\<rparr>)"
    by (rule slot_ok_transfer) (simp_all add: vc2 s' es_idx ms_idx lens)
  have "list_all (slot_ok s') (mFrameResources s)"
    using slots keep by (auto simp: list_all_iff)
  then have slots': "list_all (slot_ok s') (mFrameResources s')"
    unfolding frs' using new by (rule list_all_update)
  show ?thesis
    unfolding scene_ok_def using ring' water' ritem' lights' slots' by blast
qed

lemma Draw_total:
  "mCurrFrameResource s = Some k \<Longrightarrow> k < length (mFrameResources s) \<Longrightarrow>
     \<exists>s'. Draw True s = Returns s'"
  by (simp add: Draw_Returns_iff)

lemma Draw_preserves:
  assumes d: "Draw hr s = Returns s'" and ring: "ring_ok s" and scene: "scene_ok s"
  shows "ring_ok s' \<and> scene_ok s'"
proof -
  from d obtain k where k: "mCurrFrameResource s = Some k" "k < length (mFrameResources s)"
    and s': "s' = s\<lparr>mCurrentFence := mCurrentFence s + 1,
               mFrameResources := (mFrameResources s)[k := (mFrameResources s ! k)\<lparr>Fence := mCurrentFence s + 1\<rparr>]\<rparr>"
    by (auto simp: Draw_Returns_iff)
  have ring': "ring_ok s'" using ring by (simp add: ring_ok_def s')
  have slots: "list_all (slot_ok s) (mFrameResources s)" using scene by (simp add: scene_ok_def)
  have keep: "slot_ok s fr \<Longrightarrow> slot_ok s' fr" for fr
    by (simp add: slot_ok_def s')
  have "slot_ok s (mFrameResources s ! k)" using slots k by (simp add: list_all_length)
  then have new: "slot_ok s' ((mFrameResources s ! k)\<lparr>Fence := mCurrentFence s + 1\<rparr>)"
    by (simp add: slot_ok_def s')
  have "list_all (slot_ok s') (mFrameResources s)"
    using slots keep by (auto simp: list_all_iff)
  then have "list_all (slot_ok s') ((mFrameResources s)[k := (mFrameResources s ! k)\<lparr>Fence := mCurrentFence s + 1\<rparr>])"
    using new by (rule list_all_update)
  then have "list_all (slot_ok s') (mFrameResources s')" by (simp add: s')
  with scene ring' show ?thesis by (simp add: scene_ok_def s' cong: option.case_cong)
qed

lemma WaitForSingleObject_eq:
  "WaitForSingleObject v cs =
     (case dropWhile (\<lambda>c. c < v) cs of [] \<Rightarrow> Hangs | c # _ \<Rightarrow> Returns c)"
  by (induction cs) (auto simp: not_less)

lemma obind_case_list:
  "obind (case xs of [] \<Rightarrow> Hangs | c # _ \<Rightarrow> Returns c) (\<lambda>c. Returns (Some c)) =
     (case xs of [] \<Rightarrow> Hangs | c # _ \<Rightarrow> Returns (Some c))"
  by (cases xs) simp_all

lemma wait_for_frame_resource_eq:
  assumes "mCurrFrameResource s = Some k" "k < length (mFrameResources s)"
  shows "wait_for_frame_resource g s =
     (if Fence (mFrameResources s ! k) \<noteq> 0 \<and> GetCompletedValue g < Fence (mFrameResources s ! k)
      then if SetEventOnCompletion_ok g
           then (case dropWhile (\<lambda>c. c < Fence (mFrameResources s ! k)) (later g) of
                   [] \<Rightarrow> Hangs | c # _ \<Rightarrow> Returns (Some c))
           else Throws HResultFailed
      else Returns None)"
  using assms
  by (simp add: wait_for_frame_resource_def curr_frame_resource_def WaitForSingleObject_eq
      obind_case_list)

lemma Update_Hangs:
  "advance g (UpdateCamera F X (OnKeyboardInput key1 s)) = Hangs \<Longrightarrow>
     Update F X H key1 g gt s = Hangs"
  by (simp add: Update_def)

lemma Update_Throws:
  "advance g (UpdateCamera F X (OnKeyboardInput key1 s)) = Throws e \<Longrightarrow>
     Update F X H key1 g gt s = Throws e"
  by (simp add: Update_def)

lemma advance_eq:
  assumes "ring_ok s"
  shows "advance g s =
     (let i = (mCurrFrameResourceIndex s + 1) mod gNumFrameResources;
          f = Fence (mFrameResources s ! nat i);
          s1 = s\<lparr>mCurrFrameResourceIndex := i, mCurrFrameResource := Some (nat i)\<rparr>
      in if f \<noteq> 0 \<and> GetCompletedValue g < f
         then if SetEventOnCompletion_ok g
              then (case dropWhile (\<lambda>c. c < f) (later g) of
                      [] \<Rightarrow> Hangs | c # _ \<Rightarrow> Returns (s1, Some c))
              else Throws HResultFailed
         else Returns (s1, None))"
proof -
  from assms have len: "length (mFrameResources s) = 3" and idx: "0 \<le> mCurrFrameResourceIndex s"
    by (simp_all add: ring_ok_def gNumFrameResources_def)
  define i where "i = (mCurrFrameResourceIndex s + 1) mod 3"
  have i: "0 \<le> i" "i < 3" by (simp_all add: i_def)
  define s1 where "s1 = s\<lparr>mCurrFrameResourceIndex := i, mCurrFrameResource := Some (nat i)\<rparr>"
  have c: "cycle_frame_resource s = Returns s1"
    using i by (simp add: cycle_frame_resource_def Let_def smod_gNumFrameResources [OF idx] len s1_def i_def)
  have w: "wait_for_frame_resource g s1 =
     (if Fence (mFrameResources s ! nat i) \<noteq> 0 \<and> GetCompletedValue g < Fence (mFrameResources s ! nat i)
      then if SetEventOnCompletion_ok g
           then (case dropWhile (\<lambda>c. c < Fence (mFrameResources s ! nat i)) (later g) of
                   [] \<Rightarrow> Hangs | c # _ \<Rightarrow> Returns (Some c))
           else Throws HResultFailed
      else Returns None)"
    using wait_for_frame_resource_eq [of s1 "nat i" g] i by (simp add: s1_def len)
  have b: "obind (case xs of [] \<Rightarrow> Hangs | c # _ \<Rightarrow> Returns (Some c)) (\<lambda>w. Returns (s1, w)) =
      (case xs of [] \<Rightarrow> Hangs | c # _ \<Rightarrow> Returns (s1, Some c))" for xs :: "UINT64 list"
    by (cases xs) simp_all
  show ?thesis
    by (simp add: advance_def c [unfolded s1_def] w [unfolded s1_def] b [unfolded s1_def]
        Let_def gNumFrameResources_def flip: i_def)
qed


subsection \<open>The small application is well-formed\<close>

lemma demo_ok: "ring_ok demo_app" "scene_ok demo_app" "waves_ok demo_headers"
  by (simp_all add: ring_ok_def scene_ok_def slot_ok_def waves_ok_def demo_app_def
      demo_headers_def gNumFrameResources_def demo_frame_resource_def demo_material_def demo_pass_def)

lemma demo_advance:
  "advance (tk_fence (demo_input 0)) (UpdateCamera exact_ops demo_math (OnKeyboardInput False demo_app)) =
     Returns ((UpdateCamera exact_ops demo_math (OnKeyboardInput False demo_app))
        \<lparr>mCurrFrameResourceIndex := 1, mCurrFrameResource := Some 1\<rparr>, None)"
  by (simp add: advance_def cycle_frame_resource_def wait_for_frame_resource_def
      curr_frame_resource_def camera_frame keyboard_frame demo_app_def demo_input_def
      demo_frame_resource_def gNumFrameResources_def smod_int_alt_def Let_def)

subsection \<open>Ticks and the ring\<close>

lemma tick_Returns:
  assumes t: "tick F X H i s = Returns (s', w)" and ring: "ring_ok s"
  shows "\<exists>s1 k. Update F X H (tk_key1 i) (tk_fence i) (tk_timer i) s = Returns (s1, w) \<and>
     Draw (tk_hr_ok i) s1 = Returns s' \<and> tk_hr_ok i \<and>
     int k = (mCurrFrameResourceIndex s + 1) mod 3 \<and> k < 3 \<and>
     mCurrFrameResourceIndex s1 = int k \<and> mCurrFrameResource s1 = Some k \<and>
     length (mFrameResources s1) = 3 \<and>
     s' = s1\<lparr>mCurrentFence := mCurrentFence s + 1,
            mFrameResources := (mFrameResources s1)[k := (mFrameResources s1 ! k)\<lparr>Fence := mCurrentFence s + 1\<rparr>]\<rparr> \<and>
     (\<forall>j. j \<noteq> k \<longrightarrow> mFrameResources s1 ! j = mFrameResources s ! j) \<and>
     Fence (mFrameResources s1 ! k) = Fence (mFrameResources s ! k)"
proof -
  from t obtain s1 where upd: "Update F X H (tk_key1 i) (tk_fence i) (tk_timer i) s = Returns (s1, w)"
    and d: "Draw (tk_hr_ok i) s1 = Returns s'"
    by (auto simp: tick_def obind_Returns_iff)
  from ring have len: "length (mFrameResources s) = 3" and idx: "0 \<le> mCurrFrameResourceIndex s"
    by (simp_all add: ring_ok_def gNumFrameResources_def)
  from Update_Returns [OF upd] obtain k vb ob mb pb where
    k: "int k = (mCurrFrameResourceIndex s + 1) mod 3" "k < length (mFrameResources s)"
    and s1: "mCurrFrameResourceIndex s1 = int k" "mCurrFrameResource s1 = Some k"
      "mCurrentFence s1 = mCurrentFence s"
    and frs1: "mFrameResources s1 = (mFrameResources s)[k := (mFrameResources s ! k)
        \<lparr>WavesVB := vb, ObjectCB := ob, MaterialCB := mb, PassCB := pb\<rparr>]"
    unfolding smod_gNumFrameResources [OF idx] by blast
  from d have hr: "tk_hr_ok i"
    and s': "s' = s1\<lparr>mCurrentFence := mCurrentFence s1 + 1,
               mFrameResources := (mFrameResources s1)[k := (mFrameResources s1 ! k)\<lparr>Fence := mCurrentFence s1 + 1\<rparr>]\<rparr>"
    by (auto simp: Draw_Returns_iff s1)
  show ?thesis
    using upd d hr k s1 s' len
    by (intro exI [of _ s1] exI [of _ k]) (simp add: frs1)
qed

lemma tick_ring:
  assumes t: "tick F X H i s = Returns (s', w)" and ring: "ring_ok s"
  shows "ring_ok s' \<and>
     mCurrFrameResourceIndex s' = (mCurrFrameResourceIndex s + 1) mod 3 \<and>
     mCurrFrameResource s' = Some (nat ((mCurrFrameResourceIndex s + 1) mod 3)) \<and>
     mCurrentFence s' = mCurrentFence s + 1 \<and>
     map Fence (mFrameResources s') =
       (map Fence (mFrameResources s))[nat ((mCurrFrameResourceIndex s + 1) mod 3) := mCurrentFence s + 1]"
proof -
  from tick_Returns [OF t ring] obtain s1 k where
    k: "int k = (mCurrFrameResourceIndex s + 1) mod 3" "k < 3"
    and s1: "mCurrFrameResourceIndex s1 = int k" "mCurrFrameResource s1 = Some k"
      "length (mFrameResources s1) = 3"
    and s': "s' = s1\<lparr>mCurrentFence := mCurrentFence s + 1,
            mFrameResources := (mFrameResources s1)[k := (mFrameResources s1 ! k)\<lparr>Fence := mCurrentFence s + 1\<rparr>]\<rparr>"
    and other: "\<forall>j. j \<noteq> k \<longrightarrow> mFrameResources s1 ! j = mFrameResources s ! j"
    by blast
  from ring have len: "length (mFrameResources s) = 3"
    by (simp add: ring_ok_def gNumFrameResources_def)
  have kn: "nat ((mCurrFrameResourceIndex s + 1) mod 3) = k" using k by linarith
  have "map Fence (mFrameResources s') = (map Fence (mFrameResources s))[k := mCurrentFence s + 1]"
  proof (rule nth_equalityI)
    show "length (map Fence (mFrameResources s')) = length ((map Fence (mFrameResources s))[k := mCurrentFence s + 1])"
      by (simp add: s' s1 len)
  next
    fix j assume "j < length (map Fence (mFrameResources s'))"
    then have j: "j < 3" by (simp add: s' s1)
    show "map Fence (mFrameResources s') ! j = (map Fence (mFrameResources s))[k := mCurrentFence s + 1] ! j"
      using j other by (cases "j = k") (simp_all add: s' s1 len)
  qed
  then show ?thesis
    using k by (simp add: kn ring_ok_def gNumFrameResources_def s' s1)
qed

lemma run_Cons_Returns:
  "run F X H (i # js) s = Returns tr \<longleftrightarrow>
     (\<exists>s1 w tr1. tick F X H i s = Returns (s1, w) \<and> run F X H js s1 = Returns tr1 \<and>
        tr = (s1, w) # tr1)"
  by (auto simp: obind_Returns_iff)

lemma run_length: "run F X H inps s = Returns tr \<Longrightarrow> length tr = length inps"
  by (induction inps arbitrary: s tr) (auto simp: obind_Returns_iff)

lemma ring_ok_camera [simp]: "ring_ok (UpdateCamera F X (OnKeyboardInput key1 s)) = ring_ok s"
  by (simp add: ring_ok_def camera_frame keyboard_frame)

lemma advance_camera_eq:
  assumes "ring_ok s"
  shows "advance g (UpdateCamera F X (OnKeyboardInput key1 s)) =
     (let i = (mCurrFrameResourceIndex s + 1) mod gNumFrameResources;
          f = Fence (mFrameResources s ! nat i);
          s1 = (UpdateCamera F X (OnKeyboardInput key1 s))
                 \<lparr>mCurrFrameResourceIndex := i, mCurrFrameResource := Some (nat i)\<rparr>
      in if f \<noteq> 0 \<and> GetCompletedValue g < f
         then if SetEventOnCompletion_ok g
              then (case dropWhile (\<lambda>c. c < f) (later g) of
                      [] \<Rightarrow> Hangs | c # _ \<Rightarrow> Returns (s1, Some c))
              else Throws HResultFailed
         else Returns (s1, None))"
  using advance_eq [of "UpdateCamera F X (OnKeyboardInput key1 s)" g] assms
  by (simp add: camera_frame keyboard_frame)

lemma tick_total:
  assumes "ring_ok s" and "scene_ok s" and "waves_ok H" and "tk_hr_ok i"
    and "advance (tk_fence i) (UpdateCamera F X (OnKeyboardInput (tk_key1 i) s)) = Returns (s1, w)"
  shows "\<exists>s'. tick F X H i s = Returns (s', w) \<and> ring_ok s' \<and> scene_ok s'"
proof -
  from Update_total [OF assms(1-3,5)] obtain s2 where
    upd: "Update F X H (tk_key1 i) (tk_fence i) (tk_timer i) s = Returns (s2, w)" ..
  from Update_preserves [OF upd assms(1-3)] have ok2: "ring_ok s2" "scene_ok s2" by simp_all
  from Update_Returns [OF upd] obtain k where "mCurrFrameResource s2 = Some k"
    "k < length (mFrameResources s)" and "length (mFrameResources s2) = length (mFrameResources s)"
    by auto
  then obtain s' where d: "Draw (tk_hr_ok i) s2 = Returns s'"
    using assms(4) Draw_total [of s2 k] by auto
  from Draw_preserves [OF d ok2] upd d show ?thesis
    by (auto simp: tick_def)
qed

lemma tick_preserves:
  assumes "tick F X H i s = Returns (s', w)" and "ring_ok s" and "scene_ok s" and "waves_ok H"
  shows "ring_ok s' \<and> scene_ok s'"
proof -
  from assms(1) obtain s1 where upd: "Update F X H (tk_key1 i) (tk_fence i) (tk_timer i) s = Returns (s1, w)"
    and d: "Draw (tk_hr_ok i) s1 = Returns s'"
    by (auto simp: tick_def obind_Returns_iff)
  from Update_preserves [OF upd assms(2-4)] have "ring_ok s1" "scene_ok s1" by simp_all
  from Draw_preserves [OF d this] show ?thesis .
qed

lemma tick_wait_report:
  assumes t: "tick F X H i s = Returns (s', w)" and ring: "ring_ok s"
  shows "\<exists>s1. advance (tk_fence i) (UpdateCamera F X (OnKeyboardInput (tk_key1 i) s)) = Returns (s1, w)"
proof -
  from t obtain s1 where upd: "Update F X H (tk_key1 i) (tk_fence i) (tk_timer i) s = Returns (s1, w)"
    by (auto simp: tick_def obind_Returns_iff)
  from Update_Returns [OF upd] show ?thesis by blast
qed

lemma run_counters:
  assumes "run F X H inps s = Returns tr" and "ring_ok s" and "j < length tr"
  shows "ring_ok (fst (tr ! j)) \<and>
     mCurrFrameResourceIndex (fst (tr ! j)) = (mCurrFrameResourceIndex s + int j + 1) mod 3 \<and>
     mCurrFrameResource (fst (tr ! j)) = Some (nat ((mCurrFrameResourceIndex s + int j + 1) mod 3)) \<and>
     mCurrentFence (fst (tr ! j)) = mCurrentFence s + of_nat (j + 1) \<and>
     Fence (mFrameResources (fst (tr ! j)) ! nat ((mCurrFrameResourceIndex s + int j + 1) mod 3)) =
       mCurrentFence s + of_nat (j + 1)"
  using assms
proof (induction inps arbitrary: s tr j)
  case Nil
  then show ?case by simp
next
  case (Cons i js)
  from Cons.prems(1) obtain s1 w tr1 where
    t: "tick F X H i s = Returns (s1, w)" and r: "run F X H js s1 = Returns tr1"
    and tr: "tr = (s1, w) # tr1"
    using run_Cons_Returns [THEN iffD1, OF Cons.prems(1)] by blast
  note tr1 = tick_ring [OF t Cons.prems(2)]
  from Cons.prems(2) have len: "length (mFrameResources s) = 3"
    by (simp add: ring_ok_def gNumFrameResources_def)
  show ?case
  proof (cases j)
    case 0
    have "nat ((mCurrFrameResourceIndex s + 1) mod 3) < length (map Fence (mFrameResources s))"
      by (simp add: len)
    with tr1 have "Fence (mFrameResources s1 ! nat ((mCurrFrameResourceIndex s + 1) mod 3)) = mCurrentFence s + 1"
      by (metis length_list_update length_map nth_list_update_eq nth_map)
    with tr1 0 show ?thesis by (simp add: tr)
  next
    case (Suc j')
    with Cons.prems(3) have j': "j' < length tr1" by (simp add: tr)
    have ring1: "ring_ok s1" using tr1 by simp
    have e: "((mCurrFrameResourceIndex s + 1) mod 3 + (int j' + 1)) mod 3 =
        (mCurrFrameResourceIndex s + (2 + int j')) mod 3"
      by presburger
    from Cons.IH [OF r ring1 j'] tr1 show ?thesis
      by (simp add: tr Suc e add.assoc)
  qed
qed

lemma mod3_neq:
  fixes x :: int
  assumes "0 \<le> x" "x < 3"
  shows "nat x \<noteq> nat ((x + 1) mod 3)" "nat x \<noteq> nat ((x + 2) mod 3)"
proof -
  from assms have "x = 0 \<or> x = 1 \<or> x = 2" by linarith
  then show "nat x \<noteq> nat ((x + 1) mod 3)" "nat x \<noteq> nat ((x + 2) mod 3)" by auto
qed

lemma run_fences:
  assumes "run F X H inps s = Returns tr" and "ring_ok s" and "length inps \<le> 3" and "inps \<noteq> []"
  shows "(\<forall>m < length inps. Fence (mFrameResources (fst (last tr)) ! nat ((mCurrFrameResourceIndex s + int m + 1) mod 3)) =
            mCurrentFence s + of_nat (m + 1)) \<and>
         (\<forall>k < 3. (\<forall>m < length inps. k \<noteq> nat ((mCurrFrameResourceIndex s + int m + 1) mod 3)) \<longrightarrow>
            Fence (mFrameResources (fst (last tr)) ! k) = Fence (mFrameResources s ! k))"
  using assms
proof (induction inps arbitrary: s tr)
  case Nil
  then show ?case by simp
next
  case (Cons i js)
  from run_Cons_Returns [THEN iffD1, OF Cons.prems(1)] obtain s1 w tr1 where
    t: "tick F X H i s = Returns (s1, w)" and r: "run F X H js s1 = Returns tr1"
    and tr: "tr = (s1, w) # tr1"
    by blast
  note tr1 = tick_ring [OF t Cons.prems(2)]
  from Cons.prems(2) have len: "length (mFrameResources s) = 3"
    by (simp add: ring_ok_def gNumFrameResources_def)
  define a where "a = nat ((mCurrFrameResourceIndex s + 1) mod 3)"
  have a: "a < 3" by (simp add: a_def)
  have fs1: "map Fence (mFrameResources s1) = (map Fence (mFrameResources s))[a := mCurrentFence s + 1]"
    using tr1 by (simp add: a_def)
  have len1: "length (mFrameResources s1) = 3"
    using arg_cong [OF fs1, of length] len by simp
  have at: "Fence (mFrameResources s1 ! k) = (if k = a then mCurrentFence s + 1 else Fence (mFrameResources s ! k))"
    if "k < 3" for k
    using arg_cong [OF fs1, of "\<lambda>xs. xs ! k"] that len len1 by (simp add: nth_list_update)
  show ?case
  proof (cases "js = []")
    case True
    with r have "tr1 = []" by simp
    with True at a show ?thesis by (auto simp: tr a_def)
  next
    case False
    have ring1: "ring_ok s1" using tr1 by simp
    from Cons.prems(3) have l2: "length js \<le> 3" "length js \<le> 2" by simp_all
    from run_length [OF r] False have ne: "tr1 \<noteq> []" by auto
    then have last: "last tr = last tr1" by (simp add: tr)
    note IH = Cons.IH [OF r ring1 l2(1) False]
    have idx1: "mCurrFrameResourceIndex s1 = (mCurrFrameResourceIndex s + 1) mod 3"
      and cur1: "mCurrentFence s1 = mCurrentFence s + 1"
      using tr1 by simp_all
    have e: "((mCurrFrameResourceIndex s + 1) mod 3 + int m' + 1) mod 3 =
        (mCurrFrameResourceIndex s + int (Suc m') + 1) mod 3" for m'
      by presburger
    have visited: "Fence (mFrameResources (fst (last tr)) ! nat ((mCurrFrameResourceIndex s + int m + 1) mod 3)) =
            mCurrentFence s + of_nat (m + 1)" if m: "m < length (i # js)" for m
    proof (cases m)
      case 0
      have "\<forall>m' < length js. a \<noteq> nat ((mCurrFrameResourceIndex s1 + int m' + 1) mod 3)"
      proof (intro allI impI)
        fix m' assume "m' < length js"
        with l2 have "m' = 0 \<or> m' = 1" by linarith
        then show "a \<noteq> nat ((mCurrFrameResourceIndex s1 + int m' + 1) mod 3)"
          unfolding a_def idx1
          using mod3_neq [of "(mCurrFrameResourceIndex s + 1) mod 3"]
          by (elim disjE) (simp_all add: add.assoc)
      qed
      with IH a have "Fence (mFrameResources (fst (last tr1)) ! a) = Fence (mFrameResources s1 ! a)"
        by blast
      with at [OF a] 0 show ?thesis by (simp add: last a_def)
    next
      case (Suc m')
      with m have "m' < length js" by simp
      with IH have "Fence (mFrameResources (fst (last tr1)) ! nat ((mCurrFrameResourceIndex s1 + int m' + 1) mod 3)) =
            mCurrentFence s1 + of_nat (m' + 1)"
        by blast
      then show ?thesis
        unfolding idx1 cur1 e Suc last by (simp add: add.assoc)
    qed
    have unvisited: "Fence (mFrameResources (fst (last tr)) ! k) = Fence (mFrameResources s ! k)"
      if k: "k < 3" and nv: "\<forall>m < length (i # js). k \<noteq> nat ((mCurrFrameResourceIndex s + int m + 1) mod 3)" for k
    proof -
      from nv [rule_format, of 0] have ka: "k \<noteq> a" by (simp add: a_def)
      have "\<forall>m' < length js. k \<noteq> nat ((mCurrFrameResourceIndex s1 + int m' + 1) mod 3)"
      proof (intro allI impI)
        fix m' assume "m' < length js"
        with nv [rule_format, of "Suc m'"] show "k \<noteq> nat ((mCurrFrameResourceIndex s1 + int m' + 1) mod 3)"
          unfolding idx1 e by simp
      qed
      with IH k have "Fence (mFrameResources (fst (last tr1)) ! k) = Fence (mFrameResources s1 ! k)"
        by blast
      with at [OF k] ka show ?thesis by (simp add: last)
    qed
    from visited unvisited show ?thesis by blast
  qed
qed

lemma run_preserves:
  assumes "run F X H inps s = Returns tr" and "ring_ok s" and "scene_ok s" and "waves_ok H"
  shows "\<forall>t \<in> set tr. ring_ok (fst t) \<and> scene_ok (fst t)"
  using assms
proof (induction inps arbitrary: s tr)
  case Nil
  then show ?case by simp
next
  case (Cons i js)
  from run_Cons_Returns [THEN iffD1, OF Cons.prems(1)] obtain s1 w tr1 where
    t: "tick F X H i s = Returns (s1, w)" and r: "run F X H js s1 = Returns tr1"
    and tr: "tr = (s1, w) # tr1"
    by blast
  from tick_preserves [OF t Cons.prems(2-4)] have ok1: "ring_ok s1" "scene_ok s1" by simp_all
  from Cons.IH [OF r ok1 Cons.prems(4)] ok1 show ?case by (simp add: tr)
qed

lemma Update_wait_behaviour:
  assumes "ring_ok s" and "scene_ok s" and "waves_ok H"
  defines "f \<equiv> Fence (mFrameResources s ! nat ((mCurrFrameResourceIndex s + 1) mod gNumFrameResources))"
  shows "(f \<noteq> 0 \<and> GetCompletedValue g < f \<longrightarrow> blocks_until g f (Update F X H key1 g gt s)) \<and>
         (\<not> (f \<noteq> 0 \<and> GetCompletedValue g < f) \<longrightarrow> (\<exists>s'. Update F X H key1 g gt s = Returns (s', None)))"
proof -
  define s1 where "s1 = (UpdateCamera F X (OnKeyboardInput key1 s))
      \<lparr>mCurrFrameResourceIndex := (mCurrFrameResourceIndex s + 1) mod gNumFrameResources,
       mCurrFrameResource := Some (nat ((mCurrFrameResourceIndex s + 1) mod gNumFrameResources))\<rparr>"
  have adv: "advance g (UpdateCamera F X (OnKeyboardInput key1 s)) =
     (if f \<noteq> 0 \<and> GetCompletedValue g < f
      then if SetEventOnCompletion_ok g
           then (case dropWhile (\<lambda>c. c < f) (later g) of
                   [] \<Rightarrow> Hangs | c # _ \<Rightarrow> Returns (s1, Some c))
           else Throws HResultFailed
      else Returns (s1, None))"
    unfolding advance_camera_eq [OF assms(1)] Let_def f_def s1_def by (rule refl)
  show ?thesis
  proof (intro conjI impI)
    assume c: "f \<noteq> 0 \<and> GetCompletedValue g < f"
    show "blocks_until g f (Update F X H key1 g gt s)"
    proof (cases "SetEventOnCompletion_ok g")
      case False
      with c adv have "advance g (UpdateCamera F X (OnKeyboardInput key1 s)) = Throws HResultFailed"
        by simp
      from Update_Throws [OF this] False show ?thesis by (simp add: blocks_until_def)
    next
      case True
      show ?thesis
      proof (cases "dropWhile (\<lambda>c. c < f) (later g)")
        case Nil
        have "advance g (UpdateCamera F X (OnKeyboardInput key1 s)) = Hangs"
          unfolding adv Nil using c True by simp
        from Update_Hangs [OF this] have "Update F X H key1 g gt s = Hangs" .
        then show ?thesis
          unfolding blocks_until_def Nil using True by simp
      next
        case (Cons c' cs)
        have "advance g (UpdateCamera F X (OnKeyboardInput key1 s)) = Returns (s1, Some c')"
          unfolding adv Cons using c True by simp
        from Update_total [OF assms(1-3) this] obtain s' where
          "Update F X H key1 g gt s = Returns (s', Some c')" ..
        then show ?thesis
          unfolding blocks_until_def Cons using True by simp
      qed
    qed
  next
    assume "\<not> (f \<noteq> 0 \<and> GetCompletedValue g < f)"
    with adv have "advance g (UpdateCamera F X (OnKeyboardInput key1 s)) = Returns (s1, None)"
      by auto
    from Update_total [OF assms(1-3) this] show "\<exists>s'. Update F X H key1 g gt s = Returns (s', None)" .
  qed
qed

lemma blocks_until_not_None: "\<not> blocks_until g f (Returns (s', None))"
  by (simp add: blocks_until_def split: list.splits)

lemma run_fresh:
  assumes "ring_ok s" and "scene_ok s" and "waves_ok H" and "length inps \<le> 3"
    and "list_all tk_hr_ok inps"
    and "\<forall>m < length inps. Fence (mFrameResources s ! nat ((mCurrFrameResourceIndex s + int m + 1) mod 3)) = 0"
  shows "\<exists>tr. run F X H inps s = Returns tr \<and> map snd tr = replicate (length inps) None"
  using assms
proof (induction inps arbitrary: s)
  case Nil
  then show ?case by simp
next
  case (Cons i js)
  define a where "a = nat ((mCurrFrameResourceIndex s + 1) mod 3)"
  from Cons.prems(6) have fa: "Fence (mFrameResources s ! a) = 0"
    by (auto simp: a_def)
  then obtain s1 where adv: "advance (tk_fence i) (UpdateCamera F X (OnKeyboardInput (tk_key1 i) s)) = Returns (s1, None)"
    by (simp add: advance_camera_eq [OF Cons.prems(1)] Let_def gNumFrameResources_def a_def)
  from Cons.prems(5) have hr: "tk_hr_ok i" "list_all tk_hr_ok js" by simp_all
  from tick_total [OF Cons.prems(1-3) hr(1) adv] obtain s' where
    t: "tick F X H i s = Returns (s', None)" and ok': "ring_ok s'" "scene_ok s'"
    by blast
  note tr1 = tick_ring [OF t Cons.prems(1)]
  from Cons.prems(1) have len: "length (mFrameResources s) = 3"
    by (simp add: ring_ok_def gNumFrameResources_def)
  have fs1: "map Fence (mFrameResources s') = (map Fence (mFrameResources s))[a := mCurrentFence s + 1]"
    using tr1 by (simp add: a_def)
  have len1: "length (mFrameResources s') = 3"
    using arg_cong [OF fs1, of length] len by simp
  have at: "Fence (mFrameResources s' ! k) = (if k = a then mCurrentFence s + 1 else Fence (mFrameResources s ! k))"
    if "k < 3" for k
    using arg_cong [OF fs1, of "\<lambda>xs. xs ! k"] that len len1 by (simp add: nth_list_update)
  have idx1: "mCurrFrameResourceIndex s' = (mCurrFrameResourceIndex s + 1) mod 3"
    using tr1 by simp
  from Cons.prems(4) have l2: "length js \<le> 3" "length js \<le> 2" by simp_all
  have e: "((mCurrFrameResourceIndex s + 1) mod 3 + int m' + 1) mod 3 =
        (mCurrFrameResourceIndex s + int (Suc m') + 1) mod 3" for m'
    by presburger
  have fresh': "\<forall>m' < length js. Fence (mFrameResources s' ! nat ((mCurrFrameResourceIndex s' + int m' + 1) mod 3)) = 0"
  proof (intro allI impI)
    fix m' assume m': "m' < length js"
    with l2 have "m' = 0 \<or> m' = 1" by linarith
    then have ne: "nat ((mCurrFrameResourceIndex s' + int m' + 1) mod 3) \<noteq> a"
      unfolding a_def idx1
      using mod3_neq [of "(mCurrFrameResourceIndex s + 1) mod 3"]
      by (elim disjE) (simp_all add: add.assoc)
    have lt: "nat ((mCurrFrameResourceIndex s' + int m' + 1) mod 3) < 3" by simp
    from Cons.prems(6) [rule_format, of "Suc m'"] m'
    have "Fence (mFrameResources s ! nat ((mCurrFrameResourceIndex s' + int m' + 1) mod 3)) = 0"
      unfolding idx1 e by simp
    with at [OF lt] ne show "Fence (mFrameResources s' ! nat ((mCurrFrameResourceIndex s' + int m' + 1) mod 3)) = 0"
      by simp
  qed
  from Cons.IH [OF ok' Cons.prems(3) l2(1) hr(2) fresh'] obtain tr1 where
    "run F X H js s' = Returns tr1" "map snd tr1 = replicate (length js) None"
    by blast
  with t show ?case by simp
qed

lemma demo_fresh: "\<forall>fr \<in> set (mFrameResources demo_app). Fence fr = 0"
  by (simp add: demo_app_def demo_frame_resource_def)

subsection \<open>Dirty counts over ticks\<close>

lemma tick_effect:
  assumes t: "tick F X H i s = Returns (s', w)" and ring: "ring_ok s"
  shows "\<exists>k waterMat es ob ms mb.
     k = nat ((mCurrFrameResourceIndex s + 1) mod 3) \<and> k < 3 \<and>
     length (mFrameResources s') = 3 \<and>
     ObjectCBs_loop (ObjectConstants0 H) (mAllRitems s) (ObjectCB (mFrameResources s ! k)) = Returns (es, ob) \<and>
     map_of (mMaterials s) ''water'' = Some waterMat \<and>
     MaterialCBs_loop (assign ''water'' (scroll_water F (DeltaTime (tk_timer i)) waterMat) (mMaterials s))
        (MaterialCB (mFrameResources s ! k)) = Returns (ms, mb) \<and>
     mAllRitems s' = es \<and> mMaterials s' = ms \<and>
     ObjectCB (mFrameResources s' ! k) = ob \<and> MaterialCB (mFrameResources s' ! k) = mb \<and>
     (\<forall>x. x \<noteq> k \<longrightarrow> mFrameResources s' ! x = mFrameResources s ! x)"
proof -
  from t obtain s1 where upd: "Update F X H (tk_key1 i) (tk_fence i) (tk_timer i) s = Returns (s1, w)"
    and d: "Draw (tk_hr_ok i) s1 = Returns s'"
    by (auto simp: tick_def obind_Returns_iff)
  from ring have len: "length (mFrameResources s) = 3" and idx: "0 \<le> mCurrFrameResourceIndex s"
    by (simp_all add: ring_ok_def gNumFrameResources_def)
  from Update_Returns [OF upd] obtain k waterMat vb es ob ms mb pb where
    k: "int k = (mCurrFrameResourceIndex s + 1) mod 3" "k < length (mFrameResources s)"
    and wm: "map_of (mMaterials s) ''water'' = Some waterMat"
    and ob: "ObjectCBs_loop (ObjectConstants0 H) (mAllRitems s) (ObjectCB (mFrameResources s ! k)) = Returns (es, ob)"
    and mb: "MaterialCBs_loop (assign ''water'' (scroll_water F (DeltaTime (tk_timer i)) waterMat) (mMaterials s))
        (MaterialCB (mFrameResources s ! k)) = Returns (ms, mb)"
    and s1: "mCurrFrameResource s1 = Some k" "mCurrentFence s1 = mCurrentFence s"
      "mAllRitems s1 = es" "mMaterials s1 = ms"
    and frs1: "mFrameResources s1 = (mFrameResources s)[k := (mFrameResources s ! k)
        \<lparr>WavesVB := vb, ObjectCB := ob, MaterialCB := mb, PassCB := pb\<rparr>]"
    unfolding smod_gNumFrameResources [OF idx] by blast
  from d have s': "s' = s1\<lparr>mCurrentFence := mCurrentFence s1 + 1,
               mFrameResources := (mFrameResources s1)[k := (mFrameResources s1 ! k)\<lparr>Fence := mCurrentFence s1 + 1\<rparr>]\<rparr>"
    by (auto simp: Draw_Returns_iff s1)
  have kn: "k = nat ((mCurrFrameResourceIndex s + 1) mod 3)" using k by linarith
  show ?thesis
    apply (rule exI [of _ k], rule exI [of _ waterMat], rule exI [of _ es], rule exI [of _ ob],
        rule exI [of _ ms], rule exI [of _ mb])
    using kn k wm ob mb s1 len by (simp add: s' frs1)
qed

lemma count_list_map_filter_distinct:
  assumes "distinct (map f es)" and "e \<in> set es"
  shows "count_list (map f (filter P es)) (f e) = (if P e then 1 else 0)"
  using assms
proof (induction es)
  case Nil
  then show ?case by simp
next
  case (Cons a es)
  show ?case
  proof (cases "e = a")
    case True
    from Cons.prems(1) have "f a \<notin> f ` set es" by simp
    then have "f a \<notin> set (map f (filter P es))" by auto
    then have "count_list (map f (filter P es)) (f a) = 0" by (simp add: count_list_0_iff)
    with True show ?thesis by simp
  next
    case False
    with Cons.prems have e: "e \<in> set es" and d: "distinct (map f es)" by auto
    from Cons.prems(1) e have "f a \<noteq> f e" by force
    with Cons.IH [OF d e] show ?thesis by simp
  qed
qed

lemma scene_ok_items_nonneg:
  assumes "ring_ok s" and "scene_ok s" and "e \<in> set (mAllRitems s)"
  shows "0 \<le> sint (ObjCBIndex e)"
proof -
  from assms(1) have "mFrameResources s \<noteq> []"
    by (auto simp: ring_ok_def gNumFrameResources_def)
  then obtain fr where "fr \<in> set (mFrameResources s)" by (cases "mFrameResources s") auto
  with assms(2) have "slot_ok s fr" by (auto simp: scene_ok_def list_all_iff)
  with assms(3) show ?thesis by (auto simp: slot_ok_def list_all_iff)
qed

lemma scene_ok_materials_nonneg:
  assumes "ring_ok s" and "scene_ok s" and "e \<in> set (mMaterials s)"
  shows "0 \<le> MatCBIndex (snd e)"
proof -
  from assms(1) have "mFrameResources s \<noteq> []"
    by (auto simp: ring_ok_def gNumFrameResources_def)
  then obtain fr where "fr \<in> set (mFrameResources s)" by (cases "mFrameResources s") auto
  with assms(2) have "slot_ok s fr" by (auto simp: scene_ok_def list_all_iff)
  with assms(3) show ?thesis by (auto simp: slot_ok_def list_all_iff)
qed

lemma tick_item:
  assumes t: "tick F X H i s = Returns (s', w)" and ring: "ring_ok s" and scene: "scene_ok s"
    and dist: "distinct (map ObjCBIndex (mAllRitems s))" and p: "p < length (mAllRitems s)"
  defines "e \<equiv> mAllRitems s ! p"
  defines "n \<equiv> nat (sint (ObjCBIndex e))"
  defines "k \<equiv> nat ((mCurrFrameResourceIndex s + 1) mod 3)"
  shows "map ObjCBIndex (mAllRitems s') = map ObjCBIndex (mAllRitems s) \<and>
     mAllRitems s' ! p = (if 0 < NumFramesDirty e then e\<lparr>NumFramesDirty := NumFramesDirty e - 1\<rparr> else e) \<and>
     copies_of n (ObjectCB (mFrameResources s' ! k)) =
       copies_of n (ObjectCB (mFrameResources s ! k)) + (if 0 < NumFramesDirty e then 1 else 0) \<and>
     (\<forall>x. x \<noteq> k \<longrightarrow> mFrameResources s' ! x = mFrameResources s ! x) \<and>
     (0 < NumFramesDirty e \<longrightarrow>
        mMappedData (ObjectCB (mFrameResources s' ! k)) ! n =
          (ObjectConstants0 H)\<lparr>cbWorld := XMMatrixTranspose (World e)\<rparr>)"
proof -
  from tick_effect [OF t ring] obtain es ob where
    ob: "ObjectCBs_loop (ObjectConstants0 H) (mAllRitems s) (ObjectCB (mFrameResources s ! k)) = Returns (es, ob)"
    and s': "mAllRitems s' = es" "ObjectCB (mFrameResources s' ! k) = ob"
    and other: "\<forall>x. x \<noteq> k \<longrightarrow> mFrameResources s' ! x = mFrameResources s ! x"
    unfolding k_def by blast
  note obR = ObjectCBs_loop_Returns [OF ob]
  have mem: "e \<in> set (mAllRitems s)" using p by (simp add: e_def)
  let ?f = "\<lambda>e. nat (sint (ObjCBIndex e))"
  have inj: "inj_on ?f (set (mAllRitems s))"
  proof (rule inj_onI)
    fix a b assume a: "a \<in> set (mAllRitems s)" and b: "b \<in> set (mAllRitems s)"
      and eq: "?f a = ?f b"
    from scene_ok_items_nonneg [OF ring scene a] scene_ok_items_nonneg [OF ring scene b] eq
    have "sint (ObjCBIndex a) = sint (ObjCBIndex b)" by simp
    then have "ObjCBIndex a = ObjCBIndex b" by (rule signed_word_eqI)
    with dist a b show "a = b" by (simp add: distinct_map inj_on_def)
  qed
  from dist have "distinct (mAllRitems s)" by (simp add: distinct_map)
  with inj have dist': "distinct (map ?f (mAllRitems s))" by (simp add: distinct_map)
  have cnt: "count_list (map ?f (filter (\<lambda>e. 0 < NumFramesDirty e) (mAllRitems s))) n =
      (if 0 < NumFramesDirty e then 1 else 0)"
    unfolding n_def by (rule count_list_map_filter_distinct [OF dist' mem])
  have 1: "map ObjCBIndex (mAllRitems s') = map ObjCBIndex (mAllRitems s)"
    using obR by (simp add: s' comp_def)
  have 2: "mAllRitems s' ! p = (if 0 < NumFramesDirty e then e\<lparr>NumFramesDirty := NumFramesDirty e - 1\<rparr> else e)"
    using obR p by (simp add: s' e_def)
  have 3: "copies_of n (ObjectCB (mFrameResources s' ! k)) =
       copies_of n (ObjectCB (mFrameResources s ! k)) + (if 0 < NumFramesDirty e then 1 else 0)"
    using obR cnt by (simp add: copies_of_def s')
  have 4: "mMappedData (ObjectCB (mFrameResources s' ! k)) ! n =
          (ObjectConstants0 H)\<lparr>cbWorld := XMMatrixTranspose (World e)\<rparr>"
    if "0 < NumFramesDirty e"
    unfolding n_def s' by (rule ObjectCBs_loop_written [OF ob dist mem that])
  from 1 2 3 4 other show ?thesis by blast
qed

lemma run_item:
  assumes "run F X H inps s = Returns tr" and "ring_ok s" and "scene_ok s" and "waves_ok H"
    and "distinct (map ObjCBIndex (mAllRitems s))" and "p < length (mAllRitems s)"
    and "0 \<le> NumFramesDirty (mAllRitems s ! p)"
    and "j < length tr"
  shows "mAllRitems (fst (tr ! j)) ! p =
       (mAllRitems s ! p)\<lparr>NumFramesDirty := max 0 (NumFramesDirty (mAllRitems s ! p) - int (j + 1))\<rparr> \<and>
     copies_of (nat (sint (ObjCBIndex (mAllRitems s ! p))))
         (ObjectCB (mFrameResources (fst (tr ! j)) ! nat ((mCurrFrameResourceIndex s + int j + 1) mod 3))) =
       copies_of (nat (sint (ObjCBIndex (mAllRitems s ! p))))
         (ObjectCB (mFrameResources ((s # map fst tr) ! j) ! nat ((mCurrFrameResourceIndex s + int j + 1) mod 3))) +
       (if int j < NumFramesDirty (mAllRitems s ! p) then 1 else 0) \<and>
     (\<forall>x. x \<noteq> nat ((mCurrFrameResourceIndex s + int j + 1) mod 3) \<longrightarrow>
        mFrameResources (fst (tr ! j)) ! x = mFrameResources ((s # map fst tr) ! j) ! x) \<and>
     (int j < NumFramesDirty (mAllRitems s ! p) \<longrightarrow>
        mMappedData (ObjectCB (mFrameResources (fst (tr ! j)) ! nat ((mCurrFrameResourceIndex s + int j + 1) mod 3))) !
            nat (sint (ObjCBIndex (mAllRitems s ! p))) =
          (ObjectConstants0 H)\<lparr>cbWorld := XMMatrixTranspose (World (mAllRitems s ! p))\<rparr>)"
  using assms
proof (induction inps arbitrary: s tr j)
  case Nil
  then show ?case by simp
next
  case (Cons i js)
  from run_Cons_Returns [THEN iffD1, OF Cons.prems(1)] obtain s1 w tr1 where
    t: "tick F X H i s = Returns (s1, w)" and r: "run F X H js s1 = Returns tr1"
    and tr: "tr = (s1, w) # tr1"
    by blast
  define e where "e = mAllRitems s ! p"
  note ti = tick_item [OF t Cons.prems(2,3,5,6), folded e_def]
  show ?case
  proof (cases j)
    case 0
    with ti Cons.prems(7) show ?thesis
      by (auto simp: tr e_def max_def)
  next
    case (Suc j')
    with Cons.prems(8) have j': "j' < length tr1" by (simp add: tr)
    from tick_preserves [OF t Cons.prems(2-4)] have ok1: "ring_ok s1" "scene_ok s1" by simp_all
    from ti have idxs: "map ObjCBIndex (mAllRitems s1) = map ObjCBIndex (mAllRitems s)"
      and e1: "mAllRitems s1 ! p = (if 0 < NumFramesDirty e then e\<lparr>NumFramesDirty := NumFramesDirty e - 1\<rparr> else e)"
      by simp_all
    from idxs Cons.prems(5) have dist1: "distinct (map ObjCBIndex (mAllRitems s1))" by simp
    from idxs Cons.prems(6) have p1: "p < length (mAllRitems s1)"
      by (metis length_map)
    from e1 Cons.prems(7) have d1: "0 \<le> NumFramesDirty (mAllRitems s1 ! p)"
      by (simp add: e_def)
    have idx1: "mCurrFrameResourceIndex s1 = (mCurrFrameResourceIndex s + 1) mod 3"
      using tick_ring [OF t Cons.prems(2)] by simp
    have a: "((mCurrFrameResourceIndex s + 1) mod 3 + int j' + 1) mod 3 =
        (mCurrFrameResourceIndex s + int (Suc j') + 1) mod 3"
      by presburger
    have props: "ObjCBIndex (mAllRitems s1 ! p) = ObjCBIndex e" "World (mAllRitems s1 ! p) = World e"
      "NumFramesDirty (mAllRitems s1 ! p) = max 0 (NumFramesDirty e - 1)"
      "(mAllRitems s1 ! p)\<lparr>NumFramesDirty := v\<rparr> = e\<lparr>NumFramesDirty := v\<rparr>" for v
      using Cons.prems(7) by (simp_all add: e1 e_def)
    have m: "max 0 (max 0 (NumFramesDirty e - 1) - int (j' + 1)) = max 0 (NumFramesDirty e - int (Suc j' + 1))"
      "int j' < max 0 (NumFramesDirty e - 1) \<longleftrightarrow> int (Suc j') < NumFramesDirty e"
      by auto
    from Cons.IH [OF r ok1 Cons.prems(4) dist1 p1 d1 j']
    show ?thesis
      unfolding props idx1 a m tr Suc e_def [symmetric] by simp
  qed
qed

lemma assign_nth_other:
  "q < length ps \<Longrightarrow> fst (ps ! q) \<noteq> k \<Longrightarrow> assign k v ps ! q = ps ! q"
proof (induction ps arbitrary: q)
  case Nil
  then show ?case by simp
next
  case (Cons a ps)
  then show ?case by (cases q) auto
qed

lemma length_assign [simp]: "length (assign k v ps) = length ps"
  by (induction ps) auto

lemma material_constants_dirty [simp]:
  "material_constants (m\<lparr>MatNumFramesDirty := v\<rparr>) = material_constants m"
  by (simp add: material_constants_def)

lemma tick_material:
  assumes t: "tick F X H i s = Returns (s', w)" and ring: "ring_ok s" and scene: "scene_ok s"
    and dist: "distinct (map (\<lambda>e. MatCBIndex (snd e)) (mMaterials s))"
    and q: "q < length (mMaterials s)" and nw: "fst (mMaterials s ! q) \<noteq> ''water''"
  defines "e \<equiv> mMaterials s ! q"
  defines "n \<equiv> nat (MatCBIndex (snd e))"
  defines "k \<equiv> nat ((mCurrFrameResourceIndex s + 1) mod 3)"
  shows "map fst (mMaterials s') = map fst (mMaterials s) \<and>
     map (\<lambda>e. MatCBIndex (snd e)) (mMaterials s') = map (\<lambda>e. MatCBIndex (snd e)) (mMaterials s) \<and>
     mMaterials s' ! q =
       (if 0 < MatNumFramesDirty (snd e)
        then (fst e, (snd e)\<lparr>MatNumFramesDirty := MatNumFramesDirty (snd e) - 1\<rparr>) else e) \<and>
     copies_of n (MaterialCB (mFrameResources s' ! k)) =
       copies_of n (MaterialCB (mFrameResources s ! k)) + (if 0 < MatNumFramesDirty (snd e) then 1 else 0) \<and>
     (0 < MatNumFramesDirty (snd e) \<longrightarrow>
        mMappedData (MaterialCB (mFrameResources s' ! k)) ! n = material_constants (snd e))"
proof -
  from tick_effect [OF t ring] obtain waterMat ms mb where
    wm: "map_of (mMaterials s) ''water'' = Some waterMat"
    and mb: "MaterialCBs_loop (assign ''water'' (scroll_water F (DeltaTime (tk_timer i)) waterMat) (mMaterials s))
        (MaterialCB (mFrameResources s ! k)) = Returns (ms, mb)"
    and s': "mMaterials s' = ms" "MaterialCB (mFrameResources s' ! k) = mb"
    unfolding k_def by blast
  define as where "as = assign ''water'' (scroll_water F (DeltaTime (tk_timer i)) waterMat) (mMaterials s)"
  note mbR = MaterialCBs_loop_Returns [OF mb, folded as_def]
  have as_idx: "map (\<lambda>e. MatCBIndex (snd e)) as = map (\<lambda>e. MatCBIndex (snd e)) (mMaterials s)"
    unfolding as_def using wm by (rule map_MatCBIndex_assign) simp
  have as_q: "as ! q = e" "q < length as"
    using q nw by (simp_all add: as_def e_def assign_nth_other)
  then have mem: "e \<in> set as" by (metis nth_mem)
  have dist_as: "distinct (map (\<lambda>e. MatCBIndex (snd e)) as)" using dist by (simp add: as_idx)
  have nonneg: "0 \<le> MatCBIndex (snd a)" if "a \<in> set as" for a
  proof -
    from that have "MatCBIndex (snd a) \<in> set (map (\<lambda>e. MatCBIndex (snd e)) as)" by auto
    then obtain b where "b \<in> set (mMaterials s)" "MatCBIndex (snd b) = MatCBIndex (snd a)"
      unfolding as_idx by auto
    with scene_ok_materials_nonneg [OF ring scene] show ?thesis by metis
  qed
  let ?f = "\<lambda>e. nat (MatCBIndex (snd e))"
  have inj: "inj_on ?f (set as)"
  proof (rule inj_onI)
    fix a b assume a: "a \<in> set as" and b: "b \<in> set as" and eq: "?f a = ?f b"
    from nonneg [OF a] nonneg [OF b] eq have "MatCBIndex (snd a) = MatCBIndex (snd b)" by simp
    with dist_as a b show "a = b" by (simp add: distinct_map inj_on_def)
  qed
  from dist_as have "distinct as" by (simp add: distinct_map)
  with inj have dist': "distinct (map ?f as)" by (simp add: distinct_map)
  have cnt: "count_list (map ?f (filter (\<lambda>e. 0 < MatNumFramesDirty (snd e)) as)) n =
      (if 0 < MatNumFramesDirty (snd e) then 1 else 0)"
    unfolding n_def by (rule count_list_map_filter_distinct [OF dist' mem])
  have 1: "map fst (mMaterials s') = map fst (mMaterials s)"
    using mbR by (simp add: s' comp_def if_distrib [of fst] as_def cong: if_cong)
  have 2: "map (\<lambda>e. MatCBIndex (snd e)) (mMaterials s') = map (\<lambda>e. MatCBIndex (snd e)) (mMaterials s)"
  proof -
    have "map (\<lambda>e. MatCBIndex (snd e)) ms = map (\<lambda>e. MatCBIndex (snd e)) as"
      using mbR by (simp add: comp_def if_distrib [of snd] if_distrib [of MatCBIndex] cong: if_cong)
    then show ?thesis by (simp add: s' as_idx)
  qed
  have 3: "mMaterials s' ! q =
       (if 0 < MatNumFramesDirty (snd e)
        then (fst e, (snd e)\<lparr>MatNumFramesDirty := MatNumFramesDirty (snd e) - 1\<rparr>) else e)"
    using mbR as_q by (simp add: s')
  have 4: "copies_of n (MaterialCB (mFrameResources s' ! k)) =
       copies_of n (MaterialCB (mFrameResources s ! k)) + (if 0 < MatNumFramesDirty (snd e) then 1 else 0)"
    using mbR cnt by (simp add: copies_of_def s')
  have 5: "mMappedData (MaterialCB (mFrameResources s' ! k)) ! n = material_constants (snd e)"
    if "0 < MatNumFramesDirty (snd e)"
    unfolding n_def s'
    by (rule MaterialCBs_loop_written [OF mb [folded as_def] dist_as mem that])
  from 1 2 3 4 5 show ?thesis by blast
qed

lemma run_material:
  assumes "run F X H inps s = Returns tr" and "ring_ok s" and "scene_ok s" and "waves_ok H"
    and "distinct (map (\<lambda>e. MatCBIndex (snd e)) (mMaterials s))" and "q < length (mMaterials s)"
    and "fst (mMaterials s ! q) \<noteq> ''water''"
    and "0 \<le> MatNumFramesDirty (snd (mMaterials s ! q))"
    and "j < length tr"
  shows "mMaterials (fst (tr ! j)) ! q =
       (fst (mMaterials s ! q), (snd (mMaterials s ! q))
          \<lparr>MatNumFramesDirty := max 0 (MatNumFramesDirty (snd (mMaterials s ! q)) - int (j + 1))\<rparr>) \<and>
     copies_of (nat (MatCBIndex (snd (mMaterials s ! q))))
         (MaterialCB (mFrameResources (fst (tr ! j)) ! nat ((mCurrFrameResourceIndex s + int j + 1) mod 3))) =
       copies_of (nat (MatCBIndex (snd (mMaterials s ! q))))
         (MaterialCB (mFrameResources ((s # map fst tr) ! j) ! nat ((mCurrFrameResourceIndex s + int j + 1) mod 3))) +
       (if int j < MatNumFramesDirty (snd (mMaterials s ! q)) then 1 else 0) \<and>
     (int j < MatNumFramesDirty (snd (mMaterials s ! q)) \<longrightarrow>
        mMappedData (MaterialCB (mFrameResources (fst (tr ! j)) ! nat ((mCurrFrameResourceIndex s + int j + 1) mod 3))) !
            nat (MatCBIndex (snd (mMaterials s ! q))) =
          material_constants (snd (mMaterials s ! q)))"
  using assms
proof (induction inps arbitrary: s tr j)
  case Nil
  then show ?case by simp
next
  case (Cons i js)
  from run_Cons_Returns [THEN iffD1, OF Cons.prems(1)] obtain s1 w tr1 where
    t: "tick F X H i s = Returns (s1, w)" and r: "run F X H js s1 = Returns tr1"
    and tr: "tr = (s1, w) # tr1"
    by blast
  define e where "e = mMaterials s ! q"
  note ti = tick_material [OF t Cons.prems(2,3,5,6,7), folded e_def]
  show ?case
  proof (cases j)
    case 0
    with ti Cons.prems(8) show ?thesis
      by (cases e) (auto simp: tr e_def [symmetric] max_def)
  next
    case (Suc j')
    with Cons.prems(9) have j': "j' < length tr1" by (simp add: tr)
    from tick_preserves [OF t Cons.prems(2-4)] have ok1: "ring_ok s1" "scene_ok s1" by simp_all
    from ti have keys: "map fst (mMaterials s1) = map fst (mMaterials s)"
      and idxs: "map (\<lambda>e. MatCBIndex (snd e)) (mMaterials s1) = map (\<lambda>e. MatCBIndex (snd e)) (mMaterials s)"
      and e1: "mMaterials s1 ! q = (if 0 < MatNumFramesDirty (snd e)
        then (fst e, (snd e)\<lparr>MatNumFramesDirty := MatNumFramesDirty (snd e) - 1\<rparr>) else e)"
      by simp_all
    from idxs Cons.prems(5) have dist1: "distinct (map (\<lambda>e. MatCBIndex (snd e)) (mMaterials s1))" by simp
    from idxs Cons.prems(6) have q1: "q < length (mMaterials s1)"
      by (metis length_map)
    from e1 Cons.prems(7) have nw1: "fst (mMaterials s1 ! q) \<noteq> ''water''"
      by (simp add: e_def)
    from e1 Cons.prems(8) have d1: "0 \<le> MatNumFramesDirty (snd (mMaterials s1 ! q))"
      by (simp add: e_def)
    have idx1: "mCurrFrameResourceIndex s1 = (mCurrFrameResourceIndex s + 1) mod 3"
      using tick_ring [OF t Cons.prems(2)] by simp
    have a: "((mCurrFrameResourceIndex s + 1) mod 3 + int j' + 1) mod 3 =
        (mCurrFrameResourceIndex s + int (Suc j') + 1) mod 3"
      by presburger
    have props: "fst (mMaterials s1 ! q) = fst e"
      "MatCBIndex (snd (mMaterials s1 ! q)) = MatCBIndex (snd e)"
      "MatNumFramesDirty (snd (mMaterials s1 ! q)) = max 0 (MatNumFramesDirty (snd e) - 1)"
      "(snd (mMaterials s1 ! q))\<lparr>MatNumFramesDirty := v\<rparr> = (snd e)\<lparr>MatNumFramesDirty := v\<rparr>" for v
      using Cons.prems(8) by (simp_all add: e1 e_def)
    have m: "max 0 (max 0 (MatNumFramesDirty (snd e) - 1) - int (j' + 1)) = max 0 (MatNumFramesDirty (snd e) - int (Suc j' + 1))"
      "int j' < max 0 (MatNumFramesDirty (snd e) - 1) \<longleftrightarrow> int (Suc j') < MatNumFramesDirty (snd e)"
      by auto
    have mc: "material_constants (snd (mMaterials s1 ! q)) = material_constants (snd e)"
      by (simp add: e1)
    from Cons.IH [OF r ok1 Cons.prems(4) dist1 q1 nw1 d1 j']
    show ?thesis
      unfolding mc props idx1 a m tr Suc e_def [symmetric] by simp
  qed
qed

lemma demo_run4:
  "\<exists>tr. run exact_ops demo_math demo_headers
      [demo_input 0, demo_input 0, demo_input 0, demo_input 1] demo_app = Returns tr"
proof -
  have "case run exact_ops demo_math demo_headers
      [demo_input 0, demo_input 0, demo_input 0, demo_input 1] demo_app of
        Returns tr \<Rightarrow> True | Throws e \<Rightarrow> False | Hangs \<Rightarrow> False"
    by code_simp
  then show ?thesis by (simp split: outcome.splits)
qed

lemma run_other_slots:
  assumes "run F X H inps s = Returns tr" and "ring_ok s" and "j < length tr"
    and "x \<noteq> nat ((mCurrFrameResourceIndex s + int j + 1) mod 3)"
  shows "mFrameResources (fst (tr ! j)) ! x = mFrameResources ((s # map fst tr) ! j) ! x"
  using assms
proof (induction inps arbitrary: s tr j)
  case Nil
  then show ?case by simp
next
  case (Cons i js)
  from run_Cons_Returns [THEN iffD1, OF Cons.prems(1)] obtain s1 w tr1 where
    t: "tick F X H i s = Returns (s1, w)" and r: "run F X H js s1 = Returns tr1"
    and tr: "tr = (s1, w) # tr1"
    by blast
  show ?case
  proof (cases j)
    case 0
    with tick_effect [OF t Cons.prems(2)] Cons.prems(4) show ?thesis
      by (auto simp: tr)
  next
    case (Suc j')
    with Cons.prems(3) have j': "j' < length tr1" by (simp add: tr)
    note tr1 = tick_ring [OF t Cons.prems(2)]
    then have ring1: "ring_ok s1"
      and idx1: "mCurrFrameResourceIndex s1 = (mCurrFrameResourceIndex s + 1) mod 3"
      by simp_all
    have a: "((mCurrFrameResourceIndex s + 1) mod 3 + int j' + 1) mod 3 =
        (mCurrFrameResourceIndex s + int (Suc j') + 1) mod 3"
      by presburger
    from Cons.prems(4) have "x \<noteq> nat ((mCurrFrameResourceIndex s1 + int j' + 1) mod 3)"
      unfolding idx1 a Suc .
    from Cons.IH [OF r ring1 j' this] show ?thesis by (simp add: tr Suc)
  qed
qed

subsection \<open>Completion markers over ticks\<close>

lemma unat_counter_plus:
  fixes c :: UINT64
  assumes "unat c + n < 2 ^ 64"
  shows "unat (c + of_nat n) = unat c + n"
proof -
  from assms have n: "n < 2 ^ 64" by simp
  then have "unat (of_nat n :: UINT64) = n"
    by (simp add: unat_of_nat)
  with assms show ?thesis
    by (simp add: unat_add_lem [THEN iffD1])
qed

lemma run_markers:
  assumes "run F X H inps s = Returns tr" and "ring_ok s" and "j < length tr"
  shows "current_marker (fst (tr ! j)) = mCurrentFence s + of_nat (j + 1)"
    and "mCurrentFence (fst (tr ! j)) = mCurrentFence s + of_nat (j + 1)"
  using run_counters [OF assms] by (simp_all add: current_marker_def)

subsection \<open>Single-precision rounding\<close>

lemma binary32I:
  "- (2 ^ 24) < m \<Longrightarrow> m < 2 ^ 24 \<Longrightarrow> k \<le> 253 \<Longrightarrow> x = of_int m * 2 ^ k / 2 ^ 149 \<Longrightarrow> x \<in> binary32"
  unfolding binary32_def by (rule image_eqI [where x = "(m, k)"]) simp_all

lemma binary32E:
  assumes "x \<in> binary32"
  obtains m k where "- (2 ^ 24) < m" "m < 2 ^ 24" "k \<le> 253" "x = of_int m * 2 ^ k / 2 ^ 149"
  using assms unfolding binary32_def by auto

lemma binary32_0: "0 \<in> binary32"
  by (rule binary32I [where m = 0 and k = 0]) simp_all

lemma binary32_1: "1 \<in> binary32"
  by (rule binary32I [where m = 1 and k = 149]) simp_all

lemma binary32_below_2: "2 - 1 / 2 ^ 23 \<in> binary32"
  by (rule binary32I [where m = "2 ^ 24 - 1" and k = 126]) simp_all

lemma binary32_FLT_MAX: "FLT_MAX \<in> binary32" "- FLT_MAX \<in> binary32"
  by (rule binary32I [where m = "2 ^ 24 - 1" and k = 253]; simp add: FLT_MAX_def)
     (rule binary32I [where m = "- (2 ^ 24 - 1)" and k = 253]; simp add: FLT_MAX_def)

lemma finite_binary32: "finite binary32"
  unfolding binary32_def by (intro finite_imageI finite_cartesian_product) simp_all

lemma binary32_below_1:
  assumes "x \<in> binary32" and "x < 1"
  shows "x \<le> 1 - 1 / 2 ^ 24"
proof -
  from assms(1) obtain m k where m: "- (2 ^ 24) < m" "m < 2 ^ 24" and k: "k \<le> 253"
    and x: "x = of_int m * 2 ^ k / 2 ^ 149"
    by (rule binary32E)
  show ?thesis
  proof (cases "125 \<le> k")
    case True
    then obtain j where j: "k = 125 + j" using le_Suc_ex by blast
    define N where "N = m * 2 ^ j"
    have x': "x = of_int N / 2 ^ 24"
      by (simp add: x j power_add N_def)
    with assms(2) have "real_of_int N < real_of_int (2 ^ 24)"
      by (simp add: divide_less_eq)
    then have "N < 2 ^ 24" by (simp only: of_int_less_iff)
    then have "N \<le> 2 ^ 24 - 1" by simp
    then have "real_of_int N \<le> real_of_int (2 ^ 24 - 1)" by (simp only: of_int_le_iff)
    then have "real_of_int N / 2 ^ 24 \<le> (2 ^ 24 - 1) / 2 ^ 24"
      by (simp add: divide_le_cancel)
    also have "(2 ^ 24 - 1) / 2 ^ 24 = (1::real) - 1 / 2 ^ 24" by simp
    finally show ?thesis by (simp only: x')
  next
    case False
    then have "k \<le> 124" by simp
    then have b1: "(2::real) ^ k \<le> 2 ^ 124" by (intro power_increasing) simp_all
    from m(2) have "real_of_int m \<le> real_of_int (2 ^ 24)"
      by (simp only: of_int_le_iff)
    then have b2: "real_of_int m \<le> 2 ^ 24" by simp
    have "real_of_int m * 2 ^ k \<le> 2 ^ 24 * 2 ^ 124"
    proof (cases "0 \<le> m")
      case True
      then show ?thesis using mult_mono [OF b2 b1] by simp
    next
      case False
      then have "real_of_int m * 2 ^ k \<le> 0" by (simp add: mult_nonpos_nonneg)
      also have "(0::real) \<le> 2 ^ 24 * 2 ^ 124" by simp
      finally show ?thesis .
    qed
    then have "x \<le> 2 ^ 24 * 2 ^ 124 / 2 ^ 149"
      by (simp add: x divide_le_cancel)
    also have "\<dots> \<le> 1 - 1 / 2 ^ 24" by simp
    finally show ?thesis .
  qed
qed

lemma binary32_minus_1:
  assumes "y \<in> binary32" and "1 \<le> y" and "y \<le> 2"
  shows "y - 1 \<in> binary32"
proof -
  from assms(1) obtain m k where m: "- (2 ^ 24) < m" "m < 2 ^ 24" and k: "k \<le> 253"
    and y: "y = of_int m * 2 ^ k / 2 ^ 149"
    by (rule binary32E)
  show ?thesis
  proof (cases "149 \<le> k")
    case True
    then obtain j where j: "k = 149 + j" using le_Suc_ex by blast
    define N where "N = m * 2 ^ j"
    have y': "y = of_int N" by (simp add: y j power_add N_def)
    with assms(2,3) have "1 \<le> N" "N \<le> 2"
      by (simp_all only: of_int_le_iff [symmetric, where 'a = real] of_int_1 of_int_numeral)
    then have "N = 1 \<or> N = 2" by arith
    then have "y - 1 = 0 \<or> y - 1 = 1" by (auto simp: y')
    then show ?thesis using binary32_0 binary32_1 by auto
  next
    case False
    then obtain j where j: "149 = k + j" and j0: "0 < j"
      by (metis less_imp_add_positive not_le)
    have y': "y = of_int m / 2 ^ j"
      by (simp add: y j power_add)
    with assms(2) have "(2::real) ^ j \<le> of_int m" by (simp add: le_divide_eq)
    then have "real_of_int (2 ^ j) \<le> real_of_int m" by simp
    then have mj: "2 ^ j \<le> m" by (simp only: of_int_le_iff)
    have "y - 1 = of_int (m - 2 ^ j) / 2 ^ j" by (simp add: y' field_simps)
    also have "\<dots> = of_int (m - 2 ^ j) * 2 ^ k / 2 ^ 149"
      by (simp add: j power_add)
    finally have e: "y - 1 = of_int (m - 2 ^ j) * 2 ^ k / 2 ^ 149" .
    have "(0::int) < 2 ^ j" by simp
    with mj m have "- (2 ^ 24) < m - 2 ^ j" "m - 2 ^ j < 2 ^ 24" by linarith+
    then show ?thesis
      by (rule binary32I [OF _ _ k e])
  qed
qed


lemma binary32_bounded:
  assumes "x \<in> binary32"
  shows "\<bar>x\<bar> \<le> FLT_MAX"
proof -
  from assms obtain m k where m: "- (2 ^ 24) < m" "m < 2 ^ 24" and k: "k \<le> 253"
    and x: "x = of_int m * 2 ^ k / 2 ^ 149"
    by (rule binary32E)
  from m have "\<bar>m\<bar> \<le> 2 ^ 24 - 1" by simp
  then have "real_of_int \<bar>m\<bar> \<le> real_of_int (2 ^ 24 - 1)" by (simp only: of_int_le_iff)
  then have b2: "\<bar>real_of_int m\<bar> \<le> 2 ^ 24 - 1" by simp
  from k have b1: "(2::real) ^ k \<le> 2 ^ 253" by (intro power_increasing) simp_all
  have "\<bar>x\<bar> = \<bar>real_of_int m\<bar> * 2 ^ k / 2 ^ 149"
    by (simp add: x abs_mult)
  also have "\<dots> \<le> (2 ^ 24 - 1) * 2 ^ 253 / 2 ^ 149"
    using mult_mono [OF b2 b1] by (simp add: divide_le_cancel)
  also have "\<dots> = FLT_MAX" by (simp add: FLT_MAX_def)
  finally show ?thesis .
qed

lemma FLT_MAX_ge_1: "1 \<le> FLT_MAX"
  by (simp add: FLT_MAX_def)

lemma rnd_mono: "is_rounding rnd \<Longrightarrow> x \<le> y \<Longrightarrow> rnd x \<le> rnd y"
  by (simp add: is_rounding_def mono_def)

lemma rnd_fix: "is_rounding rnd \<Longrightarrow> x \<in> binary32 \<Longrightarrow> rnd x = x"
  by (simp add: is_rounding_def)

lemma rnd_small:
  assumes "is_rounding rnd" and "- FLT_MAX < rnd x" and "rnd x < FLT_MAX"
  shows "rnd x \<in> binary32"
proof -
  have "\<bar>x\<bar> \<le> FLT_MAX"
  proof (rule ccontr)
    assume "\<not> \<bar>x\<bar> \<le> FLT_MAX"
    then consider "FLT_MAX \<le> x" | "x \<le> - FLT_MAX" by linarith
    then show False
    proof cases
      case 1
      from rnd_mono [OF assms(1) this] rnd_fix [OF assms(1) binary32_FLT_MAX(1)] assms(3)
      show False by simp
    next
      case 2
      from rnd_mono [OF assms(1) this] rnd_fix [OF assms(1) binary32_FLT_MAX(2)] assms(2)
      show False by simp
    qed
  qed
  with assms(1) show ?thesis by (simp add: is_rounding_def)
qed

lemma is_rounding_round_down: "is_rounding round_down"
  unfolding is_rounding_def
proof (intro conjI monoI ballI allI impI)
  fix x y :: real assume xy: "x \<le> y"
  show "round_down x \<le> round_down y"
  proof (cases "x < - FLT_MAX")
    case True
    show ?thesis
    proof (cases "y < - FLT_MAX")
      case True
      with \<open>x < - FLT_MAX\<close> xy show ?thesis by (simp add: round_down_def)
    next
      case False
      then have "- FLT_MAX \<in> {f \<in> binary32. f \<le> y}" using binary32_FLT_MAX(2) by simp
      then have "- FLT_MAX \<le> Max {f \<in> binary32. f \<le> y}"
        by (intro Max_ge) (simp_all add: finite_binary32)
      with True False show ?thesis by (simp add: round_down_def)
    qed
  next
    case False
    with xy have ny: "\<not> y < - FLT_MAX" by simp
    from False have "- FLT_MAX \<in> {f \<in> binary32. f \<le> x}" using binary32_FLT_MAX(2) by simp
    then have "Max {f \<in> binary32. f \<le> x} \<le> Max {f \<in> binary32. f \<le> y}"
      using xy by (intro Max_mono) (auto simp: finite_binary32)
    with False ny show ?thesis by (simp add: round_down_def)
  qed
next
  fix x assume x: "x \<in> binary32"
  with binary32_bounded [OF x] have n: "\<not> x < - FLT_MAX" by simp
  have "Max {f \<in> binary32. f \<le> x} = x"
    by (rule Max_eqI) (simp_all add: finite_binary32 x)
  with n show "round_down x = x" by (simp add: round_down_def)
next
  fix x :: real assume "\<bar>x\<bar> \<le> FLT_MAX"
  then have n: "\<not> x < - FLT_MAX" by simp
  then have "- FLT_MAX \<in> {f \<in> binary32. f \<le> x}" using binary32_FLT_MAX(2) by simp
  then have "{f \<in> binary32. f \<le> x} \<noteq> {}" by blast
  then have "Max {f \<in> binary32. f \<le> x} \<in> {f \<in> binary32. f \<le> x}"
    by (intro Max_in) (simp_all add: finite_binary32)
  with n show "round_down x \<in> binary32" by (simp add: round_down_def)
qed

lemma rnd_0: "is_rounding rnd \<Longrightarrow> rnd 0 = 0"
  by (rule rnd_fix [OF _ binary32_0])

lemma rnd_1: "is_rounding rnd \<Longrightarrow> rnd 1 = 1"
  by (rule rnd_fix [OF _ binary32_1])

lemma rounded_step:
  assumes R: "is_rounding rnd" and d: "0 \<le> rnd (rnd (1 / 10) * dt)" "rnd (rnd (1 / 10) * dt) < 1"
    and c: "0 \<le> c" "c \<le> 1 / 10"
  shows "rnd (rnd c * dt) \<in> binary32 \<and> 0 \<le> rnd (rnd c * dt) \<and> rnd (rnd c * dt) < 1"
proof -
  define a where "a = rnd (1 / 10)"
  define b where "b = rnd c"
  from c have ab: "0 \<le> b" "b \<le> a"
    using rnd_mono [OF R, of 0 c] rnd_mono [OF R, of c "1 / 10"] by (simp_all add: a_def b_def rnd_0 [OF R])
  have "0 \<le> rnd (b * dt) \<and> rnd (b * dt) < 1"
  proof (cases "0 \<le> dt")
    case True
    with ab have "0 \<le> b * dt" "b * dt \<le> a * dt"
      by (simp_all add: mult_right_mono)
    from rnd_mono [OF R this(1)] rnd_mono [OF R this(2)] d(2) show ?thesis
      by (simp add: rnd_0 [OF R] a_def)
  next
    case False
    with ab have "a * dt \<le> b * dt" "b * dt \<le> 0"
      by (simp_all add: mult_right_mono_neg mult_nonneg_nonpos)
    from rnd_mono [OF R this(1)] rnd_mono [OF R this(2)] d(1) show ?thesis
      by (simp add: rnd_0 [OF R] a_def)
  qed
  moreover from this FLT_MAX_ge_1 have "rnd (b * dt) \<in> binary32"
    by (intro rnd_small [OF R]) simp_all
  ultimately show ?thesis by (simp add: b_def)
qed

lemma rounded_wrap:
  assumes R: "is_rounding rnd"
    and t: "t \<in> binary32" "0 \<le> t" "t < 1"
    and d: "d \<in> binary32" "0 \<le> d" "d < 1"
  defines "u \<equiv> rnd (t + d)"
  defines "r \<equiv> (if u \<ge> rnd 1 then rnd (u - rnd 1) else u)"
  shows "r \<in> binary32 \<and> 0 \<le> r \<and> r < 1 \<and> r = (if 1 \<le> u then u - 1 else u)"
proof -
  from binary32_below_1 [OF t(1,3)] binary32_below_1 [OF d(1,3)]
  have "t + d \<le> 2 - 1 / 2 ^ 23" by simp
  from rnd_mono [OF R this] have u2: "u \<le> 2 - 1 / 2 ^ 23"
    by (simp only: u_def rnd_fix [OF R binary32_below_2])
  from t(2) d(2) have "0 \<le> t + d" by simp
  from rnd_mono [OF R this] have u0: "0 \<le> u" by (simp add: u_def rnd_0 [OF R])
  have "(2::real) - 1 / 2 ^ 23 < FLT_MAX" by (simp add: FLT_MAX_def)
  with u2 u0 FLT_MAX_ge_1 have ub: "u \<in> binary32"
    unfolding u_def by (intro rnd_small [OF R]) simp_all
  show ?thesis
  proof (cases "1 \<le> u")
    case True
    with u2 have "u - 1 \<in> binary32" by (intro binary32_minus_1 [OF ub]) simp_all
    with True u2 show ?thesis by (simp add: r_def rnd_1 [OF R] rnd_fix [OF R])
  next
    case False
    with u0 ub show ?thesis by (simp add: r_def rnd_1 [OF R])
  qed
qed

lemma m30_set [simp]: "m30 (set_m30_m31 u v M) = u"
  by (cases "(u, v, M)" rule: set_m30_m31.cases) (simp add: m30_def)

lemma m31_set [simp]: "m31 (set_m30_m31 u v M) = v"
  by (cases "(u, v, M)" rule: set_m30_m31.cases) (simp add: m31_def)

subsection \<open>The lights of the per-pass block\<close>

lemma set_lights_nth:
  assumes "7 \<le> length ls"
  shows "set_lights F ls ! 0 =
      (ls ! 0)\<lparr>Direction := XMFLOAT3 (flit F 0.57735) (flit F (- 0.57735)) (flit F 0.57735),
               Strength := XMFLOAT3 (flit F 0.5) (flit F 0.5) (flit F 0.5)\<rparr>"
    and "set_lights F ls ! 1 =
      (ls ! 1)\<lparr>Direction := XMFLOAT3 (flit F (- 0.57735)) (flit F (- 0.57735)) (flit F 0.57735),
               Strength := XMFLOAT3 (flit F 0.3) (flit F 0.3) (flit F 0.3)\<rparr>"
    and "set_lights F ls ! 2 =
      (ls ! 2)\<lparr>Direction := XMFLOAT3 (flit F 0) (flit F (- 0.707)) (flit F (- 0.707)),
               Strength := XMFLOAT3 (flit F 0.15) (flit F 0.15) (flit F 0.15)\<rparr>"
    and "set_lights F ls ! 3 =
      (ls ! 3)\<lparr>Position := XMFLOAT3 (flit F 7) (flit F 5.5) (flit F 7),
               Strength := XMFLOAT3 (flit F 0.1) (flit F 0.1) (flit F 3.8),
               FalloffStart := flit F 1, FalloffEnd := flit F 5\<rparr>"
    and "set_lights F ls ! 4 =
      (ls ! 4)\<lparr>Position := XMFLOAT3 (flit F 7) (flit F 5.5) (flit F (- 7)),
               Strength := XMFLOAT3 (flit F 0.1) (flit F 0.1) (flit F 3.8),
               FalloffStart := flit F 1, FalloffEnd := flit F 5\<rparr>"
    and "set_lights F ls ! 5 =
      (ls ! 5)\<lparr>Position := XMFLOAT3 (flit F (- 7)) (flit F 5.5) (flit F 7),
               Strength := XMFLOAT3 (flit F 0.1) (flit F 0.1) (flit F 3.8),
               FalloffStart := flit F 1, FalloffEnd := flit F 5\<rparr>"
    and "set_lights F ls ! 6 =
      (ls ! 6)\<lparr>Position := XMFLOAT3 (flit F (- 7)) (flit F 5.5) (flit F (- 7)),
               Strength := XMFLOAT3 (flit F 0.1) (flit F 0.1) (flit F 3.8),
               FalloffStart := flit F 1, FalloffEnd := flit F 5\<rparr>"
    and "7 \<le> i \<Longrightarrow> set_lights F ls ! i = ls ! i"
proof -
  from assms have n: "0 < length ls" "1 < length ls" "2 < length ls" "3 < length ls"
    "4 < length ls" "5 < length ls" "6 < length ls"
    by linarith+
  show "set_lights F ls ! 0 =
      (ls ! 0)\<lparr>Direction := XMFLOAT3 (flit F 0.57735) (flit F (- 0.57735)) (flit F 0.57735),
               Strength := XMFLOAT3 (flit F 0.5) (flit F 0.5) (flit F 0.5)\<rparr>"
    and "set_lights F ls ! 1 =
      (ls ! 1)\<lparr>Direction := XMFLOAT3 (flit F (- 0.57735)) (flit F (- 0.57735)) (flit F 0.57735),
               Strength := XMFLOAT3 (flit F 0.3) (flit F 0.3) (flit F 0.3)\<rparr>"
    and "set_lights F ls ! 2 =
      (ls ! 2)\<lparr>Direction := XMFLOAT3 (flit F 0) (flit F (- 0.707)) (flit F (- 0.707)),
               Strength := XMFLOAT3 (flit F 0.15) (flit F 0.15) (flit F 0.15)\<rparr>"
    and "set_lights F ls ! 3 =
      (ls ! 3)\<lparr>Position := XMFLOAT3 (flit F 7) (flit F 5.5) (flit F 7),
               Strength := XMFLOAT3 (flit F 0.1) (flit F 0.1) (flit F 3.8),
               FalloffStart := flit F 1, FalloffEnd := flit F 5\<rparr>"
    and "set_lights F ls ! 4 =
      (ls ! 4)\<lparr>Position := XMFLOAT3 (flit F 7) (flit F 5.5) (flit F (- 7)),
               Strength := XMFLOAT3 (flit F 0.1) (flit F 0.1) (flit F 3.8),
               FalloffStart := flit F 1, FalloffEnd := flit F 5\<rparr>"
    and "set_lights F ls ! 5 =
      (ls ! 5)\<lparr>Position := XMFLOAT3 (flit F (- 7)) (flit F 5.5) (flit F 7),
               Strength := XMFLOAT3 (flit F 0.1) (flit F 0.1) (flit F 3.8),
               FalloffStart := flit F 1, FalloffEnd := flit F 5\<rparr>"
    and "set_lights F ls ! 6 =
      (ls ! 6)\<lparr>Position := XMFLOAT3 (flit F (- 7)) (flit F 5.5) (flit F (- 7)),
               Strength := XMFLOAT3 (flit F 0.1) (flit F 0.1) (flit F 3.8),
               FalloffStart := flit F 1, FalloffEnd := flit F 5\<rparr>"
    using n by (simp_all add: set_lights_def Let_def directional_light_def corner_light_def)
  show "set_lights F ls ! i = ls ! i" if "7 \<le> i"
    using that by (simp add: set_lights_def Let_def)
qed

subsection \<open>The wave vertices and the range of their texture coordinates\<close>

lemma wave_vertices_copied:
  assumes "ring_ok s" and "scene_ok s" and "waves_ok H"
    and "advance g (UpdateCamera F X (OnKeyboardInput key1 s)) = Returns (s1, w)"
  shows "\<exists>s' k. Update F X H key1 g gt s = Returns (s', w) \<and>
      mCurrFrameResource s' = Some k \<and> k < length (mFrameResources s') \<and>
      mWaves s' = Waves_Update H (DeltaTime gt) (mWaves s) \<and>
      copied (WavesVB (mFrameResources s' ! k)) =
        copied (WavesVB (mFrameResources s ! k)) @ map nat [0 .. Waves_VertexCount (mWaves s') - 1] \<and>
      (\<forall>i. 0 \<le> i \<and> i < Waves_VertexCount (mWaves s') \<longrightarrow>
         mMappedData (WavesVB (mFrameResources s' ! k)) ! nat i =
           \<lparr>Pos = Waves_Position (mWaves s') i,
            Normal = Waves_Normal (mWaves s') i,
            TexC = XMFLOAT2
              (fadd F (flit F 0.5) (fdiv F (x3 (Waves_Position (mWaves s') i)) (Waves_Width (mWaves s'))))
              (fsub F (flit F 0.5) (fdiv F (z3 (Waves_Position (mWaves s') i)) (Waves_Depth (mWaves s'))))\<rparr>)"
proof -
  from Update_total [OF assms] obtain s' where
    upd: "Update F X H key1 g gt s = Returns (s', w)" ..
  define w' where "w' = Waves_Update H (DeltaTime gt) (mWaves s)"
  from Update_Returns [OF upd] obtain k vb ob mb pb where
    k: "k < length (mFrameResources s)"
    and ptr: "mCurrFrameResource s' = Some k"
    and waves': "mWaves s' = w'"
    and vb: "copy_wave_vertices F w' [0 .. Waves_VertexCount w' - 1]
          (WavesVB (mFrameResources s ! k)) = Returns vb"
    and frs': "mFrameResources s' = (mFrameResources s)[k := (mFrameResources s ! k)
        \<lparr>WavesVB := vb, ObjectCB := ob, MaterialCB := mb, PassCB := pb\<rparr>]"
    unfolding w'_def by blast
  note vbR = copy_wave_vertices_Returns [OF vb]
  have vb_at: "WavesVB (mFrameResources s' ! k) = vb" "k < length (mFrameResources s')"
    using k by (simp_all add: frs')
  have "mMappedData vb ! nat i = wave_vertex F w' i" if i: "0 \<le> i" "i < Waves_VertexCount w'" for i
  proof -
    from i have mem: "i \<in> set [0 .. Waves_VertexCount w' - 1]" by simp
    with vbR have "nat i < length (mMappedData (WavesVB (mFrameResources s ! k)))"
      using i by auto
    with vbR mem i show ?thesis by simp
  qed
  then have content: "\<forall>i. 0 \<le> i \<and> i < Waves_VertexCount w' \<longrightarrow>
         mMappedData vb ! nat i =
           \<lparr>Pos = Waves_Position w' i, Normal = Waves_Normal w' i,
            TexC = XMFLOAT2
              (fadd F (flit F 0.5) (fdiv F (x3 (Waves_Position w' i)) (Waves_Width w')))
              (fsub F (flit F 0.5) (fdiv F (z3 (Waves_Position w' i)) (Waves_Depth w')))\<rparr>"
    by (simp add: wave_vertex_def Let_def)
  from vbR have hist: "copied vb = copied (WavesVB (mFrameResources s ! k)) @ map nat [0 .. Waves_VertexCount w' - 1]"
    by simp
  show ?thesis
    using upd ptr waves' content hist vb_at
    by (intro exI [of _ s'] exI [of _ k]) (simp add: w'_def)
qed

lemma binary32_half: "1 / 2 \<in> binary32" "- (1 / 2) \<in> binary32"
  by (rule binary32I [where m = 1 and k = 148], simp_all)
     (rule binary32I [where m = "- 1" and k = 148], simp_all)

lemma rounded_texcoord_range:
  assumes R: "is_rounding rnd" and w: "0 < w" and x: "\<bar>x\<bar> \<le> w / 2"
  shows "0 \<le> rnd (rnd (1 / 2) + rnd (x / w))" and "rnd (rnd (1 / 2) + rnd (x / w)) \<le> 1"
    and "0 \<le> rnd (rnd (1 / 2) - rnd (x / w))" and "rnd (rnd (1 / 2) - rnd (x / w)) \<le> 1"
proof -
  from w x have q: "- (1 / 2) \<le> x / w" "x / w \<le> 1 / 2"
    by (simp_all add: field_simps abs_le_iff)
  from rnd_mono [OF R q(1)] rnd_mono [OF R q(2)]
  have r: "- (1 / 2) \<le> rnd (x / w)" "rnd (x / w) \<le> 1 / 2"
    by (simp_all only: rnd_fix [OF R binary32_half(1)] rnd_fix [OF R binary32_half(2)])
  have h: "rnd (1 / 2) = 1 / 2" by (rule rnd_fix [OF R binary32_half(1)])
  from r have s: "0 \<le> 1 / 2 + rnd (x / w)" "1 / 2 + rnd (x / w) \<le> 1"
    "0 \<le> 1 / 2 - rnd (x / w)" "1 / 2 - rnd (x / w) \<le> 1"
    by simp_all
  from s(1) rnd_mono [OF R s(1)] show "0 \<le> rnd (rnd (1 / 2) + rnd (x / w))"
    by (simp only: h rnd_0 [OF R])
  from rnd_mono [OF R s(2)] show "rnd (rnd (1 / 2) + rnd (x / w)) \<le> 1"
    by (simp only: h rnd_1 [OF R])
  from rnd_mono [OF R s(3)] show "0 \<le> rnd (rnd (1 / 2) - rnd (x / w))"
    by (simp only: h rnd_0 [OF R])
  from rnd_mono [OF R s(4)] show "rnd (rnd (1 / 2) - rnd (x / w)) \<le> 1"
    by (simp only: h rnd_1 [OF R])
qed

section \<open>The claims\<close>

subsection \<open>C6: the per-pass block\<close>

text \<open>
  C6. Once per tick the whole per-pass block is recomputed and written into element 0 of
  the pass buffer of the active frame resource, whatever any dirty count says: whenever
  the advance of the ring returns, \<^verbatim>\<open>Update\<close> returns, \<^verbatim>\<open>mMainPassCB\<close> and element 0
  of the current \<^verbatim>\<open>PassCB\<close> hold the block computed from the camera of this tick (view,
  projection, their product and the three inverses, each transposed; eye position; render
  target size and its inverse; near and far plane; total and delta time; ambient term; the
  light list), and exactly one \<^verbatim>\<open>CopyData(0, ...)\<close> was added to that buffer. Of the light
  list, lights 0 to 2 get the three directions and strengths of lines 467-472, lights 3 to 6 the
  position, strength and falloff range of the four corner lights of lines 474-481; members of
  these lights that the code does not assign, and the lights from index 7 on, are those
  \<^verbatim>\<open>mMainPassCB\<close> held before.
\<close>

theorem main_pass_block_rewritten_every_tick:
  fixes gt :: "'f GameTimer"
  assumes "ring_ok s" and "scene_ok s" and "waves_ok H"
    and "advance g (UpdateCamera F X (OnKeyboardInput key1 s)) = Returns (s1, w)"
  defines "c \<equiv> UpdateCamera F X s"
  defines "pc \<equiv> main_pass_constants F X gt c"
  defines "L \<equiv> cbLights (mMainPassCB s)"
  shows "\<exists>s' k. Update F X H key1 g gt s = Returns (s', w) \<and>
      mCurrFrameResource s' = Some k \<and> k < length (mFrameResources s') \<and>
      mMainPassCB s' = pc \<and>
      mMappedData (PassCB (mFrameResources s' ! k)) ! 0 = pc \<and>
      copied (PassCB (mFrameResources s' ! k)) = copied (PassCB (mFrameResources s ! k)) @ [0] \<and>
      cbView pc = XMMatrixTranspose (mView c) \<and>
      cbInvView pc = XMMatrixTranspose (XMMatrixInverse X (mView c)) \<and>
      cbProj pc = XMMatrixTranspose (mProj s) \<and>
      cbInvProj pc = XMMatrixTranspose (XMMatrixInverse X (mProj s)) \<and>
      cbViewProj pc = XMMatrixTranspose (XMMatrixMultiply X (mView c) (mProj s)) \<and>
      cbInvViewProj pc =
        XMMatrixTranspose (XMMatrixInverse X (XMMatrixMultiply X (mView c) (mProj s))) \<and>
      cbEyePosW pc = mEyePos c \<and>
      cbRenderTargetSize pc = XMFLOAT2 (fint F (mClientWidth s)) (fint F (mClientHeight s)) \<and>
      cbInvRenderTargetSize pc =
        XMFLOAT2 (fdiv F (flit F 1) (fint F (mClientWidth s)))
                 (fdiv F (flit F 1) (fint F (mClientHeight s))) \<and>
      cbNearZ pc = flit F 1 \<and> cbFarZ pc = flit F 1000 \<and>
      cbTotalTime pc = TotalTime gt \<and> cbDeltaTime pc = DeltaTime gt \<and>
      cbAmbientLight pc = XMFLOAT4 (flit F 0.25) (flit F 0.25) (flit F 0.35) (flit F 1) \<and>
      length (cbLights pc) = length L \<and>
      cbLights pc ! 0 =
        (L ! 0)\<lparr>Direction := XMFLOAT3 (flit F 0.57735) (flit F (- 0.57735)) (flit F 0.57735),
                Strength := XMFLOAT3 (flit F 0.5) (flit F 0.5) (flit F 0.5)\<rparr> \<and>
      cbLights pc ! 1 =
        (L ! 1)\<lparr>Direction := XMFLOAT3 (flit F (- 0.57735)) (flit F (- 0.57735)) (flit F 0.57735),
                Strength := XMFLOAT3 (flit F 0.3) (flit F 0.3) (flit F 0.3)\<rparr> \<and>
      cbLights pc ! 2 =
        (L ! 2)\<lparr>Direction := XMFLOAT3 (flit F 0) (flit F (- 0.707)) (flit F (- 0.707)),
                Strength := XMFLOAT3 (flit F 0.15) (flit F 0.15) (flit F 0.15)\<rparr> \<and>
      cbLights pc ! 3 =
        (L ! 3)\<lparr>Position := XMFLOAT3 (flit F 7) (flit F 5.5) (flit F 7),
                Strength := XMFLOAT3 (flit F 0.1) (flit F 0.1) (flit F 3.8),
                FalloffStart := flit F 1, FalloffEnd := flit F 5\<rparr> \<and>
      cbLights pc ! 4 =
        (L ! 4)\<lparr>Position := XMFLOAT3 (flit F 7) (flit F 5.5) (flit F (- 7)),
                Strength := XMFLOAT3 (flit F 0.1) (flit F 0.1) (flit F 3.8),
                FalloffStart := flit F 1, FalloffEnd := flit F 5\<rparr> \<and>
      cbLights pc ! 5 =
        (L ! 5)\<lparr>Position := XMFLOAT3 (flit F (- 7)) (flit F 5.5) (flit F 7),
                Strength := XMFLOAT3 (flit F 0.1) (flit F 0.1) (flit F 3.8),
                FalloffStart := flit F 1, FalloffEnd := flit F 5\<rparr> \<and>
      cbLights pc ! 6 =
        (L ! 6)\<lparr>Position := XMFLOAT3 (flit F (- 7)) (flit F 5.5) (flit F (- 7)),
                Strength := XMFLOAT3 (flit F 0.1) (flit F 0.1) (flit F 3.8),
                FalloffStart := flit F 1, FalloffEnd := flit F 5\<rparr> \<and>
      (\<forall>i. 7 \<le> i \<and> i < length L \<longrightarrow> cbLights pc ! i = L ! i)"
proof -
  from Update_total [OF assms(1-4)] obtain s' where
    upd: "Update F X H key1 g gt s = Returns (s', w)" ..
  from Update_Returns [OF upd] obtain k vb ob mb where
    k: "k < length (mFrameResources s)"
    and ptr: "mCurrFrameResource s' = Some k"
    and pass: "mMainPassCB s' = main_pass_constants F X gt (UpdateCamera F X s)"
    and frs': "mFrameResources s' = (mFrameResources s)[k := (mFrameResources s ! k)
        \<lparr>WavesVB := vb, ObjectCB := ob, MaterialCB := mb,
         PassCB := (PassCB (mFrameResources s ! k))
            \<lparr>mMappedData := (mMappedData (PassCB (mFrameResources s ! k)))[0 := main_pass_constants F X gt (UpdateCamera F X s)],
             copied := copied (PassCB (mFrameResources s ! k)) @ [0]\<rparr>\<rparr>]"
    and ne: "0 < length (mMappedData (PassCB (mFrameResources s ! k)))"
    by blast
  have fields: "cbView pc = XMMatrixTranspose (mView c)"
    "cbInvView pc = XMMatrixTranspose (XMMatrixInverse X (mView c))"
    "cbProj pc = XMMatrixTranspose (mProj s)"
    "cbInvProj pc = XMMatrixTranspose (XMMatrixInverse X (mProj s))"
    "cbViewProj pc = XMMatrixTranspose (XMMatrixMultiply X (mView c) (mProj s))"
    "cbInvViewProj pc =
        XMMatrixTranspose (XMMatrixInverse X (XMMatrixMultiply X (mView c) (mProj s)))"
    "cbEyePosW pc = mEyePos c"
    "cbRenderTargetSize pc = XMFLOAT2 (fint F (mClientWidth s)) (fint F (mClientHeight s))"
    "cbInvRenderTargetSize pc =
        XMFLOAT2 (fdiv F (flit F 1) (fint F (mClientWidth s)))
                 (fdiv F (flit F 1) (fint F (mClientHeight s)))"
    "cbNearZ pc = flit F 1" "cbFarZ pc = flit F 1000"
    "cbTotalTime pc = TotalTime gt" "cbDeltaTime pc = DeltaTime gt"
    "cbAmbientLight pc = XMFLOAT4 (flit F 0.25) (flit F 0.25) (flit F 0.35) (flit F 1)"
    by (simp_all add: pc_def c_def main_pass_constants_def Let_def camera_frame)
  have lights: "cbLights pc = set_lights F L"
    by (simp add: pc_def c_def L_def main_pass_constants_def Let_def camera_frame)
  from assms(2) have seven: "7 \<le> length L" by (simp add: scene_ok_def L_def)
  note ln = set_lights_nth [OF seven, where F = F, folded lights]
  have len: "length (cbLights pc) = length L" by (simp add: lights)
  have written: "mMappedData (PassCB (mFrameResources s' ! k)) ! 0 = pc"
    "copied (PassCB (mFrameResources s' ! k)) = copied (PassCB (mFrameResources s ! k)) @ [0]"
    "k < length (mFrameResources s')"
    using k ne by (simp_all add: frs' pc_def c_def)
  have rest: "\<forall>i. 7 \<le> i \<and> i < length L \<longrightarrow> cbLights pc ! i = L ! i"
    using ln(8) by blast
  show ?thesis
    apply (intro exI [of _ s'] exI [of _ k] conjI)
    using upd ptr pass written fields len ln(1-7) rest
    by (simp_all only: pc_def c_def)
qed

text \<open>
  The first tick of the small application, whose block holds seven lights with every member 0
  before the tick.
\<close>

theorem main_pass_block_rewritten_every_tick_witness:
  "ring_ok demo_app \<and> scene_ok demo_app \<and> waves_ok demo_headers \<and>
   (\<exists>s' k. Update exact_ops demo_math demo_headers False (tk_fence (demo_input 0))
            (tk_timer (demo_input 0)) demo_app = Returns (s', None) \<and>
      mCurrFrameResource s' = Some k \<and>
      cbTotalTime (mMappedData (PassCB (mFrameResources s' ! k)) ! 0) = 1 \<and>
      cbDeltaTime (mMappedData (PassCB (mFrameResources s' ! k)) ! 0) = 1 / 64 \<and>
      cbLights (mMappedData (PassCB (mFrameResources s' ! k)) ! 0) ! 0 =
        \<lparr>Strength = XMFLOAT3 (1 / 2) (1 / 2) (1 / 2), FalloffStart = 0,
         Direction = XMFLOAT3 (57735 / 100000) (- (57735 / 100000)) (57735 / 100000),
         FalloffEnd = 0, Position = XMFLOAT3 0 0 0\<rparr> \<and>
      cbLights (mMappedData (PassCB (mFrameResources s' ! k)) ! 0) ! 4 =
        \<lparr>Strength = XMFLOAT3 (1 / 10) (1 / 10) (38 / 10), FalloffStart = 1,
         Direction = XMFLOAT3 0 0 0, FalloffEnd = 5, Position = XMFLOAT3 7 (55 / 10) (- 7)\<rparr> \<and>
      copied (PassCB (mFrameResources s' ! k)) =
        copied (PassCB (mFrameResources demo_app ! k)) @ [0])"
proof -
  define pc where "pc = main_pass_constants exact_ops demo_math (tk_timer (demo_input 0))
         (UpdateCamera exact_ops demo_math demo_app)"
  from main_pass_block_rewritten_every_tick [OF demo_ok demo_advance,
      of "tk_timer (demo_input 0)", folded pc_def]
  obtain s' k where
    "Update exact_ops demo_math demo_headers False (tk_fence (demo_input 0))
       (tk_timer (demo_input 0)) demo_app = Returns (s', None)"
    "mCurrFrameResource s' = Some k"
    "mMappedData (PassCB (mFrameResources s' ! k)) ! 0 = pc"
    "cbTotalTime pc = TotalTime (tk_timer (demo_input 0))"
    "cbDeltaTime pc = DeltaTime (tk_timer (demo_input 0))"
    "cbLights pc ! 0 =
        (cbLights (mMainPassCB demo_app) ! 0)
          \<lparr>Direction := XMFLOAT3 (flit exact_ops 0.57735) (flit exact_ops (- 0.57735)) (flit exact_ops 0.57735),
           Strength := XMFLOAT3 (flit exact_ops 0.5) (flit exact_ops 0.5) (flit exact_ops 0.5)\<rparr>"
    "cbLights pc ! 4 =
        (cbLights (mMainPassCB demo_app) ! 4)
          \<lparr>Position := XMFLOAT3 (flit exact_ops 7) (flit exact_ops 5.5) (flit exact_ops (- 7)),
           Strength := XMFLOAT3 (flit exact_ops 0.1) (flit exact_ops 0.1) (flit exact_ops 3.8),
           FalloffStart := flit exact_ops 1, FalloffEnd := flit exact_ops 5\<rparr>"
    "copied (PassCB (mFrameResources s' ! k)) = copied (PassCB (mFrameResources demo_app ! k)) @ [0]"
    by blast
  moreover have "cbLights (mMainPassCB demo_app) ! 0 = demo_light" "cbLights (mMainPassCB demo_app) ! 4 = demo_light"
    by (simp_all add: demo_app_def demo_pass_def)
  ultimately have "\<exists>s' k. Update exact_ops demo_math demo_headers False (tk_fence (demo_input 0))
            (tk_timer (demo_input 0)) demo_app = Returns (s', None) \<and>
      mCurrFrameResource s' = Some k \<and>
      cbTotalTime (mMappedData (PassCB (mFrameResources s' ! k)) ! 0) = 1 \<and>
      cbDeltaTime (mMappedData (PassCB (mFrameResources s' ! k)) ! 0) = 1 / 64 \<and>
      cbLights (mMappedData (PassCB (mFrameResources s' ! k)) ! 0) ! 0 =
        \<lparr>Strength = XMFLOAT3 (1 / 2) (1 / 2) (1 / 2), FalloffStart = 0,
         Direction = XMFLOAT3 (57735 / 100000) (- (57735 / 100000)) (57735 / 100000),
         FalloffEnd = 0, Position = XMFLOAT3 0 0 0\<rparr> \<and>
      cbLights (mMappedData (PassCB (mFrameResources s' ! k)) ! 0) ! 4 =
        \<lparr>Strength = XMFLOAT3 (1 / 10) (1 / 10) (38 / 10), FalloffStart = 1,
         Direction = XMFLOAT3 0 0 0, FalloffEnd = 5, Position = XMFLOAT3 7 (55 / 10) (- 7)\<rparr> \<and>
      copied (PassCB (mFrameResources s' ! k)) =
        copied (PassCB (mFrameResources demo_app ! k)) @ [0]"
    by (intro exI [of _ s'] exI [of _ k]) (simp add: demo_input_def demo_light_def exact_ops_def)
  with demo_ok show ?thesis by blast
qed

subsection \<open>C7: the wave vertices\<close>

text \<open>
  C7. After the water update of a tick, element \<open>i\<close> of the dynamic vertex buffer of the
  active frame resource holds, for every vertex index \<open>i\<close> of the wave field, the position
  and the normal the wave field reports for \<open>i\<close> after \<^verbatim>\<open>Waves::Update\<close>, unchanged, and
  the texture coordinates \<open>u = 0.5 + x / width\<close>, \<open>v = 0.5 - z / depth\<close> computed in
  \<^verbatim>\<open>float\<close> from that position; the loop copied the indices \<open>0, ..., n - 1\<close> once each,
  in order. This holds for every interpretation of the \<^verbatim>\<open>float\<close> operations. When they are
  those of single precision, under any rounding, and the wave field keeps its positions
  within its width and depth (\<^const>\<open>waves_in_field\<close>), both texture coordinates of every
  vertex copied lie in \<open>[0, 1]\<close>.
\<close>

theorem wave_vertices_copied_with_remapped_texcoords:
  fixes F :: "real float_ops"
  assumes "ring_ok s" and "scene_ok s" and "waves_ok H"
    and "advance g (UpdateCamera F X (OnKeyboardInput key1 s)) = Returns (s1, w)"
  shows "\<exists>s' k. Update F X H key1 g gt s = Returns (s', w) \<and>
      mCurrFrameResource s' = Some k \<and> k < length (mFrameResources s') \<and>
      mWaves s' = Waves_Update H (DeltaTime gt) (mWaves s) \<and>
      copied (WavesVB (mFrameResources s' ! k)) =
        copied (WavesVB (mFrameResources s ! k)) @ map nat [0 .. Waves_VertexCount (mWaves s') - 1] \<and>
      (\<forall>i. 0 \<le> i \<and> i < Waves_VertexCount (mWaves s') \<longrightarrow>
         mMappedData (WavesVB (mFrameResources s' ! k)) ! nat i =
           \<lparr>Pos = Waves_Position (mWaves s') i,
            Normal = Waves_Normal (mWaves s') i,
            TexC = XMFLOAT2
              (fadd F (flit F 0.5) (fdiv F (x3 (Waves_Position (mWaves s') i)) (Waves_Width (mWaves s'))))
              (fsub F (flit F 0.5) (fdiv F (z3 (Waves_Position (mWaves s') i)) (Waves_Depth (mWaves s'))))\<rparr>) \<and>
      (\<forall>rnd. is_rounding rnd \<and> F = rounded_ops rnd \<and> waves_in_field (mWaves s') \<longrightarrow>
         (\<forall>i. 0 \<le> i \<and> i < Waves_VertexCount (mWaves s') \<longrightarrow>
            0 \<le> x2 (TexC (mMappedData (WavesVB (mFrameResources s' ! k)) ! nat i)) \<and>
            x2 (TexC (mMappedData (WavesVB (mFrameResources s' ! k)) ! nat i)) \<le> 1 \<and>
            0 \<le> y2 (TexC (mMappedData (WavesVB (mFrameResources s' ! k)) ! nat i)) \<and>
            y2 (TexC (mMappedData (WavesVB (mFrameResources s' ! k)) ! nat i)) \<le> 1))"
proof -
  from wave_vertices_copied [OF assms, of gt] obtain s' k where
    upd: "Update F X H key1 g gt s = Returns (s', w)"
    and ptr: "mCurrFrameResource s' = Some k" "k < length (mFrameResources s')"
    and waves: "mWaves s' = Waves_Update H (DeltaTime gt) (mWaves s)"
    and hist: "copied (WavesVB (mFrameResources s' ! k)) =
        copied (WavesVB (mFrameResources s ! k)) @ map nat [0 .. Waves_VertexCount (mWaves s') - 1]"
    and content: "\<forall>i. 0 \<le> i \<and> i < Waves_VertexCount (mWaves s') \<longrightarrow>
         mMappedData (WavesVB (mFrameResources s' ! k)) ! nat i =
           \<lparr>Pos = Waves_Position (mWaves s') i,
            Normal = Waves_Normal (mWaves s') i,
            TexC = XMFLOAT2
              (fadd F (flit F 0.5) (fdiv F (x3 (Waves_Position (mWaves s') i)) (Waves_Width (mWaves s'))))
              (fsub F (flit F 0.5) (fdiv F (z3 (Waves_Position (mWaves s') i)) (Waves_Depth (mWaves s'))))\<rparr>"
    by blast
  have range: "0 \<le> x2 (TexC (mMappedData (WavesVB (mFrameResources s' ! k)) ! nat i)) \<and>
            x2 (TexC (mMappedData (WavesVB (mFrameResources s' ! k)) ! nat i)) \<le> 1 \<and>
            0 \<le> y2 (TexC (mMappedData (WavesVB (mFrameResources s' ! k)) ! nat i)) \<and>
            y2 (TexC (mMappedData (WavesVB (mFrameResources s' ! k)) ! nat i)) \<le> 1"
    if R: "is_rounding rnd" and F: "F = rounded_ops rnd" and fld: "waves_in_field (mWaves s')"
      and i: "0 \<le> i" "i < Waves_VertexCount (mWaves s')" for rnd i
  proof -
    from fld i have b: "0 < Waves_Width (mWaves s')" "0 < Waves_Depth (mWaves s')"
      "\<bar>x3 (Waves_Position (mWaves s') i)\<bar> \<le> Waves_Width (mWaves s') / 2"
      "\<bar>z3 (Waves_Position (mWaves s') i)\<bar> \<le> Waves_Depth (mWaves s') / 2"
      by (simp_all add: waves_in_field_def)
    from content i have "TexC (mMappedData (WavesVB (mFrameResources s' ! k)) ! nat i) =
        XMFLOAT2
          (rnd (rnd (1 / 2) + rnd (x3 (Waves_Position (mWaves s') i) / Waves_Width (mWaves s'))))
          (rnd (rnd (1 / 2) - rnd (z3 (Waves_Position (mWaves s') i) / Waves_Depth (mWaves s'))))"
      by (simp add: F rounded_ops_def)
    with rounded_texcoord_range [OF R b(1,3)] rounded_texcoord_range [OF R b(2,4)]
    show ?thesis by simp
  qed
  show ?thesis
    using upd ptr waves hist content range
    by (intro exI [of _ s'] exI [of _ k] conjI) blast+
qed

text \<open>
  The first tick of the small application in single precision, rounding towards minus infinity.
  Its wave field has width and depth 2 and two vertices at \<open>x = -1/2\<close> and \<open>x = 1/2\<close>, both at
  \<open>z = 1/2\<close>; every number that occurs is a value of the format.
\<close>

theorem wave_vertices_copied_with_remapped_texcoords_witness:
  "ring_ok demo_app \<and> scene_ok demo_app \<and> waves_ok demo_headers \<and>
   is_rounding round_down \<and> waves_in_field (mWaves demo_app) \<and>
   (\<exists>s' k. Update (rounded_ops round_down) demo_math demo_headers False (tk_fence (demo_input 0))
            (tk_timer (demo_input 0)) demo_app = Returns (s', None) \<and>
      mCurrFrameResource s' = Some k \<and>
      mWaves s' = mWaves demo_app \<and>
      mMappedData (WavesVB (mFrameResources s' ! k)) ! 0 =
        \<lparr>Pos = XMFLOAT3 (- 1 / 2) 0 (1 / 2), Normal = XMFLOAT3 0 1 0, TexC = XMFLOAT2 (1 / 4) (1 / 4)\<rparr> \<and>
      mMappedData (WavesVB (mFrameResources s' ! k)) ! 1 =
        \<lparr>Pos = XMFLOAT3 (1 / 2) 0 (1 / 2), Normal = XMFLOAT3 0 1 0, TexC = XMFLOAT2 (3 / 4) (1 / 4)\<rparr> \<and>
      0 \<le> x2 (TexC (mMappedData (WavesVB (mFrameResources s' ! k)) ! 1)) \<and>
      x2 (TexC (mMappedData (WavesVB (mFrameResources s' ! k)) ! 1)) \<le> 1 \<and>
      0 \<le> y2 (TexC (mMappedData (WavesVB (mFrameResources s' ! k)) ! 1)) \<and>
      y2 (TexC (mMappedData (WavesVB (mFrameResources s' ! k)) ! 1)) \<le> 1)"
proof -
  note R = is_rounding_round_down
  have fld: "waves_in_field (mWaves demo_app)"
    by (auto simp: waves_in_field_def demo_app_def)
  have f0: "Fence (mFrameResources demo_app ! nat ((mCurrFrameResourceIndex demo_app + 1) mod gNumFrameResources)) = 0"
    by (simp add: demo_app_def demo_frame_resource_def gNumFrameResources_def)
  obtain s1 where adv: "advance (tk_fence (demo_input 0))
      (UpdateCamera (rounded_ops round_down) demo_math (OnKeyboardInput False demo_app)) = Returns (s1, None)"
    by (simp add: advance_camera_eq [OF demo_ok(1)] Let_def f0)
  from wave_vertices_copied_with_remapped_texcoords [OF demo_ok adv, of "tk_timer (demo_input 0)"]
  obtain s' k where upd:
    "Update (rounded_ops round_down) demo_math demo_headers False (tk_fence (demo_input 0))
       (tk_timer (demo_input 0)) demo_app = Returns (s', None)"
    and ptr: "mCurrFrameResource s' = Some k"
    and waves: "mWaves s' = Waves_Update demo_headers (DeltaTime (tk_timer (demo_input 0))) (mWaves demo_app)"
    and content: "\<forall>i. 0 \<le> i \<and> i < Waves_VertexCount (mWaves s') \<longrightarrow>
         mMappedData (WavesVB (mFrameResources s' ! k)) ! nat i =
           \<lparr>Pos = Waves_Position (mWaves s') i,
            Normal = Waves_Normal (mWaves s') i,
            TexC = XMFLOAT2
              (fadd (rounded_ops round_down) (flit (rounded_ops round_down) 0.5)
                 (fdiv (rounded_ops round_down) (x3 (Waves_Position (mWaves s') i)) (Waves_Width (mWaves s'))))
              (fsub (rounded_ops round_down) (flit (rounded_ops round_down) 0.5)
                 (fdiv (rounded_ops round_down) (z3 (Waves_Position (mWaves s') i)) (Waves_Depth (mWaves s'))))\<rparr>"
    and range: "\<forall>rnd. is_rounding rnd \<and> rounded_ops round_down = rounded_ops rnd \<and>
         waves_in_field (mWaves s') \<longrightarrow>
         (\<forall>i. 0 \<le> i \<and> i < Waves_VertexCount (mWaves s') \<longrightarrow>
            0 \<le> x2 (TexC (mMappedData (WavesVB (mFrameResources s' ! k)) ! nat i)) \<and>
            x2 (TexC (mMappedData (WavesVB (mFrameResources s' ! k)) ! nat i)) \<le> 1 \<and>
            0 \<le> y2 (TexC (mMappedData (WavesVB (mFrameResources s' ! k)) ! nat i)) \<and>
            y2 (TexC (mMappedData (WavesVB (mFrameResources s' ! k)) ! nat i)) \<le> 1)"
    by blast
  have w: "mWaves s' = mWaves demo_app"
    by (simp add: waves demo_headers_def)
  have b: "1 / 4 \<in> binary32" "- (1 / 4) \<in> binary32" "3 / 4 \<in> binary32"
    by (rule binary32I [where m = 1 and k = 147], simp_all)
       (rule binary32I [where m = "- 1" and k = 147], simp_all,
        rule binary32I [where m = 3 and k = 147], simp_all)
  note fx = rnd_fix [OF R binary32_half(1)] rnd_fix [OF R b(1)] rnd_fix [OF R b(2)] rnd_fix [OF R b(3)]
  from content [rule_format, of 0] content [rule_format, of 1]
  have c: "mMappedData (WavesVB (mFrameResources s' ! k)) ! 0 =
        \<lparr>Pos = XMFLOAT3 (- 1 / 2) 0 (1 / 2), Normal = XMFLOAT3 0 1 0, TexC = XMFLOAT2 (1 / 4) (1 / 4)\<rparr>"
    "mMappedData (WavesVB (mFrameResources s' ! k)) ! 1 =
        \<lparr>Pos = XMFLOAT3 (1 / 2) 0 (1 / 2), Normal = XMFLOAT3 0 1 0, TexC = XMFLOAT2 (3 / 4) (1 / 4)\<rparr>"
    by (simp_all add: w demo_app_def rounded_ops_def fx)
  from range [rule_format, of round_down 1] R fld
  have r: "0 \<le> x2 (TexC (mMappedData (WavesVB (mFrameResources s' ! k)) ! 1))"
    "x2 (TexC (mMappedData (WavesVB (mFrameResources s' ! k)) ! 1)) \<le> 1"
    "0 \<le> y2 (TexC (mMappedData (WavesVB (mFrameResources s' ! k)) ! 1))"
    "y2 (TexC (mMappedData (WavesVB (mFrameResources s' ! k)) ! 1)) \<le> 1"
    by (simp_all add: w demo_app_def)
  from upd ptr w c r have "\<exists>s' k. Update (rounded_ops round_down) demo_math demo_headers False (tk_fence (demo_input 0))
            (tk_timer (demo_input 0)) demo_app = Returns (s', None) \<and>
      mCurrFrameResource s' = Some k \<and>
      mWaves s' = mWaves demo_app \<and>
      mMappedData (WavesVB (mFrameResources s' ! k)) ! 0 =
        \<lparr>Pos = XMFLOAT3 (- 1 / 2) 0 (1 / 2), Normal = XMFLOAT3 0 1 0, TexC = XMFLOAT2 (1 / 4) (1 / 4)\<rparr> \<and>
      mMappedData (WavesVB (mFrameResources s' ! k)) ! 1 =
        \<lparr>Pos = XMFLOAT3 (1 / 2) 0 (1 / 2), Normal = XMFLOAT3 0 1 0, TexC = XMFLOAT2 (3 / 4) (1 / 4)\<rparr> \<and>
      0 \<le> x2 (TexC (mMappedData (WavesVB (mFrameResources s' ! k)) ! 1)) \<and>
      x2 (TexC (mMappedData (WavesVB (mFrameResources s' ! k)) ! 1)) \<le> 1 \<and>
      0 \<le> y2 (TexC (mMappedData (WavesVB (mFrameResources s' ! k)) ! 1)) \<and>
      y2 (TexC (mMappedData (WavesVB (mFrameResources s' ! k)) ! 1)) \<le> 1"
    by (intro exI [of _ s'] exI [of _ k] conjI)
  with demo_ok R fld show ?thesis by blast
qed

subsection \<open>C8: the vertex buffer of the water item\<close>

text \<open>
  C8. At the end of the water update of a tick (and still at the end of \<^verbatim>\<open>Update\<close>), the
  geometry of the water render item refers to the resource of the dynamic vertex buffer
  of the frame resource that is now current, the one just filled. Each frame resource
  keeps its own resource, so when these are pairwise different the reference is to no
  other slot's buffer.
\<close>

theorem water_item_points_at_active_waves_buffer:
  assumes "ring_ok s" and "scene_ok s" and "waves_ok H"
    and "advance g (UpdateCamera F X (OnKeyboardInput key1 s)) = Returns (s1, w)"
  shows "\<exists>s' k p gn geo. Update F X H key1 g gt s = Returns (s', w) \<and>
      mCurrFrameResourceIndex s' = int k \<and>
      mCurrFrameResource s' = Some k \<and> k < length (mFrameResources s') \<and>
      mWavesRitem s' = Some p \<and> p < length (mAllRitems s') \<and>
      Geo (mAllRitems s' ! p) = Some gn \<and>
      map_of (mGeometries s') gn = Some geo \<and>
      VertexBufferGPU geo = Some (Resource (WavesVB (mFrameResources s' ! k))) \<and>
      map (\<lambda>fr. Resource (WavesVB fr)) (mFrameResources s') =
        map (\<lambda>fr. Resource (WavesVB fr)) (mFrameResources s) \<and>
      (distinct (map (\<lambda>fr. Resource (WavesVB fr)) (mFrameResources s)) \<longrightarrow>
         (\<forall>j < length (mFrameResources s'). j \<noteq> k \<longrightarrow>
            VertexBufferGPU geo \<noteq> Some (Resource (WavesVB (mFrameResources s' ! j)))))"
proof -
  from Update_total [OF assms] obtain s' where
    upd: "Update F X H key1 g gt s = Returns (s', w)" ..
  from Update_Returns [OF upd] obtain k vb p gn geo es ob mb pb where
    k: "k < length (mFrameResources s)"
    and idx: "mCurrFrameResourceIndex s' = int k"
    and ptr: "mCurrFrameResource s' = Some k"
    and vb: "copy_wave_vertices F (Waves_Update H (DeltaTime gt) (mWaves s))
          [0 .. Waves_VertexCount (Waves_Update H (DeltaTime gt) (mWaves s)) - 1]
          (WavesVB (mFrameResources s ! k)) = Returns vb"
    and p: "mWavesRitem s = Some p" "p < length (mAllRitems s)"
      "Geo (mAllRitems s ! p) = Some gn" "map_of (mGeometries s) gn = Some geo"
    and ob: "ObjectCBs_loop (ObjectConstants0 H) (mAllRitems s) (ObjectCB (mFrameResources s ! k)) = Returns (es, ob)"
    and s': "mAllRitems s' = es" "mWavesRitem s' = mWavesRitem s"
      "mGeometries s' = assign gn (geo\<lparr>VertexBufferGPU := Some (Resource vb)\<rparr>) (mGeometries s)"
    and frs': "mFrameResources s' = (mFrameResources s)[k := (mFrameResources s ! k)
        \<lparr>WavesVB := vb, ObjectCB := ob, MaterialCB := mb, PassCB := pb\<rparr>]"
    by blast
  note obR = ObjectCBs_loop_Returns [OF ob]
  note vbR = copy_wave_vertices_Returns [OF vb]
  have len: "length es = length (mAllRitems s)" using obR by simp
  have "map Geo es = map Geo (mAllRitems s)" using obR by (simp add: comp_def)
  then have geo_p: "Geo (es ! p) = Some gn"
    using p(2,3) len by (metis nth_map)
  have res: "map (\<lambda>fr. Resource (WavesVB fr)) (mFrameResources s') =
        map (\<lambda>fr. Resource (WavesVB fr)) (mFrameResources s)"
    using k vbR by (simp add: frs' map_update list_update_same_conv)
  have at_k: "Resource (WavesVB (mFrameResources s' ! k)) = Resource vb" "k < length (mFrameResources s')"
    using k by (simp_all add: frs')
  let ?geo = "geo\<lparr>VertexBufferGPU := Some (Resource vb)\<rparr>"
  have lookup: "map_of (mGeometries s') gn = Some ?geo"
    using p(4) by (simp add: s' map_of_assign)
  have other: "VertexBufferGPU ?geo \<noteq> Some (Resource (WavesVB (mFrameResources s' ! j)))"
    if d: "distinct (map (\<lambda>fr. Resource (WavesVB fr)) (mFrameResources s))"
      and j: "j < length (mFrameResources s')" "j \<noteq> k" for j
  proof -
    from d res have "distinct (map (\<lambda>fr. Resource (WavesVB fr)) (mFrameResources s'))" by simp
    with j at_k(2) have "map (\<lambda>fr. Resource (WavesVB fr)) (mFrameResources s') ! j \<noteq>
        map (\<lambda>fr. Resource (WavesVB fr)) (mFrameResources s') ! k"
      by (simp add: nth_eq_iff_index_eq del: nth_map)
    with j at_k show ?thesis by simp
  qed
  show ?thesis
    apply (rule exI [of _ s'], rule exI [of _ k], rule exI [of _ p], rule exI [of _ gn],
        rule exI [of _ ?geo])
    using upd idx ptr at_k p len geo_p lookup res other by (simp add: s')
qed

theorem water_item_points_at_active_waves_buffer_witness:
  "ring_ok demo_app \<and> scene_ok demo_app \<and> waves_ok demo_headers \<and>
   distinct (map (\<lambda>fr. Resource (WavesVB fr)) (mFrameResources demo_app)) \<and>
   (\<exists>s' k p gn geo. Update exact_ops demo_math demo_headers False (tk_fence (demo_input 0))
            (tk_timer (demo_input 0)) demo_app = Returns (s', None) \<and>
      mCurrFrameResource s' = Some k \<and>
      mWavesRitem s' = Some p \<and> Geo (mAllRitems s' ! p) = Some gn \<and>
      map_of (mGeometries s') gn = Some geo \<and>
      VertexBufferGPU geo = Some (Resource (WavesVB (mFrameResources s' ! k))) \<and>
      (\<forall>j < length (mFrameResources s'). j \<noteq> k \<longrightarrow>
          VertexBufferGPU geo \<noteq> Some (Resource (WavesVB (mFrameResources s' ! j)))))"
proof -
  have d: "distinct (map (\<lambda>fr. Resource (WavesVB fr)) (mFrameResources demo_app))"
    by (simp add: demo_app_def demo_frame_resource_def)
  from water_item_points_at_active_waves_buffer [OF demo_ok demo_advance,
      of "tk_timer (demo_input 0)"] d
  have "\<exists>s' k p gn geo. Update exact_ops demo_math demo_headers False (tk_fence (demo_input 0))
            (tk_timer (demo_input 0)) demo_app = Returns (s', None) \<and>
      mCurrFrameResource s' = Some k \<and>
      mWavesRitem s' = Some p \<and> Geo (mAllRitems s' ! p) = Some gn \<and>
      map_of (mGeometries s') gn = Some geo \<and>
      VertexBufferGPU geo = Some (Resource (WavesVB (mFrameResources s' ! k))) \<and>
      (\<forall>j < length (mFrameResources s'). j \<noteq> k \<longrightarrow>
          VertexBufferGPU geo \<noteq> Some (Resource (WavesVB (mFrameResources s' ! j))))"
    by blast
  with d demo_ok show ?thesis by blast
qed

subsection \<open>C9: the first ticks never wait\<close>

text \<open>
  C9. Starting from an application whose frame resources all carry the completion marker
  0 (as after start-up), the first \<^verbatim>\<open>gNumFrameResources\<close> ticks all return and none of
  them enters the wait, whatever the fence shows and even if it never makes progress or
  would refuse the event: the advance selects a slot whose marker is still 0, and a
  marker of 0 skips the branch. (\<open>tk_hr_ok\<close>: the submission in \<^verbatim>\<open>Draw\<close> succeeds.)
\<close>

theorem first_ticks_never_wait:
  assumes "ring_ok s" and "scene_ok s" and "waves_ok H"
    and "\<forall>fr \<in> set (mFrameResources s). Fence fr = 0"
    and "length inps \<le> nat gNumFrameResources"
    and "list_all tk_hr_ok inps"
  shows "\<exists>tr. run F X H inps s = Returns tr \<and> map snd tr = replicate (length inps) None"
proof -
  from assms(1) have len: "length (mFrameResources s) = 3"
    by (simp add: ring_ok_def gNumFrameResources_def)
  have "\<forall>m < length inps. Fence (mFrameResources s ! nat ((mCurrFrameResourceIndex s + int m + 1) mod 3)) = 0"
  proof (intro allI impI)
    fix m
    have "nat ((mCurrFrameResourceIndex s + int m + 1) mod 3) < length (mFrameResources s)"
      by (simp add: len)
    then have "mFrameResources s ! nat ((mCurrFrameResourceIndex s + int m + 1) mod 3) \<in> set (mFrameResources s)"
      by (rule nth_mem)
    with assms(4) show "Fence (mFrameResources s ! nat ((mCurrFrameResourceIndex s + int m + 1) mod 3)) = 0"
      by blast
  qed
  with assms show ?thesis
    by (intro run_fresh) (simp_all add: gNumFrameResources_def)
qed

text \<open>
  Three ticks of the small application during which the graphics device reports nothing
  and would not even accept the event.
\<close>

theorem first_ticks_never_wait_witness:
  "ring_ok demo_app \<and> scene_ok demo_app \<and> waves_ok demo_headers \<and>
   list_all (\<lambda>fr. Fence fr = 0) (mFrameResources demo_app) \<and>
   (\<exists>tr. run exact_ops demo_math demo_headers
            [demo_input 0, (demo_input 0)\<lparr>tk_fence := \<lparr>GetCompletedValue = 0, later = [],
                SetEventOnCompletion_ok = False\<rparr>\<rparr>, demo_input 0] demo_app = Returns tr \<and>
          map snd tr = [None, None, None])"
proof -
  have "list_all tk_hr_ok [demo_input 0, (demo_input 0)\<lparr>tk_fence := \<lparr>GetCompletedValue = 0, later = [],
                SetEventOnCompletion_ok = False\<rparr>\<rparr>, demo_input 0 :: real tick_input]"
    by (simp add: demo_input_def)
  from first_ticks_never_wait [OF demo_ok demo_fresh _ this, of exact_ops demo_math]
  have "\<exists>tr. run exact_ops demo_math demo_headers
            [demo_input 0, (demo_input 0)\<lparr>tk_fence := \<lparr>GetCompletedValue = 0, later = [],
                SetEventOnCompletion_ok = False\<rparr>\<rparr>, demo_input 0] demo_app = Returns tr \<and>
          map snd tr = [None, None, None]"
    by (simp add: gNumFrameResources_def numeral_3_eq_3)
  with demo_ok demo_fresh show ?thesis
    by (simp add: list_all_iff)
qed

subsection \<open>C1: the advance of the frame ring and the stall\<close>

text \<open>
  C1. For a well-formed application: (1) an \<^verbatim>\<open>Update\<close> that returns has stepped the
  cursor by one modulo \<^verbatim>\<open>gNumFrameResources\<close> and made that frame resource current;
  (2) the host enters the wait for the marker of the selected frame resource if and only
  if that marker is not 0 and the completed value the fence reports is below it, and
  then it stays blocked until the fence reaches the marker; (3) otherwise \<^verbatim>\<open>Update\<close>
  returns without waiting; (4) after \<^verbatim>\<open>gNumFrameResources\<close> ticks the next \<^verbatim>\<open>Update\<close>
  selects the frame resource of the first of these submissions, whose marker is the counter
  before them plus one, and it blocks until the fence reaches that marker if and only if the
  marker is not 0 and the completed value is below it; otherwise it returns without waiting.
  The marker is 0 when the 64-bit counter wrapped on that submission.
\<close>

theorem frame_ring_advance_and_stall:
  assumes "ring_ok s" and "scene_ok s" and "waves_ok H"
  defines "k \<equiv> nat ((mCurrFrameResourceIndex s + 1) mod gNumFrameResources)"
  shows
   "(\<forall>s' w. Update F X H key1 g gt s = Returns (s', w) \<longrightarrow>
        mCurrFrameResourceIndex s' = (mCurrFrameResourceIndex s + 1) mod gNumFrameResources \<and>
        mCurrFrameResource s' = Some k) \<and>
    (blocks_until g (Fence (mFrameResources s ! k)) (Update F X H key1 g gt s) \<longleftrightarrow>
        Fence (mFrameResources s ! k) \<noteq> 0 \<and> GetCompletedValue g < Fence (mFrameResources s ! k)) \<and>
    (\<not> blocks_until g (Fence (mFrameResources s ! k)) (Update F X H key1 g gt s) \<longrightarrow>
        (\<exists>s'. Update F X H key1 g gt s = Returns (s', None))) \<and>
    (\<forall>inps tr. run F X H inps s = Returns tr \<and> length inps = nat gNumFrameResources \<longrightarrow>
        Fence (mFrameResources (fst (last tr)) !
          nat ((mCurrFrameResourceIndex (fst (last tr)) + 1) mod gNumFrameResources)) =
          mCurrentFence s + 1 \<and>
        (blocks_until g (mCurrentFence s + 1) (Update F X H key1 g gt (fst (last tr))) \<longleftrightarrow>
           mCurrentFence s + 1 \<noteq> 0 \<and> GetCompletedValue g < mCurrentFence s + 1) \<and>
        (\<not> blocks_until g (mCurrentFence s + 1) (Update F X H key1 g gt (fst (last tr))) \<longrightarrow>
           (\<exists>s'. Update F X H key1 g gt (fst (last tr)) = Returns (s', None))))"
proof -
  have p1: "mCurrFrameResourceIndex s' = (mCurrFrameResourceIndex s + 1) mod gNumFrameResources \<and>
        mCurrFrameResource s' = Some k"
    if upd: "Update F X H key1 g gt s = Returns (s', w)" for s' w
  proof -
    from assms(1) have idx: "0 \<le> mCurrFrameResourceIndex s" by (simp add: ring_ok_def)
    from Update_Returns [OF upd] obtain j where
      "int j = (mCurrFrameResourceIndex s + 1) mod 3"
      "mCurrFrameResourceIndex s' = int j" "mCurrFrameResource s' = Some j"
      unfolding smod_gNumFrameResources [OF idx] by blast
    then show ?thesis by (simp add: k_def gNumFrameResources_def)
  qed
  have wait: "(blocks_until g f (Update F X H key1 g gt t) \<longleftrightarrow> f \<noteq> 0 \<and> GetCompletedValue g < f) \<and>
      (\<not> blocks_until g f (Update F X H key1 g gt t) \<longrightarrow>
         (\<exists>s'. Update F X H key1 g gt t = Returns (s', None)))"
    if ok: "ring_ok t" "scene_ok t"
      and f: "Fence (mFrameResources t ! nat ((mCurrFrameResourceIndex t + 1) mod gNumFrameResources)) = f"
    for t f
  proof -
    note wb = Update_wait_behaviour [OF ok assms(3), of g F X key1 gt, unfolded f]
    have a: "blocks_until g f (Update F X H key1 g gt t) \<longleftrightarrow> f \<noteq> 0 \<and> GetCompletedValue g < f"
      using wb blocks_until_not_None by metis
    have b: "\<exists>s'. Update F X H key1 g gt t = Returns (s', None)"
      if "\<not> blocks_until g f (Update F X H key1 g gt t)"
      using wb that by blast
    from a b show ?thesis by blast
  qed
  have p4: "Fence (mFrameResources (fst (last tr)) !
          nat ((mCurrFrameResourceIndex (fst (last tr)) + 1) mod gNumFrameResources)) =
          mCurrentFence s + 1 \<and>
        (blocks_until g (mCurrentFence s + 1) (Update F X H key1 g gt (fst (last tr))) \<longleftrightarrow>
           mCurrentFence s + 1 \<noteq> 0 \<and> GetCompletedValue g < mCurrentFence s + 1) \<and>
        (\<not> blocks_until g (mCurrentFence s + 1) (Update F X H key1 g gt (fst (last tr))) \<longrightarrow>
           (\<exists>s'. Update F X H key1 g gt (fst (last tr)) = Returns (s', None)))"
    if a: "run F X H inps s = Returns tr \<and> length inps = nat gNumFrameResources" for inps tr
  proof -
    from a have r: "run F X H inps s = Returns tr" and n: "length inps = 3"
      by (simp_all add: gNumFrameResources_def)
    from run_length [OF r] n have ltr: "length tr = 3" by simp
    then have ne: "tr \<noteq> []" by auto
    define s3 where "s3 = fst (last tr)"
    have mem: "last tr \<in> set tr" using ne by simp
    with run_preserves [OF r assms(1-3)] have ok3: "ring_ok s3" "scene_ok s3"
      by (simp_all add: s3_def)
    have "last tr = tr ! 2" using ltr ne by (simp add: last_conv_nth)
    with run_counters [OF r assms(1), of 2] ltr
    have idx3: "mCurrFrameResourceIndex s3 = (mCurrFrameResourceIndex s + 3) mod 3"
      by (simp add: s3_def)
    from assms(1) have idx: "0 \<le> mCurrFrameResourceIndex s" "mCurrFrameResourceIndex s < 3"
      by (simp_all add: ring_ok_def gNumFrameResources_def)
    then have idx3': "mCurrFrameResourceIndex s3 = mCurrFrameResourceIndex s"
      by (simp add: idx3)
    from n have "inps \<noteq> []" by auto
    with run_fences [OF r assms(1)] n
    have "Fence (mFrameResources s3 ! nat ((mCurrFrameResourceIndex s + int 0 + 1) mod 3)) =
        mCurrentFence s + of_nat (0 + 1)"
      unfolding s3_def by (metis zero_less_numeral order_refl)
    then have f3: "Fence (mFrameResources s3 ! nat ((mCurrFrameResourceIndex s3 + 1) mod gNumFrameResources)) =
        mCurrentFence s + 1"
      by (simp add: idx3' gNumFrameResources_def)
    from f3 wait [OF ok3 f3] show ?thesis
      unfolding s3_def by blast
  qed
  from wait [OF assms(1,2) refl, folded k_def] p1 p4 show ?thesis
    by blast
qed

text \<open>
  Three ticks of the small application while the fence stays at 0, then a fourth
  \<^verbatim>\<open>Update\<close>: it resumes when the fence shows 1, the marker of the first of the three
  submissions, and never returns if the fence stays at 0.
\<close>

theorem frame_ring_advance_and_stall_witness:
  "ring_ok demo_app \<and> scene_ok demo_app \<and> waves_ok demo_headers \<and>
   (\<exists>tr. run exact_ops demo_math demo_headers [demo_input 0, demo_input 0, demo_input 0] demo_app =
            Returns tr \<and>
      length [demo_input 0, demo_input 0, demo_input 0 :: real tick_input] = nat gNumFrameResources \<and>
      Fence (mFrameResources (fst (last tr)) !
          nat ((mCurrFrameResourceIndex (fst (last tr)) + 1) mod gNumFrameResources)) = 1 \<and>
      (\<exists>s'. Update exact_ops demo_math demo_headers False
               \<lparr>GetCompletedValue = 0, later = [0, 0, 1, 2], SetEventOnCompletion_ok = True\<rparr>
               (tk_timer (demo_input 0)) (fst (last tr)) = Returns (s', Some 1)) \<and>
      Update exact_ops demo_math demo_headers False
               \<lparr>GetCompletedValue = 0, later = [0, 0], SetEventOnCompletion_ok = True\<rparr>
               (tk_timer (demo_input 0)) (fst (last tr)) = Hangs \<and>
      (\<exists>s'. Update exact_ops demo_math demo_headers False
               \<lparr>GetCompletedValue = 1, later = [], SetEventOnCompletion_ok = True\<rparr>
               (tk_timer (demo_input 0)) (fst (last tr)) = Returns (s', None)))"
proof -
  have hr: "list_all tk_hr_ok [demo_input 0, demo_input 0, demo_input 0 :: real tick_input]"
    by (simp add: demo_input_def)
  have "\<forall>m < length [demo_input 0, demo_input 0, demo_input 0 :: real tick_input].
      Fence (mFrameResources demo_app ! nat ((mCurrFrameResourceIndex demo_app + int m + 1) mod 3)) = 0"
    by (simp add: demo_app_def demo_frame_resource_def less_Suc_eq)
  from run_fresh [OF demo_ok _ hr this, of exact_ops demo_math] obtain tr where
    r: "run exact_ops demo_math demo_headers [demo_input 0, demo_input 0, demo_input 0] demo_app = Returns tr"
    by auto
  have cur: "mCurrentFence demo_app + 1 = 1" by (simp add: demo_app_def)
  have n: "length [demo_input 0, demo_input 0, demo_input 0 :: real tick_input] = nat gNumFrameResources"
    by (simp add: gNumFrameResources_def)
  have rn: "run exact_ops demo_math demo_headers [demo_input 0, demo_input 0, demo_input 0] demo_app = Returns tr \<and>
      length [demo_input 0, demo_input 0, demo_input 0 :: real tick_input] = nat gNumFrameResources"
    using r n by (simp del: run.simps)
  note stall = frame_ring_advance_and_stall [OF demo_ok, THEN conjunct2, THEN conjunct2, THEN conjunct2,
      rule_format, of exact_ops demo_math "[demo_input 0, demo_input 0, demo_input 0]" tr _ False
        "tk_timer (demo_input 0)", unfolded cur, OF rn]
  from stall have f: "Fence (mFrameResources (fst (last tr)) !
          nat ((mCurrFrameResourceIndex (fst (last tr)) + 1) mod gNumFrameResources)) = 1"
    by blast
  from stall [of "\<lparr>GetCompletedValue = 0, later = [0, 0, 1, 2], SetEventOnCompletion_ok = True\<rparr>"]
  have 1: "blocks_until \<lparr>GetCompletedValue = 0, later = [0, 0, 1, 2], SetEventOnCompletion_ok = True\<rparr> 1
      (Update exact_ops demo_math demo_headers False
         \<lparr>GetCompletedValue = 0, later = [0, 0, 1, 2], SetEventOnCompletion_ok = True\<rparr>
         (tk_timer (demo_input 0)) (fst (last tr)))"
    by simp
  from stall [of "\<lparr>GetCompletedValue = 0, later = [0, 0], SetEventOnCompletion_ok = True\<rparr>"]
  have 2: "blocks_until \<lparr>GetCompletedValue = 0, later = [0, 0], SetEventOnCompletion_ok = True\<rparr> 1
      (Update exact_ops demo_math demo_headers False
         \<lparr>GetCompletedValue = 0, later = [0, 0], SetEventOnCompletion_ok = True\<rparr>
         (tk_timer (demo_input 0)) (fst (last tr)))"
    by simp
  from stall [of "\<lparr>GetCompletedValue = 1, later = [], SetEventOnCompletion_ok = True\<rparr>"]
  have 3: "\<exists>s'. Update exact_ops demo_math demo_headers False
               \<lparr>GetCompletedValue = 1, later = [], SetEventOnCompletion_ok = True\<rparr>
               (tk_timer (demo_input 0)) (fst (last tr)) = Returns (s', None)"
    by simp
  from 1 have 1: "\<exists>s'. Update exact_ops demo_math demo_headers False
               \<lparr>GetCompletedValue = 0, later = [0, 0, 1, 2], SetEventOnCompletion_ok = True\<rparr>
               (tk_timer (demo_input 0)) (fst (last tr)) = Returns (s', Some 1)"
    by (auto simp: blocks_until_def split: outcome.splits)
  from 2 have 2: "Update exact_ops demo_math demo_headers False
               \<lparr>GetCompletedValue = 0, later = [0, 0], SetEventOnCompletion_ok = True\<rparr>
               (tk_timer (demo_input 0)) (fst (last tr)) = Hangs"
    by (auto simp: blocks_until_def split: outcome.splits)
  from r n f 1 2 3 demo_ok show ?thesis
    by (intro conjI exI [of _ tr])
qed

text \<open>
  The claim as it is written promises the stall after \<^verbatim>\<open>gNumFrameResources\<close> submissions
  without a completion signal, whatever the counter. In \<^const>\<open>demo_app_last\<close> the counter stands
  at \<open>2\<^sup>6\<^sup>4 - 1\<close> and the fence shows that value: everything submitted so far is complete. Three
  more ticks give their slots the markers \<open>0\<close>, \<open>1\<close> and \<open>2\<close>, none of them waits, and the fence
  never moves again, so none of the three submissions is reported complete. The fourth
  \<^verbatim>\<open>Update\<close> selects the slot with the marker \<open>0\<close>, which line 269 reads as a slot never
  submitted, and returns without waiting.
\<close>

theorem no_stall_after_wrapped_marker:
  "map_outcome
     (\<lambda>tr. (map (\<lambda>t. current_marker (fst t)) tr, map snd tr,
            map_outcome snd
              (Update exact_ops demo_math demo_headers False
                 \<lparr>GetCompletedValue = 0xFFFFFFFFFFFFFFFF, later = [], SetEventOnCompletion_ok = True\<rparr>
                 (tk_timer (demo_input 0xFFFFFFFFFFFFFFFF)) (fst (last tr)))))
     (run exact_ops demo_math demo_headers
        [demo_input 0xFFFFFFFFFFFFFFFF, demo_input 0xFFFFFFFFFFFFFFFF, demo_input 0xFFFFFFFFFFFFFFFF]
        demo_app_last) =
   Returns ([0, 1, 2], [None, None, None], Returns None)"
  by code_simp

subsection \<open>C2: the dirty countdown\<close>

text \<open>
  C2. Take a render item whose dirty count is \<^verbatim>\<open>gNumFrameResources\<close> (or a material
  other than the water, which \<^verbatim>\<open>UpdateWater\<close> marks dirty again every tick), in an
  application whose items (materials) have pairwise different buffer indices, and run any
  number of ticks. The pass of tick \<open>j + 1\<close> works on slot \<open>k\<close>, the slot the cursor
  reaches, and leaves every other slot as it was. After it the dirty count is
  \<open>max 0 (gNumFrameResources - (j + 1))\<close>: one less per pass until it is 0. Each of the
  first \<^verbatim>\<open>gNumFrameResources\<close> passes adds exactly one \<^verbatim>\<open>CopyData\<close> with the entity's
  index to the buffer of its slot and leaves the entity's data there: for an item the
  default \<^verbatim>\<open>ObjectConstants\<close> with the transposed world matrix, for a material its diffuse
  albedo, Fresnel term, roughness and transposed material transform; these passes visit
  pairwise different slots; every later pass adds no copy with that index.
\<close>

theorem dirty_countdown:
  assumes "ring_ok s" and "scene_ok s" and "waves_ok H"
    and "distinct (map ObjCBIndex (mAllRitems s))"
    and "distinct (map (\<lambda>e. MatCBIndex (snd e)) (mMaterials s))"
    and "run F X H inps s = Returns tr" and "j < length tr"
  defines "before \<equiv> (s # map fst tr) ! j"
    and "after \<equiv> fst (tr ! j)"
    and "k \<equiv> nat ((mCurrFrameResourceIndex s + int j + 1) mod gNumFrameResources)"
  shows
   "mCurrFrameResource after = Some k \<and>
    (\<forall>x. x \<noteq> k \<longrightarrow> mFrameResources after ! x = mFrameResources before ! x) \<and>
    (\<forall>p. p < length (mAllRitems s) \<and> NumFramesDirty (mAllRitems s ! p) = gNumFrameResources \<longrightarrow>
       NumFramesDirty (mAllRitems after ! p) = max 0 (gNumFrameResources - int (j + 1)) \<and>
       copies_of (nat (sint (ObjCBIndex (mAllRitems s ! p)))) (ObjectCB (mFrameResources after ! k)) =
         copies_of (nat (sint (ObjCBIndex (mAllRitems s ! p)))) (ObjectCB (mFrameResources before ! k)) +
         (if int j < gNumFrameResources then 1 else 0) \<and>
       (int j < gNumFrameResources \<longrightarrow>
          mMappedData (ObjectCB (mFrameResources after ! k)) ! nat (sint (ObjCBIndex (mAllRitems s ! p))) =
            (ObjectConstants0 H)\<lparr>cbWorld := XMMatrixTranspose (World (mAllRitems s ! p))\<rparr>)) \<and>
    (\<forall>q. q < length (mMaterials s) \<and> fst (mMaterials s ! q) \<noteq> ''water'' \<and>
         MatNumFramesDirty (snd (mMaterials s ! q)) = gNumFrameResources \<longrightarrow>
       MatNumFramesDirty (snd (mMaterials after ! q)) = max 0 (gNumFrameResources - int (j + 1)) \<and>
       copies_of (nat (MatCBIndex (snd (mMaterials s ! q)))) (MaterialCB (mFrameResources after ! k)) =
         copies_of (nat (MatCBIndex (snd (mMaterials s ! q)))) (MaterialCB (mFrameResources before ! k)) +
         (if int j < gNumFrameResources then 1 else 0) \<and>
       (int j < gNumFrameResources \<longrightarrow>
          mMappedData (MaterialCB (mFrameResources after ! k)) ! nat (MatCBIndex (snd (mMaterials s ! q))) =
            \<lparr>cbDiffuseAlbedo = DiffuseAlbedo (snd (mMaterials s ! q)),
             cbFresnelR0 = FresnelR0 (snd (mMaterials s ! q)),
             cbRoughness = Roughness (snd (mMaterials s ! q)),
             cbMatTransform = XMMatrixTranspose (MatTransform (snd (mMaterials s ! q)))\<rparr>)) \<and>
    distinct (map (\<lambda>j. nat ((mCurrFrameResourceIndex s + int j + 1) mod gNumFrameResources))
                [0 ..< nat gNumFrameResources])"
proof (intro conjI allI impI)
  from run_counters [OF assms(6,1,7)]
  show "mCurrFrameResource after = Some k"
    by (simp add: after_def k_def gNumFrameResources_def)
next
  fix p assume p: "p < length (mAllRitems s) \<and> NumFramesDirty (mAllRitems s ! p) = gNumFrameResources"
  then have d: "0 \<le> NumFramesDirty (mAllRitems s ! p)" by (simp add: gNumFrameResources_def)
  note ri = run_item [OF assms(6,1,2,3,4) conjunct1 [OF p] d assms(7),
      folded before_def after_def, unfolded conjunct2 [OF p]]
  from ri show "NumFramesDirty (mAllRitems after ! p) = max 0 (gNumFrameResources - int (j + 1))"
    by simp
  from ri show "copies_of (nat (sint (ObjCBIndex (mAllRitems s ! p)))) (ObjectCB (mFrameResources after ! k)) =
         copies_of (nat (sint (ObjCBIndex (mAllRitems s ! p)))) (ObjectCB (mFrameResources before ! k)) +
         (if int j < gNumFrameResources then 1 else 0)"
    by (simp add: k_def gNumFrameResources_def)
  from ri show "mMappedData (ObjectCB (mFrameResources after ! k)) ! nat (sint (ObjCBIndex (mAllRitems s ! p))) =
            (ObjectConstants0 H)\<lparr>cbWorld := XMMatrixTranspose (World (mAllRitems s ! p))\<rparr>"
    if "int j < gNumFrameResources"
    using that by (simp add: k_def gNumFrameResources_def)
next
  fix q assume q: "q < length (mMaterials s) \<and> fst (mMaterials s ! q) \<noteq> ''water'' \<and>
         MatNumFramesDirty (snd (mMaterials s ! q)) = gNumFrameResources"
  then have d: "0 \<le> MatNumFramesDirty (snd (mMaterials s ! q))" by (simp add: gNumFrameResources_def)
  from q have q1: "q < length (mMaterials s)" and q2: "fst (mMaterials s ! q) \<noteq> ''water''"
    and q3: "MatNumFramesDirty (snd (mMaterials s ! q)) = gNumFrameResources"
    by simp_all
  note rm = run_material [OF assms(6,1,2,3,5) q1 q2 d assms(7),
      folded before_def after_def, unfolded q3]
  from rm show "MatNumFramesDirty (snd (mMaterials after ! q)) = max 0 (gNumFrameResources - int (j + 1))"
    by simp
  from rm show "copies_of (nat (MatCBIndex (snd (mMaterials s ! q)))) (MaterialCB (mFrameResources after ! k)) =
         copies_of (nat (MatCBIndex (snd (mMaterials s ! q)))) (MaterialCB (mFrameResources before ! k)) +
         (if int j < gNumFrameResources then 1 else 0)"
    by (simp add: k_def gNumFrameResources_def)
  from rm show "mMappedData (MaterialCB (mFrameResources after ! k)) ! nat (MatCBIndex (snd (mMaterials s ! q))) =
            \<lparr>cbDiffuseAlbedo = DiffuseAlbedo (snd (mMaterials s ! q)),
             cbFresnelR0 = FresnelR0 (snd (mMaterials s ! q)),
             cbRoughness = Roughness (snd (mMaterials s ! q)),
             cbMatTransform = XMMatrixTranspose (MatTransform (snd (mMaterials s ! q)))\<rparr>"
    if "int j < gNumFrameResources"
    using that by (simp add: k_def gNumFrameResources_def material_constants_def)
next
  fix x assume x: "x \<noteq> k"
  from run_other_slots [OF assms(6,1,7), of x] x
  show "mFrameResources after ! x = mFrameResources before ! x"
    by (simp add: after_def before_def k_def gNumFrameResources_def)
next
  from assms(1) have "0 \<le> mCurrFrameResourceIndex s" "mCurrFrameResourceIndex s < 3"
    by (simp_all add: ring_ok_def gNumFrameResources_def)
  then have "mCurrFrameResourceIndex s = 0 \<or> mCurrFrameResourceIndex s = 1 \<or> mCurrFrameResourceIndex s = 2"
    by linarith
  then show "distinct (map (\<lambda>j. nat ((mCurrFrameResourceIndex s + int j + 1) mod gNumFrameResources))
                [0 ..< nat gNumFrameResources])"
    by (auto simp: gNumFrameResources_def numeral_3_eq_3 upt_rec)
qed


text \<open>
  Four ticks of the small application, for the wall (render item 0, buffer element 0) and
  the brick material (element 0): the counts go 2, 1, 0, 0; the third pass copies into
  slot 0, the fourth visits slot 1 again and copies nothing.
\<close>

theorem dirty_countdown_witness:
  "ring_ok demo_app \<and> scene_ok demo_app \<and> waves_ok demo_headers \<and>
   distinct (map ObjCBIndex (mAllRitems demo_app)) \<and>
   distinct (map (\<lambda>e. MatCBIndex (snd e)) (mMaterials demo_app)) \<and>
   NumFramesDirty (mAllRitems demo_app ! 0) = gNumFrameResources \<and>
   fst (mMaterials demo_app ! 0) \<noteq> ''water'' \<and>
   MatNumFramesDirty (snd (mMaterials demo_app ! 0)) = gNumFrameResources \<and>
   (\<exists>tr. run exact_ops demo_math demo_headers
            [demo_input 0, demo_input 0, demo_input 0, demo_input 1] demo_app = Returns tr \<and>
      map (\<lambda>t. NumFramesDirty (mAllRitems (fst t) ! 0)) tr = [2, 1, 0, 0] \<and>
      map (\<lambda>t. MatNumFramesDirty (snd (mMaterials (fst t) ! 0))) tr = [2, 1, 0, 0] \<and>
      copies_of 0 (ObjectCB (mFrameResources (fst (tr ! 2)) ! 0)) =
        copies_of 0 (ObjectCB (mFrameResources (fst (tr ! 1)) ! 0)) + 1 \<and>
      copies_of 0 (ObjectCB (mFrameResources (fst (tr ! 3)) ! 1)) =
        copies_of 0 (ObjectCB (mFrameResources (fst (tr ! 2)) ! 1)) \<and>
      copies_of 0 (MaterialCB (mFrameResources (fst (tr ! 3)) ! 1)) =
        copies_of 0 (MaterialCB (mFrameResources (fst (tr ! 2)) ! 1)))"
proof -
  have hyps: "distinct (map ObjCBIndex (mAllRitems demo_app))"
    "distinct (map (\<lambda>e. MatCBIndex (snd e)) (mMaterials demo_app))"
    by (simp_all add: demo_app_def demo_material_def)
  have seeded: "0 < length (mAllRitems demo_app) \<and> NumFramesDirty (mAllRitems demo_app ! 0) = gNumFrameResources"
    "0 < length (mMaterials demo_app) \<and> fst (mMaterials demo_app ! 0) \<noteq> ''water'' \<and>
       MatNumFramesDirty (snd (mMaterials demo_app ! 0)) = gNumFrameResources"
    by (simp_all add: demo_app_def demo_material_def gNumFrameResources_def)
  from demo_run4 obtain tr where
    r: "run exact_ops demo_math demo_headers
          [demo_input 0, demo_input 0, demo_input 0, demo_input 1] demo_app = Returns tr" ..
  from run_length [OF r] have len: "length tr = 4" by simp
  then obtain t0 t1 t2 t3 where tr: "tr = [t0, t1, t2, t3]"
    by (auto simp: length_Suc_conv numeral_eq_Suc)
  have idx: "mCurrFrameResourceIndex demo_app = 0" "sint (ObjCBIndex (mAllRitems demo_app ! 0)) = 0"
    "MatCBIndex (snd (mMaterials demo_app ! 0)) = 0"
    by (simp_all add: demo_app_def demo_material_def)
  note dc = dirty_countdown [OF demo_ok hyps r]
  have item: "NumFramesDirty (mAllRitems (fst (tr ! j)) ! 0) = max 0 (gNumFrameResources - int (j + 1)) \<and>
       copies_of (nat (sint (ObjCBIndex (mAllRitems demo_app ! 0))))
           (ObjectCB (mFrameResources (fst (tr ! j)) !
              nat ((mCurrFrameResourceIndex demo_app + int j + 1) mod gNumFrameResources))) =
         copies_of (nat (sint (ObjCBIndex (mAllRitems demo_app ! 0))))
           (ObjectCB (mFrameResources ((demo_app # map fst tr) ! j) !
              nat ((mCurrFrameResourceIndex demo_app + int j + 1) mod gNumFrameResources))) +
         (if int j < gNumFrameResources then 1 else 0)" if "j < length tr" for j
    using dc [OF that] seeded(1) by blast
  have mat: "MatNumFramesDirty (snd (mMaterials (fst (tr ! j)) ! 0)) = max 0 (gNumFrameResources - int (j + 1)) \<and>
       copies_of (nat (MatCBIndex (snd (mMaterials demo_app ! 0))))
           (MaterialCB (mFrameResources (fst (tr ! j)) !
              nat ((mCurrFrameResourceIndex demo_app + int j + 1) mod gNumFrameResources))) =
         copies_of (nat (MatCBIndex (snd (mMaterials demo_app ! 0))))
           (MaterialCB (mFrameResources ((demo_app # map fst tr) ! j) !
              nat ((mCurrFrameResourceIndex demo_app + int j + 1) mod gNumFrameResources))) +
         (if int j < gNumFrameResources then 1 else 0)" if "j < length tr" for j
    using dc [OF that] seeded(2) by blast
  from item [of 0] item [of 1] item [of 2] item [of 3] mat [of 0] mat [of 1] mat [of 2] mat [of 3]
  have "map (\<lambda>t. NumFramesDirty (mAllRitems (fst t) ! 0)) tr = [2, 1, 0, 0] \<and>
      map (\<lambda>t. MatNumFramesDirty (snd (mMaterials (fst t) ! 0))) tr = [2, 1, 0, 0] \<and>
      copies_of 0 (ObjectCB (mFrameResources (fst (tr ! 2)) ! 0)) =
        copies_of 0 (ObjectCB (mFrameResources (fst (tr ! 1)) ! 0)) + 1 \<and>
      copies_of 0 (ObjectCB (mFrameResources (fst (tr ! 3)) ! 1)) =
        copies_of 0 (ObjectCB (mFrameResources (fst (tr ! 2)) ! 1)) \<and>
      copies_of 0 (MaterialCB (mFrameResources (fst (tr ! 3)) ! 1)) =
        copies_of 0 (MaterialCB (mFrameResources (fst (tr ! 2)) ! 1))"
    by (simp add: tr idx gNumFrameResources_def)
  with r hyps seeded demo_ok show ?thesis
    by (intro conjI exI [of _ tr]) (simp_all del: run.simps)
qed

subsection \<open>C4: what the object pass copies\<close>

text \<open>
Claim C4 says that the object pass copies the item's snapshot, world transform and texture
transform both, into the entry at \<^const>\<open>ObjCBIndex\<close> of the active slot's object buffer.
\<^const>\<open>UpdateObjectCBs\<close> stores the transposed \<^const>\<open>World\<close> only and never reads
\<^const>\<open>TexTransform\<close>. On the demo scene, whose wall item carries the scaling \<open>(5/2, 1/2, 1)\<close> that
\<open>BuildRenderItems\<close> gives the walls, the pass visits both items (indices \<open>0\<close> and \<open>1\<close>, newest
first in the history), and the entry written for the wall holds the world transform and the
default texture transform of \<open>ObjectConstants\<close>, while the item still carries its scaling.
\<close>

theorem object_pass_drops_texture_transform:
  "map_outcome
     (\<lambda>s'. (copied (ObjectCB (mFrameResources s' ! 1)),
            mMappedData (ObjectCB (mFrameResources s' ! 1)) ! 0,
            TexTransform (mAllRitems s' ! 0)))
     (UpdateObjectCBs (ObjectConstants0 demo_headers) (demo_app\<lparr>mCurrFrameResource := Some 1\<rparr>)) =
   Returns ([0, 1],
            \<lparr>cbWorld = Identity4x4, cbTexTransform = Identity4x4\<rparr>,
            XMFLOAT4X4 (XMFLOAT4 (5 / 2) 0 0 0) (XMFLOAT4 0 (1 / 2) 0 0)
                       (XMFLOAT4 0 0 1 0) (XMFLOAT4 0 0 0 1))"
  by (simp add: UpdateObjectCBs_def curr_frame_resource_def demo_app_def demo_frame_resource_def
      demo_headers_def CopyData_def Identity4x4_def)

subsection \<open>C5: the markers given to the slots\<close>

text \<open>
Claim C5 says that retiring a slot stores the just-incremented submission counter as the slot's
marker, so that the markers form a strictly increasing sequence across any sequence of ticks.
The first half holds as written: after every tick the marker of the current slot is the counter,
and the counter is one more than it was before the tick. The counter is a \<^typ>\<open>UINT64\<close>, so the
second half holds as long as it has not wrapped: if the counter at the start plus the number of
ticks stays below \<open>2\<^sup>6\<^sup>4\<close>, the counter at the start followed by the markers of the ticks is
strictly increasing (so no two submissions share a marker).
\<close>

theorem markers_increase_until_the_counter_wraps:
  assumes "run F X H inps s = Returns tr" and "ring_ok s"
  shows "length tr = length inps \<and>
     (\<forall>j < length tr.
        current_marker (fst (tr ! j)) = mCurrentFence (fst (tr ! j)) \<and>
        mCurrentFence (fst (tr ! j)) = (if j = 0 then mCurrentFence s else mCurrentFence (fst (tr ! (j - 1)))) + 1) \<and>
     (unat (mCurrentFence s) + length inps < 2 ^ 64 \<longrightarrow>
        sorted_wrt (<) (mCurrentFence s # map (\<lambda>t. current_marker (fst t)) tr))"
proof (intro conjI allI impI)
  show len: "length tr = length inps" using assms(1) by (rule run_length)
  fix j assume j: "j < length tr"
  show "current_marker (fst (tr ! j)) = mCurrentFence (fst (tr ! j))"
    using run_markers [OF assms j] by simp
  show "mCurrentFence (fst (tr ! j)) =
      (if j = 0 then mCurrentFence s else mCurrentFence (fst (tr ! (j - 1)))) + 1"
  proof (cases j)
    case 0
    then show ?thesis using run_markers(2) [OF assms j] by simp
  next
    case (Suc j')
    with j have "j' < length tr" by simp
    from run_markers(2) [OF assms this] run_markers(2) [OF assms j] Suc show ?thesis
      by simp
  qed
next
  assume nowrap: "unat (mCurrentFence s) + length inps < 2 ^ 64"
  have len: "length tr = length inps" using assms(1) by (rule run_length)
  define c where "c = mCurrentFence s"
  have m: "map (\<lambda>t. current_marker (fst t)) tr = map (\<lambda>j. c + of_nat (j + 1)) [0..<length tr]"
    by (rule nth_equalityI) (simp_all add: run_markers(1) [OF assms] c_def)
  have u: "unat (c + of_nat n) = unat c + n" if "n \<le> length tr" for n
    using that nowrap len by (intro unat_counter_plus) (simp add: c_def)
  have "sorted_wrt (<) (c # map (\<lambda>j. c + of_nat (j + 1)) [0..<length tr])"
  proof (simp only: sorted_wrt.simps, intro conjI ballI)
    fix y assume "y \<in> set (map (\<lambda>j. c + of_nat (j + 1)) [0..<length tr])"
    then obtain j where j: "j < length tr" and y: "y = c + of_nat (j + 1)" by auto
    from u [of "j + 1"] u [of 0] j show "c < y"
      by (simp add: y word_less_nat_alt)
  next
    show "sorted_wrt (<) (map (\<lambda>j. c + of_nat (j + 1)) [0..<length tr])"
      unfolding sorted_wrt_map
    proof (rule sorted_wrt_mono_rel [OF _ sorted_wrt_upt [where m = 0 and n = "length tr"]])
      fix i j assume "i \<in> set [0..<length tr]" "j \<in> set [0..<length tr]" "i < j"
      with u [of "i + 1"] u [of "j + 1"] show "c + of_nat (i + 1) < c + of_nat (j + 1)"
        by (simp add: word_less_nat_alt)
    qed
  qed
  then show "sorted_wrt (<) (mCurrentFence s # map (\<lambda>t. current_marker (fst t)) tr)"
    by (simp only: m c_def)
qed

text \<open>
  Four ticks of the small application, whose counter starts at \<open>0\<close>: the markers given to the
  slots are \<open>1, 2, 3, 4\<close>.
\<close>

theorem markers_increase_until_the_counter_wraps_witness:
  "ring_ok demo_app \<and>
   unat (mCurrentFence demo_app) + length [demo_input 0, demo_input 0, demo_input 0, demo_input 1] < 2 ^ 64 \<and>
   (\<exists>tr. run exact_ops demo_math demo_headers
            [demo_input 0, demo_input 0, demo_input 0, demo_input 1] demo_app = Returns tr \<and>
      map (\<lambda>t. current_marker (fst t)) tr = [1, 2, 3, 4] \<and>
      sorted_wrt (<) (mCurrentFence demo_app # map (\<lambda>t. current_marker (fst t)) tr))"
proof -
  from demo_run4 obtain tr where
    r: "run exact_ops demo_math demo_headers
          [demo_input 0, demo_input 0, demo_input 0, demo_input 1] demo_app = Returns tr" ..
  have c0: "mCurrentFence demo_app = 0" by (simp add: demo_app_def)
  note th = markers_increase_until_the_counter_wraps [OF r demo_ok(1)]
  from th have len: "length tr = 4" by simp
  then obtain t0 t1 t2 t3 where tr: "tr = [t0, t1, t2, t3]"
    by (auto simp: length_Suc_conv numeral_eq_Suc)
  from th have step: "current_marker (fst (tr ! j)) = mCurrentFence (fst (tr ! j)) \<and>
        mCurrentFence (fst (tr ! j)) =
          (if j = 0 then mCurrentFence demo_app else mCurrentFence (fst (tr ! (j - 1)))) + 1"
    if "j < length tr" for j
    using that by blast
  from step [of 0] step [of 1] step [of 2] step [of 3]
  have m: "map (\<lambda>t. current_marker (fst t)) tr = [1, 2, 3, 4]"
    by (simp add: tr c0)
  from th have "sorted_wrt (<) (mCurrentFence demo_app # map (\<lambda>t. current_marker (fst t)) tr)"
    by (simp add: c0)
  with r m demo_ok(1) show ?thesis
    by (intro conjI exI [of _ tr]) (simp_all add: c0 del: run.simps)
qed

text \<open>
  The claim as it is written has no bound on the number of ticks, and the counter is a 64-bit
  unsigned integer that \<^verbatim>\<open>++\<close> wraps. In \<^const>\<open>demo_app_late\<close> the counter stands at
  \<open>2\<^sup>6\<^sup>4 - 2\<close>; the next two ticks give their slots the markers \<open>2\<^sup>6\<^sup>4 - 1\<close> and \<open>0\<close>.
\<close>

theorem markers_wrap_counterexample:
  "map_outcome (map (\<lambda>t. current_marker (fst t)))
     (run exact_ops demo_math demo_headers
        [demo_input 0xFFFFFFFFFFFFFFFE, demo_input 0xFFFFFFFFFFFFFFFF] demo_app_late) =
     Returns [0xFFFFFFFFFFFFFFFF, 0] \<and>
   \<not> sorted_wrt (<) [0xFFFFFFFFFFFFFFFF, 0 :: UINT64]"
  by code_simp

subsection \<open>C10: the texture scroll of the water\<close>

text \<open>
Claim C10 says that the texture scroll at the head of \<^verbatim>\<open>UpdateWater\<close>, which is
\<^const>\<open>scroll_water\<close>, keeps the offsets \<open>tu\<close> and \<open>tv\<close> of the water material in \<open>[0, 1)\<close>: if the
product \<^verbatim>\<open>0.1f * dt\<close> the code computes lies in \<open>[0, 1)\<close> and both offsets lie in \<open>[0, 1)\<close>, then
the new \<open>tu\<close> is the old one plus that product, the new \<open>tv\<close> the old one plus \<^verbatim>\<open>0.02f * dt\<close>,
each less \<open>1\<close> when the sum has reached \<open>1\<close>, and both lie in \<open>[0, 1)\<close> again. The arithmetic is
single precision under any rounding, and the offsets are values of the format; sums and products
are the rounded ones, and the subtraction of \<open>1\<close> turns out exact. The new offsets are values of
the format again, so the property carries from tick to tick.
\<close>

theorem water_scroll_keeps_offsets_in_unit_interval:
  assumes "is_rounding rnd"
    and "m30 (MatTransform waterMat) \<in> binary32" and "m31 (MatTransform waterMat) \<in> binary32"
    and "0 \<le> fmul (rounded_ops rnd) (flit (rounded_ops rnd) 0.1) dt"
    and "fmul (rounded_ops rnd) (flit (rounded_ops rnd) 0.1) dt < 1"
    and "0 \<le> m30 (MatTransform waterMat)" and "m30 (MatTransform waterMat) < 1"
    and "0 \<le> m31 (MatTransform waterMat)" and "m31 (MatTransform waterMat) < 1"
  shows "let F = rounded_ops rnd;
             M' = MatTransform (scroll_water F dt waterMat);
             u = fadd F (m30 (MatTransform waterMat)) (fmul F (flit F 0.1) dt);
             v = fadd F (m31 (MatTransform waterMat)) (fmul F (flit F 0.02) dt)
         in m30 M' = (if 1 \<le> u then u - 1 else u) \<and>
            m31 M' = (if 1 \<le> v then v - 1 else v) \<and>
            m30 M' \<in> binary32 \<and> 0 \<le> m30 M' \<and> m30 M' < 1 \<and>
            m31 M' \<in> binary32 \<and> 0 \<le> m31 M' \<and> m31 M' < 1"
proof -
  note R = assms(1)
  from assms(4,5) have d: "0 \<le> rnd (rnd (1 / 10) * dt)" "rnd (rnd (1 / 10) * dt) < 1"
    by (simp_all add: rounded_ops_def)
  note du = rounded_step [OF R d, of "1 / 10"]
  note dv = rounded_step [OF R d, of "1 / 50"]
  from du have u: "rnd (rnd (1 / 10) * dt) \<in> binary32" by simp
  from dv have v: "rnd (rnd (1 / 50) * dt) \<in> binary32" "0 \<le> rnd (rnd (1 / 50) * dt)"
    "rnd (rnd (1 / 50) * dt) < 1" by simp_all
  define tu where "tu = rnd (m30 (MatTransform waterMat) + rnd (rnd (1 / 10) * dt))"
  define tv where "tv = rnd (m31 (MatTransform waterMat) + rnd (rnd (1 / 50) * dt))"
  have mu: "m30 (MatTransform (scroll_water (rounded_ops rnd) dt waterMat)) =
      (if rnd 1 \<le> tu then rnd (tu - rnd 1) else tu)"
    by (simp add: scroll_water_def rounded_ops_def Let_def tu_def)
  have mv: "m31 (MatTransform (scroll_water (rounded_ops rnd) dt waterMat)) =
      (if rnd 1 \<le> tv then rnd (tv - rnd 1) else tv)"
    by (simp add: scroll_water_def rounded_ops_def Let_def tv_def)
  have eu: "fadd (rounded_ops rnd) (m30 (MatTransform waterMat))
      (fmul (rounded_ops rnd) (flit (rounded_ops rnd) 0.1) dt) = tu"
    by (simp add: rounded_ops_def tu_def)
  have ev: "fadd (rounded_ops rnd) (m31 (MatTransform waterMat))
      (fmul (rounded_ops rnd) (flit (rounded_ops rnd) 0.02) dt) = tv"
    by (simp add: rounded_ops_def tv_def)
  note wu = rounded_wrap [OF R assms(2,6,7) u d, folded tu_def mu]
  note wv = rounded_wrap [OF R assms(3,8,9) v, folded tv_def mv]
  show ?thesis
    unfolding Let_def eu ev using wu wv by blast
qed

text \<open>
  Rounding towards minus infinity, the water material with the offsets \<open>15/16\<close> and \<open>1/4\<close>, and
  a time step of one second: the literal \<^verbatim>\<open>0.1f\<close> lies between \<open>1/16\<close> and \<open>1/8\<close> however
  it is rounded, so the first offset reaches \<open>1\<close> and is wrapped, and the second is not.
\<close>

theorem water_scroll_keeps_offsets_in_unit_interval_witness:
  "is_rounding round_down \<and>
   m30 (MatTransform ((demo_material 1)\<lparr>MatTransform := set_m30_m31 (15 / 16) (1 / 4) Identity4x4\<rparr>)) = 15 / 16 \<and>
   m31 (MatTransform ((demo_material 1)\<lparr>MatTransform := set_m30_m31 (15 / 16) (1 / 4) Identity4x4\<rparr>)) = 1 / 4 \<and>
   15 / 16 \<in> binary32 \<and> 1 / 4 \<in> binary32 \<and>
   0 \<le> fmul (rounded_ops round_down) (flit (rounded_ops round_down) 0.1) 1 \<and>
   fmul (rounded_ops round_down) (flit (rounded_ops round_down) 0.1) 1 < 1 \<and>
   1 \<le> fadd (rounded_ops round_down) (15 / 16)
         (fmul (rounded_ops round_down) (flit (rounded_ops round_down) 0.1) 1) \<and>
   m30 (MatTransform (scroll_water (rounded_ops round_down) 1
        ((demo_material 1)\<lparr>MatTransform := set_m30_m31 (15 / 16) (1 / 4) Identity4x4\<rparr>))) =
     fadd (rounded_ops round_down) (15 / 16)
       (fmul (rounded_ops round_down) (flit (rounded_ops round_down) 0.1) 1) - 1 \<and>
   m31 (MatTransform (scroll_water (rounded_ops round_down) 1
        ((demo_material 1)\<lparr>MatTransform := set_m30_m31 (15 / 16) (1 / 4) Identity4x4\<rparr>))) =
     fadd (rounded_ops round_down) (1 / 4)
       (fmul (rounded_ops round_down) (flit (rounded_ops round_down) 0.02) 1) \<and>
   0 \<le> m30 (MatTransform (scroll_water (rounded_ops round_down) 1
        ((demo_material 1)\<lparr>MatTransform := set_m30_m31 (15 / 16) (1 / 4) Identity4x4\<rparr>))) \<and>
   m30 (MatTransform (scroll_water (rounded_ops round_down) 1
        ((demo_material 1)\<lparr>MatTransform := set_m30_m31 (15 / 16) (1 / 4) Identity4x4\<rparr>))) < 1 \<and>
   0 \<le> m31 (MatTransform (scroll_water (rounded_ops round_down) 1
        ((demo_material 1)\<lparr>MatTransform := set_m30_m31 (15 / 16) (1 / 4) Identity4x4\<rparr>))) \<and>
   m31 (MatTransform (scroll_water (rounded_ops round_down) 1
        ((demo_material 1)\<lparr>MatTransform := set_m30_m31 (15 / 16) (1 / 4) Identity4x4\<rparr>))) < 1"
proof -
  note R = is_rounding_round_down
  have b: "15 / 16 \<in> binary32" "1 / 4 \<in> binary32" "1 / 16 \<in> binary32" "1 / 8 \<in> binary32"
    "3 / 8 \<in> binary32"
    by (rule binary32I [where m = 15 and k = 145], simp_all)
       (rule binary32I [where m = 1 and k = 147], simp_all,
        rule binary32I [where m = 1 and k = 145], simp_all,
        rule binary32I [where m = 1 and k = 146], simp_all,
        rule binary32I [where m = 3 and k = 146], simp_all)
  have m: "m30 (MatTransform ((demo_material 1)\<lparr>MatTransform := set_m30_m31 (15 / 16) (1 / 4) Identity4x4\<rparr>)) = 15 / 16"
    "m31 (MatTransform ((demo_material 1)\<lparr>MatTransform := set_m30_m31 (15 / 16) (1 / 4) Identity4x4\<rparr>)) = 1 / 4"
    by simp_all
  have a: "1 / 16 \<le> round_down (1 / 10)" "round_down (1 / 10) \<le> 1 / 8"
    using rnd_mono [OF R, of "1 / 16" "1 / 10"] rnd_mono [OF R, of "1 / 10" "1 / 8"]
    by (simp_all add: rnd_fix [OF R b(3)] rnd_fix [OF R b(4)])
  have "\<bar>1 / 10 :: real\<bar> \<le> FLT_MAX" using FLT_MAX_ge_1 by simp
  with R have "round_down (1 / 10) \<in> binary32" by (simp add: is_rounding_def)
  from rnd_fix [OF R this] have aa: "round_down (round_down (1 / 10)) = round_down (1 / 10)" .
  have d: "0 \<le> fmul (rounded_ops round_down) (flit (rounded_ops round_down) 0.1) 1"
    "fmul (rounded_ops round_down) (flit (rounded_ops round_down) 0.1) 1 < 1"
    using a by (simp_all add: rounded_ops_def aa)
  have u1: "1 \<le> fadd (rounded_ops round_down) (15 / 16)
         (fmul (rounded_ops round_down) (flit (rounded_ops round_down) 0.1) 1)"
    using rnd_mono [OF R, of 1 "15 / 16 + round_down (1 / 10)"] a
    by (simp add: rounded_ops_def aa rnd_1 [OF R])
  have "round_down (1 / 50) \<le> round_down (1 / 10)"
    by (rule rnd_mono [OF R]) simp
  from rnd_mono [OF R this] have "round_down (round_down (1 / 50)) \<le> round_down (1 / 10)"
    by (simp only: aa)
  with a have "1 / 4 + round_down (round_down (1 / 50)) \<le> 3 / 8" by simp
  from rnd_mono [OF R this] have v1: "fadd (rounded_ops round_down) (1 / 4)
         (fmul (rounded_ops round_down) (flit (rounded_ops round_down) 0.02) 1) < 1"
    by (simp add: rounded_ops_def rnd_fix [OF R b(5)])
  note th = water_scroll_keeps_offsets_in_unit_interval
    [OF R, of "(demo_material 1)\<lparr>MatTransform := set_m30_m31 (15 / 16) (1 / 4) Identity4x4\<rparr>" 1, unfolded m Let_def, OF b(1,2) d]
  from th u1 v1 have c: "m30 (MatTransform (scroll_water (rounded_ops round_down) 1
        ((demo_material 1)\<lparr>MatTransform := set_m30_m31 (15 / 16) (1 / 4) Identity4x4\<rparr>))) =
     fadd (rounded_ops round_down) (15 / 16)
       (fmul (rounded_ops round_down) (flit (rounded_ops round_down) 0.1) 1) - 1"
    "m31 (MatTransform (scroll_water (rounded_ops round_down) 1
        ((demo_material 1)\<lparr>MatTransform := set_m30_m31 (15 / 16) (1 / 4) Identity4x4\<rparr>))) =
     fadd (rounded_ops round_down) (1 / 4)
       (fmul (rounded_ops round_down) (flit (rounded_ops round_down) 0.02) 1)"
    "0 \<le> m30 (MatTransform (scroll_water (rounded_ops round_down) 1
        ((demo_material 1)\<lparr>MatTransform := set_m30_m31 (15 / 16) (1 / 4) Identity4x4\<rparr>)))"
    "m30 (MatTransform (scroll_water (rounded_ops round_down) 1
        ((demo_material 1)\<lparr>MatTransform := set_m30_m31 (15 / 16) (1 / 4) Identity4x4\<rparr>))) < 1"
    "0 \<le> m31 (MatTransform (scroll_water (rounded_ops round_down) 1
        ((demo_material 1)\<lparr>MatTransform := set_m30_m31 (15 / 16) (1 / 4) Identity4x4\<rparr>)))"
    "m31 (MatTransform (scroll_water (rounded_ops round_down) 1
        ((demo_material 1)\<lparr>MatTransform := set_m30_m31 (15 / 16) (1 / 4) Identity4x4\<rparr>))) < 1"
    by simp_all
  from R m b(1,2) d u1 c show ?thesis by blast
qed

end
